theory Spec2Isabelle
  imports Complex_Main "HOL-Library.Sublist"
begin

section \<open>Strings as the service uses them\<close>

text \<open>
  Messages and payloads are \<open>string\<close>s (lists of characters). The service uses
  \<open>includes\<close> (here \<open>includes_str\<close>), \<open>toUpperCase\<close> and \<open>trim\<close> on them. The search for
  a substring is defined here. \<open>toUpperCase\<close> and \<open>trim\<close> are functions of the platform
  that know all of Unicode: they are inputs of the model (\<open>String_toUpperCase\<close> and
  \<open>String_trim\<close> of the environment below), and every theorem holds whatever they are.
  \<open>asciiUpperCase\<close> and \<open>asciiTrim\<close> are what they do on ASCII text; only the examples
  use them.
\<close>

fun includes_str :: "string \<Rightarrow> string \<Rightarrow> bool" where
  "includes_str [] searchString = (searchString = [])"
| "includes_str (c # cs) searchString = (prefix searchString (c # cs) \<or> includes_str cs searchString)"

definition upperChar :: "char \<Rightarrow> char" where
  "upperChar c =
     (let n = (of_char c :: nat) in if 97 \<le> n \<and> n \<le> 122 then char_of (n - 32) else c)"

definition asciiUpperCase :: "string \<Rightarrow> string" where
  "asciiUpperCase s = map upperChar s"

definition isWhiteSpace :: "char \<Rightarrow> bool" where
  "isWhiteSpace c = (c \<in> set [CHR 0x20, CHR 0x09, CHR 0x0A, CHR 0x0B, CHR 0x0C, CHR 0x0D])"

definition asciiTrim :: "string \<Rightarrow> string" where
  "asciiTrim s = rev (dropWhile isWhiteSpace (rev (dropWhile isWhiteSpace s)))"

fun digits :: "nat \<Rightarrow> string" where
  "digits n =
     (if n < 10 then [char_of (48 + n)] else digits (n div 10) @ [char_of (48 + n mod 10)])"

section \<open>Values decoded from JSON, and thrown values\<close>

datatype json =
    JNull
  | JBool bool
  | JNumber real
  | JString string
  | JArray "json list"
  | JObject "(string \<times> json) list"

text \<open>
  A thrown value is an \<open>Error\<close> object with its message, or any other value, kept as
  the text \<open>String(value)\<close> gives.
\<close>

datatype thrown = ErrorObj string | NonError string

text \<open>
  Reading a property: \<open>None\<close> is \<open>undefined\<close>; reading off \<open>null\<close> throws a TypeError.
  An object is the list of its own properties. The properties read in this program
  (\<open>sceneDescription\<close>, \<open>imagePrompt\<close>, \<open>error\<close>, \<open>imageUrl\<close>) exist on no primitive or array.
\<close>

definition nullPropertyError :: "string \<Rightarrow> thrown" where
  "nullPropertyError key =
     ErrorObj (''Cannot read properties of null (reading '' @ key @ '')'')"

fun getProperty :: "json \<Rightarrow> string \<Rightarrow> thrown + json option" where
  "getProperty JNull key = Inl (nullPropertyError key)"
| "getProperty (JObject props) key = Inr (map_of props key)"
| "getProperty v key = Inr None"

fun truthy :: "json option \<Rightarrow> bool" where
  "truthy None = False"
| "truthy (Some JNull) = False"
| "truthy (Some (JBool b)) = b"
| "truthy (Some (JNumber x)) = (x \<noteq> 0)"
| "truthy (Some (JString s)) = (s \<noteq> [])"
| "truthy (Some (JArray xs)) = True"
| "truthy (Some (JObject props)) = True"

section \<open>The response parser\<close>

text \<open>
  The fence pattern \<^verbatim>\<open>/^```(?:json)?\s*\n?(.*?)\n?\s*```$/s\<close> matches a text that opens and
  closes with three backquotes that do not overlap. The optional tag and the greedy
  white space are taken first, and the lazy group stops at the last character that is
  not white space: group 1 is the trimmed text between tag and closing fence (the
  pattern's \<^verbatim>\<open>\s\<close> and \<open>trim\<close> strip the same characters). \<open>trimText\<close> is the platform's
  \<open>trim\<close>.
\<close>

definition fence :: string where
  "fence = [CHR 0x60, CHR 0x60, CHR 0x60]"

definition fenceMatch :: "(string \<Rightarrow> string) \<Rightarrow> string \<Rightarrow> string option" where
  "fenceMatch trimText s =
     (if 6 \<le> length s \<and> take 3 s = fence \<and> drop (length s - 3) s = fence then
        (let inner = take (length s - 6) (drop 3 s);
             rest = (if prefix ''json'' inner then drop 4 inner else inner)
         in Some (trimText rest))
      else None)"

definition stripFence :: "(string \<Rightarrow> string) \<Rightarrow> string \<Rightarrow> string" where
  "stripFence trimText responseText =
     (let jsonStr = trimText responseText in
      case fenceMatch trimText jsonStr of
        None \<Rightarrow> jsonStr
      | Some group1 \<Rightarrow> if group1 \<noteq> [] then trimText group1 else jsonStr)"

text \<open>
  \<open>JSON.parse\<close> is the platform's decoder, taken as a parameter: it gives the decoded
  value or throws a SyntaxError (\<open>Inl\<close>). The body of the \<open>try\<close> block either returns
  or throws; the \<open>catch\<close> turns every throw into \<open>null\<close>.
\<close>

definition parseBody ::
  "(string \<Rightarrow> thrown + json) \<Rightarrow> (string \<Rightarrow> string) \<Rightarrow> string \<Rightarrow> thrown + json option" where
  "parseBody jsonParse trimText responseText =
     (case jsonParse (stripFence trimText responseText) of
        Inl e \<Rightarrow> Inl e
      | Inr parsed \<Rightarrow>
          (case getProperty parsed ''sceneDescription'' of
             Inl e \<Rightarrow> Inl e
           | Inr scene \<Rightarrow>
               if truthy scene then
                 (case getProperty parsed ''imagePrompt'' of
                    Inl e \<Rightarrow> Inl e
                  | Inr prompt \<Rightarrow> if truthy prompt then Inr (Some parsed) else Inr None)
               else Inr None))"

definition parseGeminiResponse ::
  "(string \<Rightarrow> thrown + json) \<Rightarrow> (string \<Rightarrow> string) \<Rightarrow> string \<Rightarrow> thrown + json option" where
  "parseGeminiResponse jsonParse trimText responseText =
     (case parseBody jsonParse trimText responseText of
        Inl e \<Rightarrow> Inr None
      | Inr r \<Rightarrow> Inr r)"

section \<open>Retry configuration and backoff delay\<close>

definition maxRetries :: nat where "maxRetries = 3"
definition baseDelay :: real where "baseDelay = 1000"
definition maxDelay :: real where "maxDelay = 8000"
definition backoffFactor :: real where "backoffFactor = 2"

definition attemptBaseDelay :: "nat \<Rightarrow> real" where
  "attemptBaseDelay attempt = min (baseDelay * backoffFactor ^ attempt) maxDelay"

definition delayMs :: "nat \<Rightarrow> real \<Rightarrow> real" where
  "delayMs attempt rnd =
     (let jitter = rnd * 0.3 * attemptBaseDelay attempt in attemptBaseDelay attempt + jitter)"

section \<open>The circuit breaker and the world it lives in\<close>

record circuit_breaker =
  failures :: nat
  lastFailureTime :: int
  isOpen :: bool
  openUntil :: int

definition failureThreshold :: nat where "failureThreshold = 5"
definition resetTimeout :: int where "resetTimeout = 30000"

datatype chat = Chat string

datatype send_outcome = Response "string option" | Throws thrown

datatype effect =
    SessionCreated string
  | MessageSent chat string
  | Slept real
  | SuccessRecorded
  | FailureRecorded
  | BreakerReclosed

text \<open>
  What the program cannot decide is an input: the \<open>k\<close>-th reading of the clock, the
  \<open>k\<close>-th random number, the outcome of the \<open>k\<close>-th message sent to the provider, and
  the platform's JSON decoder, \<open>trim\<close> and \<open>toUpperCase\<close>.
\<close>

record env =
  Date_now :: "nat \<Rightarrow> int"
  Math_random :: "nat \<Rightarrow> real"
  chat_sendMessage :: "nat \<Rightarrow> chat \<Rightarrow> string \<Rightarrow> send_outcome"
  JSON_parse :: "string \<Rightarrow> thrown + json"
  String_trim :: "string \<Rightarrow> string"
  String_toUpperCase :: "string \<Rightarrow> string"

text \<open>
  The mutable state: the module-level breaker, how many readings each input has
  given so far, and the effects in the order they happened.
\<close>

record world =
  circuitBreakerState :: circuit_breaker
  clockReads :: nat
  randomDraws :: nat
  providerCalls :: nat
  effects :: "effect list"

definition GEMINI_MODEL_NAME :: string where "GEMINI_MODEL_NAME = ''gemini-2.0-flash''"
definition FALLBACK_MODEL_NAME :: string where "FALLBACK_MODEL_NAME = ''gemini-1.5-flash''"

definition createChatSession :: "string \<Rightarrow> world \<Rightarrow> chat \<times> world" where
  "createChatSession modelName w =
     (Chat modelName, w\<lparr>effects := effects w @ [SessionCreated modelName]\<rparr>)"

definition checkCircuitBreaker :: "env \<Rightarrow> world \<Rightarrow> bool \<times> world" where
  "checkCircuitBreaker env w =
     (let now = Date_now env (clockReads w);
          w1 = w\<lparr>clockReads := clockReads w + 1\<rparr>;
          cb = circuitBreakerState w1
      in if isOpen cb then
           (if now > openUntil cb then
              (True, w1\<lparr>circuitBreakerState := cb\<lparr>isOpen := False, failures := 0\<rparr>,
                        effects := effects w1 @ [BreakerReclosed]\<rparr>)
            else (False, w1))
         else (True, w1))"

definition recordFailure :: "env \<Rightarrow> world \<Rightarrow> world" where
  "recordFailure env w =
     (let cb = circuitBreakerState w;
          cb1 = cb\<lparr>failures := failures cb + 1, lastFailureTime := Date_now env (clockReads w)\<rparr>;
          w1 = w\<lparr>clockReads := clockReads w + 1, effects := effects w @ [FailureRecorded]\<rparr>
      in if failures cb1 \<ge> failureThreshold then
           w1\<lparr>circuitBreakerState :=
                 cb1\<lparr>isOpen := True, openUntil := Date_now env (clockReads w1) + resetTimeout\<rparr>,
               clockReads := clockReads w1 + 1\<rparr>
         else w1\<lparr>circuitBreakerState := cb1\<rparr>)"

definition recordSuccess :: "world \<Rightarrow> world" where
  "recordSuccess w =
     w\<lparr>circuitBreakerState := (circuitBreakerState w)\<lparr>failures := 0, isOpen := False\<rparr>,
       effects := effects w @ [SuccessRecorded]\<rparr>"

definition delay :: "env \<Rightarrow> nat \<Rightarrow> world \<Rightarrow> world" where
  "delay env attempt w =
     w\<lparr>randomDraws := randomDraws w + 1,
       effects := effects w @ [Slept (delayMs attempt (Math_random env (randomDraws w)))]\<rparr>"

section \<open>Sending one turn\<close>

definition isRetryableError :: "string \<Rightarrow> bool" where
  "isRetryableError m =
     (includes_str m ''503'' \<or> includes_str m ''502'' \<or> includes_str m ''500'' \<or>
      includes_str m ''UNAVAILABLE'' \<or> includes_str m ''overloaded'' \<or>
      includes_str m ''temporarily unavailable'')"

definition isOverloaded :: "string \<Rightarrow> bool" where
  "isOverloaded m = (includes_str m ''503'' \<or> includes_str m ''UNAVAILABLE'' \<or> includes_str m ''overloaded'')"

definition unavailableMessage :: string where
  "unavailableMessage = ''Both primary and fallback AI services are temporarily unavailable due to repeated failures. Please wait a moment and try again.''"

definition invalidKeyMessage :: string where
  "invalidKeyMessage = ''Invalid API Key. Please check your API_KEY environment variable.''"

definition rateLimitMessage :: string where
  "rateLimitMessage = ''RateLimitError: API quota exceeded for text generation. Please check your plan/billing or try again later.''"

definition overloadedMessage :: string where
  "overloadedMessage = ''The Gemini AI service is currently overloaded. Please try again in a few minutes. If the problem persists, consider switching to a different model or checking Google AI Studio for service status.''"

definition unknownMessage :: string where
  "unknownMessage = ''Unknown error occurred during retry attempts''"

fun messageOf :: "thrown \<Rightarrow> string" where
  "messageOf (ErrorObj m) = m"
| "messageOf (NonError s) = s"

fun asError :: "thrown \<Rightarrow> thrown" where
  "asError (ErrorObj m) = ErrorObj m"
| "asError (NonError s) = ErrorObj s"

text \<open>
  The \<open>try\<close> block of one attempt: send the message; an empty or missing text is returned
  as \<open>null\<close> at once; otherwise the success is recorded and the text is parsed.
\<close>

definition tryBlock :: "env \<Rightarrow> chat \<Rightarrow> string \<Rightarrow> world \<Rightarrow> (thrown + json option) \<times> world" where
  "tryBlock env chat message w =
     (let outcome = chat_sendMessage env (providerCalls w) chat message;
          w1 = w\<lparr>providerCalls := providerCalls w + 1,
                 effects := effects w @ [MessageSent chat message]\<rparr>
      in case outcome of
           Throws e \<Rightarrow> (Inl e, w1)
         | Response None \<Rightarrow> (Inr None, w1)
         | Response (Some responseText) \<Rightarrow>
             if responseText = [] then (Inr None, w1)
             else (parseGeminiResponse (JSON_parse env) (String_trim env) responseText,
                   recordSuccess w1))"

text \<open>
  The throws of the \<open>catch\<close> block that end the call at once: an invalid key, an
  exhausted quota, and any \<open>Error\<close> without a retryable marker. A thrown value that is
  no \<open>Error\<close> object skips the whole block.
\<close>

fun nonRetryable :: "env \<Rightarrow> thrown \<Rightarrow> thrown option" where
  "nonRetryable env (NonError s) = None"
| "nonRetryable env (ErrorObj m) =
     (if includes_str m ''API key not valid'' then Some (ErrorObj invalidKeyMessage)
      else if includes_str m ''429'' \<and>
              includes_str (String_toUpperCase env m) ''RESOURCE_EXHAUSTED'' then
        Some (ErrorObj rateLimitMessage)
      else if \<not> isRetryableError m then Some (ErrorObj m)
      else None)"

fun overloadedError :: "thrown \<Rightarrow> bool" where
  "overloadedError (NonError s) = False"
| "overloadedError (ErrorObj m) = isOverloaded m"

text \<open>The last attempt failed: record the failure, then throw.\<close>

definition exhaust :: "env \<Rightarrow> thrown \<Rightarrow> world \<Rightarrow> (thrown + json option) \<times> world" where
  "exhaust env error w =
     (let w1 = recordFailure env w; lastError = asError error
      in if isOverloaded (messageOf lastError) then (Inl (ErrorObj overloadedMessage), w1)
         else (Inl lastError, w1))"

text \<open>
  \<open>sendMessageToGemini\<close> and its \<open>for\<close> loop. After a retryable failure of the first
  attempt of a call that is no fallback, the fallback model is tried through the function
  itself: its result (\<open>Some\<close>) is returned, its throw is dropped (\<open>None\<close>) and the loop
  goes on to the exhaustion check and the delay.
\<close>

function sendMessageToGemini ::
    "env \<Rightarrow> chat \<Rightarrow> string \<Rightarrow> bool \<Rightarrow> world \<Rightarrow> (thrown + json option) \<times> world"
  and retryLoop ::
    "env \<Rightarrow> chat \<Rightarrow> string \<Rightarrow> bool \<Rightarrow> nat \<Rightarrow> thrown option \<Rightarrow> world
       \<Rightarrow> (thrown + json option) \<times> world"
where
  "sendMessageToGemini env chat message useFallback w =
     (case checkCircuitBreaker env w of
        (False, w1) \<Rightarrow>
          if \<not> useFallback then
            (case createChatSession FALLBACK_MODEL_NAME w1 of
               (fallbackChat, w2) \<Rightarrow> sendMessageToGemini env fallbackChat message True w2)
          else (Inl (ErrorObj unavailableMessage), w1)
      | (True, w1) \<Rightarrow> retryLoop env chat message useFallback 0 None w1)"
| "retryLoop env chat message useFallback attempt lastError w =
     (if attempt \<le> maxRetries then
        (case tryBlock env chat message w of
           (Inr result, w1) \<Rightarrow> (Inr result, w1)
         | (Inl error, w1) \<Rightarrow>
             (case nonRetryable env error of
                Some e \<Rightarrow> (Inl e, w1)
              | None \<Rightarrow>
                  (case
                     (if \<not> useFallback \<and> attempt = 0 \<and> overloadedError error then
                        (case createChatSession FALLBACK_MODEL_NAME w1 of
                           (fallbackChat, w2) \<Rightarrow>
                             (case sendMessageToGemini env fallbackChat message True w2 of
                                (Inr result, w3) \<Rightarrow> (Some result, w3)
                              | (Inl fallbackError, w3) \<Rightarrow> (None, w3)))
                      else (None, w1))
                   of
                     (Some result, w2) \<Rightarrow> (Inr result, w2)
                   | (None, w2) \<Rightarrow>
                       if attempt = maxRetries then exhaust env error w2
                       else retryLoop env chat message useFallback (attempt + 1)
                              (Some (asError error)) (delay env attempt w2))))
      else
        (Inl (case lastError of Some e \<Rightarrow> e | None \<Rightarrow> ErrorObj unknownMessage), w))"
  by pat_completeness auto
termination
  by (relation "measure (\<lambda>x. case x of
         Inl (env, chat, message, useFallback, w) \<Rightarrow> (if useFallback then 0 else 10) + 5
       | Inr (env, chat, message, useFallback, attempt, lastError, w) \<Rightarrow>
           (if useFallback then 0 else 10) + (4 - attempt))")
     (auto simp: maxRetries_def)

section \<open>Counting what a call did\<close>

fun isBreakerRecord :: "effect \<Rightarrow> bool" where
  "isBreakerRecord SuccessRecorded = True"
| "isBreakerRecord FailureRecorded = True"
| "isBreakerRecord e = False"

fun isBreakerReset :: "effect \<Rightarrow> bool" where
  "isBreakerReset SuccessRecorded = True"
| "isBreakerReset BreakerReclosed = True"
| "isBreakerReset e = False"

fun isSessionCreated :: "effect \<Rightarrow> bool" where
  "isSessionCreated (SessionCreated modelName) = True"
| "isSessionCreated e = False"

definition breakerRecords :: "world \<Rightarrow> nat" where
  "breakerRecords w = length (filter isBreakerRecord (effects w))"

definition sessionsCreated :: "world \<Rightarrow> nat" where
  "sessionsCreated w = length (filter isSessionCreated (effects w))"

definition failuresRecorded :: "world \<Rightarrow> nat" where
  "failuresRecorded w = length (filter (\<lambda>e. e = FailureRecorded) (effects w))"

definition breakerResets :: "world \<Rightarrow> nat" where
  "breakerResets w = length (filter isBreakerReset (effects w))"

text \<open>
  A turn is one top-level call. It is exhausted when the last thing it did was to
  record a failure, and it belongs to a run of consecutive failures when nothing in it
  reset the failure count (no success, no re-closing of the breaker after the timeout).
\<close>

definition turn :: "env \<Rightarrow> chat \<Rightarrow> string \<Rightarrow> world \<Rightarrow> world" where
  "turn env chat message w = snd (sendMessageToGemini env chat message False w)"

definition exhaustedTurn :: "env \<Rightarrow> chat \<Rightarrow> string \<Rightarrow> world \<Rightarrow> bool" where
  "exhaustedTurn env chat message w =
     (let w' = turn env chat message w;
          new = drop (length (effects w)) (effects w')
      in new \<noteq> [] \<and> last new = FailureRecorded \<and> breakerResets w' = breakerResets w)"

text \<open>
  A call ends recording when the last thing it did was to run \<open>recordSuccess\<close> or
  \<open>recordFailure\<close>.
\<close>

definition endsRecording :: "world \<Rightarrow> world \<Rightarrow> bool" where
  "endsRecording w w' =
     (let new = drop (length (effects w)) (effects w')
      in new \<noteq> [] \<and> isBreakerRecord (last new))"

fun turns :: "env \<Rightarrow> chat \<Rightarrow> string list \<Rightarrow> world \<Rightarrow> world" where
  "turns env chat [] w = w"
| "turns env chat (m # ms) w = turns env chat ms (turn env chat m w)"

fun allExhausted :: "env \<Rightarrow> chat \<Rightarrow> string list \<Rightarrow> world \<Rightarrow> bool" where
  "allExhausted env chat [] w = True"
| "allExhausted env chat (m # ms) w =
     (exhaustedTurn env chat m w \<and> allExhausted env chat ms (turn env chat m w))"

text \<open>The breaker is open whenever the failure count has reached the threshold.\<close>

definition breakerConsistent :: "world \<Rightarrow> bool" where
  "breakerConsistent w =
     (isOpen (circuitBreakerState w) \<or> failures (circuitBreakerState w) < failureThreshold)"

definition initialWorld :: world where
  "initialWorld =
     \<lparr>circuitBreakerState = \<lparr>failures = 0, lastFailureTime = 0, isOpen = False, openUntil = 0\<rparr>,
      clockReads = 0, randomDraws = 0, providerCalls = 0, effects = []\<rparr>"

section \<open>The image request\<close>

record http_response =
  status :: nat
  statusText :: string
  json_body :: "thrown + json"

datatype fetch_outcome = FetchResolves http_response | FetchRejects thrown

definition response_ok :: "http_response \<Rightarrow> bool" where
  "response_ok response = (200 \<le> status response \<and> status response \<le> 299)"

definition cloudflareRateLimitMessage :: string where
  "cloudflareRateLimitMessage = ''RateLimitError: Cloudflare API quota exceeded. Please check your plan/billing or try again later.''"

definition cloudflareInvalidKeyMessage :: string where
  "cloudflareInvalidKeyMessage = ''Invalid Cloudflare API Key. Please check your CLOUDFLARE_API_KEY environment variable.''"

text \<open>
  The text that \<^verbatim>\<open>${errorData.error || ''}\<close> puts into the message: a string as it is,
  nothing for a falsy value, and for any other value what the platform's conversion
  \<open>toText\<close> gives.
\<close>

fun errorDetail :: "(json \<Rightarrow> string) \<Rightarrow> json option \<Rightarrow> string" where
  "errorDetail toText None = []"
| "errorDetail toText (Some (JString s)) = s"
| "errorDetail toText (Some v) = (if truthy (Some v) then toText v else [])"

text \<open>
  \<open>hasKey\<close> says whether \<open>CLOUDFLARE_API_KEY\<close> is set; \<open>fetchRelay\<close> is the outcome of the
  POST of the prompt to the relay, whatever answers it; \<open>json_body\<close> is what
  \<open>response.json()\<close> gives: the decoded body, or the SyntaxError thrown on a body that is
  no JSON. On a status outside 200..299 the body is decoded before the status is compared.
\<close>

definition generateImageWithCloudflare ::
  "(json \<Rightarrow> string) \<Rightarrow> bool \<Rightarrow> (string \<Rightarrow> fetch_outcome) \<Rightarrow> string \<Rightarrow> thrown + json option" where
  "generateImageWithCloudflare toText hasKey fetchRelay prompt =
     (if \<not> hasKey then Inl (ErrorObj ''Cloudflare API key is not configured'')
      else
        (case fetchRelay prompt of
           FetchRejects e \<Rightarrow> Inl e
         | FetchResolves response \<Rightarrow>
             if \<not> response_ok response then
               (case json_body response of
                  Inl e \<Rightarrow> Inl e
                | Inr errorData \<Rightarrow>
                    if status response = 429 then Inl (ErrorObj cloudflareRateLimitMessage)
                    else if status response = 401 then Inl (ErrorObj cloudflareInvalidKeyMessage)
                    else
                      (case getProperty errorData ''error'' of
                         Inl e \<Rightarrow> Inl e
                       | Inr detail \<Rightarrow>
                           Inl (ErrorObj (''Cloudflare API error: '' @ digits (status response)
                                  @ '' '' @ statusText response @ ''. ''
                                  @ errorDetail toText detail))))
             else
               (case json_body response of
                  Inl e \<Rightarrow> Inl e
                | Inr data \<Rightarrow> getProperty data ''imageUrl'')))"

section \<open>The first failure of a call, and what the proofs count\<close>

text \<open>
  The world after the admission check and a first attempt that failed, and the call
  made then on a fresh session of the fallback model.
\<close>

definition firstAttemptFailed :: "env \<Rightarrow> chat \<Rightarrow> string \<Rightarrow> world \<Rightarrow> world" where
  "firstAttemptFailed env chat message w =
     (snd (checkCircuitBreaker env w))
       \<lparr>providerCalls := providerCalls w + 1,
        effects := effects (snd (checkCircuitBreaker env w)) @ [MessageSent chat message]\<rparr>"

definition fallbackCall ::
  "env \<Rightarrow> chat \<Rightarrow> string \<Rightarrow> world \<Rightarrow> (thrown + json option) \<times> world" where
  "fallbackCall env chat message w =
     sendMessageToGemini env (Chat FALLBACK_MODEL_NAME) message True
       (snd (createChatSession FALLBACK_MODEL_NAME (firstAttemptFailed env chat message w)))"

text \<open>
  The relation between the worlds before and after any step of a call: effects are only
  appended, a consistent breaker stays consistent, and as long as nothing resets the
  count, the failure count grows by the number of failures recorded.
\<close>

definition keepsCount :: "world \<Rightarrow> world \<Rightarrow> bool" where
  "keepsCount w w' =
     (prefix (effects w) (effects w') \<and>
      (breakerConsistent w \<longrightarrow> breakerConsistent w') \<and>
      (breakerResets w' = breakerResets w \<longrightarrow>
         failures (circuitBreakerState w') =
           failures (circuitBreakerState w) + (failuresRecorded w' - failuresRecorded w)))"

text \<open>
  The effects of a loop hold a breaker record only in the last place, if at all.
\<close>

definition recordsOnlyLast :: "effect list \<Rightarrow> bool" where
  "recordsOnlyLast new =
     (length (filter isBreakerRecord new) =
        (if new \<noteq> [] \<and> isBreakerRecord (last new) then 1 else 0))"

text \<open>A property of a decoded value, \<open>undefined\<close> on anything that is no object.\<close>

fun ownProperty :: "json \<Rightarrow> string \<Rightarrow> json option" where
  "ownProperty (JObject props) key = map_of props key"
| "ownProperty v key = None"

section \<open>Inputs for the examples\<close>

text \<open>
  An environment whose provider follows a script: the \<open>k\<close>-th message gets the \<open>k\<close>-th
  outcome of the list, every later one gets \<open>rest\<close>. Its random numbers are all 1/2, its
  decoder rejects every text, and its \<open>trim\<close> and \<open>toUpperCase\<close> are those of ASCII text.
\<close>

definition scriptedEnv :: "(nat \<Rightarrow> int) \<Rightarrow> send_outcome list \<Rightarrow> send_outcome \<Rightarrow> env" where
  "scriptedEnv clock outcomes rest =
     \<lparr>Date_now = clock, Math_random = (\<lambda>k. 1 / 2),
      chat_sendMessage = (\<lambda>k c m. if k < length outcomes then outcomes ! k else rest),
      JSON_parse = (\<lambda>s. Inl (ErrorObj ''Unexpected token'')),
      String_trim = asciiTrim, String_toUpperCase = asciiUpperCase\<rparr>"

definition tickingClock :: "nat \<Rightarrow> int" where
  "tickingClock k = int k"

definition lateClock :: "nat \<Rightarrow> int" where
  "lateClock k = 101 + int k"

definition frozenClock :: "nat \<Rightarrow> int" where
  "frozenClock k = 0"

definition openWorld :: world where
  "openWorld = initialWorld\<lparr>circuitBreakerState :=
     \<lparr>failures = 5, lastFailureTime = 70, isOpen = True, openUntil = 100\<rparr>\<rparr>"

definition overloadThenText :: env where
  "overloadThenText =
     scriptedEnv tickingClock [Throws (ErrorObj ''503''), Throws (ErrorObj ''503'')]
       (Response (Some ''nope''))"

definition serverErrorThenText :: env where
  "serverErrorThenText =
     scriptedEnv tickingClock [Throws (ErrorObj ''500'')] (Response (Some ''nope''))"

definition allOverloaded :: env where
  "allOverloaded = scriptedEnv tickingClock [] (Throws (ErrorObj ''503''))"

definition alwaysServerError :: env where
  "alwaysServerError = scriptedEnv frozenClock [] (Throws (ErrorObj ''500''))"

text \<open>
  The primary model is overloaded at every attempt, and the fallback model answers its
  first message with an exhausted quota.
\<close>

definition quotaInsideFallback :: env where
  "quotaInsideFallback =
     scriptedEnv tickingClock
       [Throws (ErrorObj ''503''), Throws (ErrorObj ''429 RESOURCE_EXHAUSTED'')]
       (Throws (ErrorObj ''503''))"

definition emptyAnswer :: env where
  "emptyAnswer = scriptedEnv tickingClock [] (Response (Some []))"

text \<open>A decoder that knows four texts, and a fenced payload.\<close>

definition sceneJson :: string where
  "sceneJson = ''{\"sceneDescription\":\"a\",\"imagePrompt\":\"b\"}''"

definition emptyFieldsJson :: string where
  "emptyFieldsJson = ''{\"sceneDescription\":[],\"imagePrompt\":{}}''"

definition decodeStub :: "string \<Rightarrow> thrown + json" where
  "decodeStub s =
     (if s = sceneJson then
        Inr (JObject [(''sceneDescription'', JString ''a''), (''imagePrompt'', JString ''b'')])
      else if s = emptyFieldsJson then
        Inr (JObject [(''sceneDescription'', JArray []), (''imagePrompt'', JObject [])])
      else if s = ''{\"sceneDescription\":\"a\"}'' then
        Inr (JObject [(''sceneDescription'', JString ''a'')])
      else if s = ''null'' then Inr JNull
      else Inl (ErrorObj ''Unexpected token''))"

definition fencedScene :: string where
  "fencedScene = [CHR 0x20] @ fence @ ''json'' @ [CHR 0x0A] @ sceneJson @ [CHR 0x0A] @ fence @ [CHR 0x0A]"

text \<open>
  Replies to the image request: one with a JSON object as its body, and the page an HTTP
  server sends for a request body over its size limit, which no JSON decoder accepts.
\<close>

definition replyWith :: "http_response \<Rightarrow> string \<Rightarrow> fetch_outcome" where
  "replyWith response prompt = FetchResolves response"

definition jsonReply :: "nat \<Rightarrow> string \<Rightarrow> (string \<times> json) list \<Rightarrow> http_response" where
  "jsonReply code reason obj =
     \<lparr>status = code, statusText = reason, json_body = Inr (JObject obj)\<rparr>"

definition payloadTooLarge :: http_response where
  "payloadTooLarge =
     \<lparr>status = 413, statusText = ''Payload Too Large'',
      json_body = Inl (ErrorObj ''Unexpected token < in JSON at position 0'')\<rparr>"

definition badGateway :: http_response where
  "badGateway =
     \<lparr>status = 502, statusText = ''Bad Gateway'',
      json_body = Inl (ErrorObj ''Unexpected end of JSON input'')\<rparr>"

definition plainText :: "json \<Rightarrow> string" where
  "plainText v = ''[object Object]''"

section \<open>Lemmas\<close>

declare sendMessageToGemini.simps [simp del] retryLoop.simps [simp del]

subsection \<open>One step of the call and of the loop\<close>

lemma send_admitted:
  "checkCircuitBreaker env w = (True, w1) \<Longrightarrow>
   sendMessageToGemini env chat message fb w = retryLoop env chat message fb 0 None w1"
  by (simp add: sendMessageToGemini.simps)

lemma send_refused_fallback:
  "checkCircuitBreaker env w = (False, w1) \<Longrightarrow>
   sendMessageToGemini env chat message True w = (Inl (ErrorObj unavailableMessage), w1)"
  by (simp add: sendMessageToGemini.simps)

lemma send_refused_primary:
  "checkCircuitBreaker env w = (False, w1) \<Longrightarrow>
   sendMessageToGemini env chat message False w =
     sendMessageToGemini env (Chat FALLBACK_MODEL_NAME) message True
       (snd (createChatSession FALLBACK_MODEL_NAME w1))"
  by (simp add: sendMessageToGemini.simps createChatSession_def)

lemma retryLoop_done:
  "\<not> attempt \<le> maxRetries \<Longrightarrow>
   retryLoop env chat message fb attempt le w =
     (Inl (case le of Some e \<Rightarrow> e | None \<Rightarrow> ErrorObj unknownMessage), w)"
  by (simp add: retryLoop.simps)

lemma retryLoop_return:
  "attempt \<le> maxRetries \<Longrightarrow> tryBlock env chat message w = (Inr r, w1) \<Longrightarrow>
   retryLoop env chat message fb attempt le w = (Inr r, w1)"
  by (simp add: retryLoop.simps)

lemma retryLoop_rethrow:
  "attempt \<le> maxRetries \<Longrightarrow> tryBlock env chat message w = (Inl e, w1) \<Longrightarrow>
   nonRetryable env e = Some e' \<Longrightarrow>
   retryLoop env chat message fb attempt le w = (Inl e', w1)"
  by (simp add: retryLoop.simps)

lemma retryLoop_exhaust:
  "attempt = maxRetries \<Longrightarrow> tryBlock env chat message w = (Inl e, w1) \<Longrightarrow>
   nonRetryable env e = None \<Longrightarrow>
   retryLoop env chat message fb attempt le w = exhaust env e w1"
  by (simp add: retryLoop.simps maxRetries_def)

lemma retryLoop_retry:
  "attempt < maxRetries \<Longrightarrow> tryBlock env chat message w = (Inl e, w1) \<Longrightarrow>
   nonRetryable env e = None \<Longrightarrow> fb \<or> 0 < attempt \<or> \<not> overloadedError e \<Longrightarrow>
   retryLoop env chat message fb attempt le w =
     retryLoop env chat message fb (attempt + 1) (Some (asError e)) (delay env attempt w1)"
  by (subst retryLoop.simps) auto

lemma retryLoop_escalate:
  "tryBlock env chat message w = (Inl e, w1) \<Longrightarrow> nonRetryable env e = None \<Longrightarrow>
   overloadedError e \<Longrightarrow>
   retryLoop env chat message False 0 le w =
     (case sendMessageToGemini env (Chat FALLBACK_MODEL_NAME) message True
             (snd (createChatSession FALLBACK_MODEL_NAME w1)) of
        (Inr r, w3) \<Rightarrow> (Inr r, w3)
      | (Inl fallbackError, w3) \<Rightarrow>
          retryLoop env chat message False 1 (Some (asError e)) (delay env 0 w3))"
  by (subst retryLoop.simps)
     (simp add: maxRetries_def createChatSession_def split: prod.splits sum.splits)

subsection \<open>A relation kept by every step is kept by the whole call\<close>

lemma noesc_loop_preserves:
  assumes refl: "\<And>w. R w w" and trans: "\<And>a b c. R a b \<Longrightarrow> R b c \<Longrightarrow> R a c"
    and tryB: "\<And>env c m w. R w (snd (tryBlock env c m w))"
    and fail: "\<And>env w. R w (recordFailure env w)"
    and slp: "\<And>env a w. R w (delay env a w)"
    and noesc: "fb \<or> 0 < attempt"
  shows "R w (snd (retryLoop env chat message fb attempt le w))"
  using noesc
proof (induction "Suc maxRetries - attempt" arbitrary: attempt le w)
  case 0
  then show ?case by (simp add: retryLoop_done refl)
next
  case (Suc n)
  then have le: "attempt \<le> maxRetries" by simp
  obtain x w1 where t: "tryBlock env chat message w = (x, w1)" by fastforce
  have ww1: "R w w1" using tryB[of w env chat message] t by simp
  show ?case
  proof (cases x)
    case (Inr r)
    then show ?thesis using retryLoop_return[OF le, of env chat message w r w1] t ww1 by simp
  next
    case (Inl e)
    show ?thesis
    proof (cases "nonRetryable env e")
      case (Some e')
      then show ?thesis
        using retryLoop_rethrow[OF le, of env chat message w e w1 e'] t Inl ww1 by simp
    next
      case None
      show ?thesis
      proof (cases "attempt = maxRetries")
        case True
        have "R w1 (snd (exhaust env e w1))"
          by (simp add: exhaust_def Let_def fail)
        then show ?thesis
          using retryLoop_exhaust[OF True, of env chat message w e w1] t Inl None ww1
          by (auto intro: trans)
      next
        case False
        then have lt: "attempt < maxRetries" using le by simp
        have n: "n = Suc maxRetries - (attempt + 1)" using Suc.hyps(2) by simp
        have "R (delay env attempt w1)
                (snd (retryLoop env chat message fb (attempt + 1) (Some (asError e))
                        (delay env attempt w1)))"
          using Suc.hyps(1)[OF n] by simp
        moreover have "R w (delay env attempt w1)"
          using ww1 slp[of w1 env attempt] by (rule trans)
        ultimately show ?thesis
          using retryLoop_retry[OF lt, of env chat message w e w1 fb] t Inl None Suc.prems
          by (auto intro: trans)
      qed
    qed
  qed
qed

lemma fallback_call_preserves:
  assumes refl: "\<And>w. R w w" and trans: "\<And>a b c. R a b \<Longrightarrow> R b c \<Longrightarrow> R a c"
    and chk: "\<And>env w. R w (snd (checkCircuitBreaker env w))"
    and tryB: "\<And>env c m w. R w (snd (tryBlock env c m w))"
    and fail: "\<And>env w. R w (recordFailure env w)"
    and slp: "\<And>env a w. R w (delay env a w)"
  shows "R w (snd (sendMessageToGemini env chat message True w))"
proof -
  obtain a w1 where c: "checkCircuitBreaker env w = (a, w1)" by fastforce
  have ww1: "R w w1" using chk[of w env] c by simp
  show ?thesis
  proof (cases a)
    case True
    have "R w1 (snd (retryLoop env chat message True 0 None w1))"
      using noesc_loop_preserves[of R True 0, OF refl trans tryB fail slp] by simp
    then show ?thesis using c True ww1 by (auto simp: send_admitted intro: trans)
  next
    case False
    then show ?thesis using c ww1 by (simp add: send_refused_fallback)
  qed
qed

lemma first_loop_preserves:
  assumes refl: "\<And>w. R w w" and trans: "\<And>a b c. R a b \<Longrightarrow> R b c \<Longrightarrow> R a c"
    and chk: "\<And>env w. R w (snd (checkCircuitBreaker env w))"
    and ses: "\<And>n w. R w (snd (createChatSession n w))"
    and tryB: "\<And>env c m w. R w (snd (tryBlock env c m w))"
    and fail: "\<And>env w. R w (recordFailure env w)"
    and slp: "\<And>env a w. R w (delay env a w)"
  shows "R w (snd (retryLoop env chat message False 0 le w))"
proof -
  have le: "(0::nat) \<le> maxRetries" by simp
  have lt: "(0::nat) < maxRetries" by (simp add: maxRetries_def)
  have later: "\<And>w e. R w (snd (retryLoop env chat message False 1 (Some (asError e)) w))"
    using noesc_loop_preserves[of R False 1, OF refl trans tryB fail slp] by simp
  obtain x w1 where t: "tryBlock env chat message w = (x, w1)" by fastforce
  have ww1: "R w w1" using tryB[of w env chat message] t by simp
  show ?thesis
  proof (cases x)
    case (Inr r)
    then show ?thesis using retryLoop_return[OF le, of env chat message w r w1] t ww1 by simp
  next
    case (Inl e)
    show ?thesis
    proof (cases "nonRetryable env e")
      case (Some e')
      then show ?thesis
        using retryLoop_rethrow[OF le, of env chat message w e w1 e'] t Inl ww1 by simp
    next
      case None
      show ?thesis
      proof (cases "overloadedError e")
        case False
        have "R w (delay env 0 w1)" using ww1 slp[of w1 env 0] by (rule trans)
        then have "R w (snd (retryLoop env chat message False 1 (Some (asError e))
                               (delay env 0 w1)))"
          using later by (rule trans)
        then show ?thesis
          using retryLoop_retry[OF lt, of env chat message w e w1 False le] t Inl None False
          by simp
      next
        case True
        define w2 where "w2 = snd (createChatSession FALLBACK_MODEL_NAME w1)"
        obtain y w3 where f:
          "sendMessageToGemini env (Chat FALLBACK_MODEL_NAME) message True w2 = (y, w3)"
          by fastforce
        have "R w1 w2" unfolding w2_def by (rule ses)
        moreover have "R w2 w3"
          using fallback_call_preserves[of R w2 env "Chat FALLBACK_MODEL_NAME" message,
                  OF refl trans chk tryB fail slp] f by simp
        ultimately have ww3: "R w w3" using ww1 by (blast intro: trans)
        have eq: "retryLoop env chat message False 0 le w =
            (case y of Inr r \<Rightarrow> (Inr r, w3)
             | Inl fe \<Rightarrow> retryLoop env chat message False 1 (Some (asError e))
                            (delay env 0 w3))"
          using retryLoop_escalate[of env chat message w e w1 le] t Inl None True f
          by (simp add: w2_def split: sum.splits)
        show ?thesis
        proof (cases y)
          case (Inr r)
          then show ?thesis using eq ww3 by simp
        next
          case (Inl fe)
          have "R w (delay env 0 w3)" using ww3 slp[of w3 env 0] by (rule trans)
          then have "R w (snd (retryLoop env chat message False 1 (Some (asError e))
                                 (delay env 0 w3)))"
            using later by (rule trans)
          then show ?thesis using eq Inl by simp
        qed
      qed
    qed
  qed
qed

lemma call_preserves:
  assumes refl: "\<And>w. R w w" and trans: "\<And>a b c. R a b \<Longrightarrow> R b c \<Longrightarrow> R a c"
    and chk: "\<And>env w. R w (snd (checkCircuitBreaker env w))"
    and ses: "\<And>n w. R w (snd (createChatSession n w))"
    and tryB: "\<And>env c m w. R w (snd (tryBlock env c m w))"
    and fail: "\<And>env w. R w (recordFailure env w)"
    and slp: "\<And>env a w. R w (delay env a w)"
  shows "R w (snd (sendMessageToGemini env chat message fb w))"
proof (cases fb)
  case True
  then show ?thesis
    using fallback_call_preserves[OF refl trans chk tryB fail slp] by simp
next
  case False
  obtain a w1 where c: "checkCircuitBreaker env w = (a, w1)" by fastforce
  have ww1: "R w w1" using chk[of w env] c by simp
  show ?thesis
  proof (cases a)
    case True
    have "R w1 (snd (retryLoop env chat message False 0 None w1))"
      by (rule first_loop_preserves[OF refl trans chk ses tryB fail slp])
    then show ?thesis using c True False ww1 by (auto simp: send_admitted intro: trans)
  next
    case notAdmitted: False
    define w2 where "w2 = snd (createChatSession FALLBACK_MODEL_NAME w1)"
    have "R w1 w2" unfolding w2_def by (rule ses)
    moreover have "R w2 (snd (sendMessageToGemini env (Chat FALLBACK_MODEL_NAME) message True w2))"
      by (rule fallback_call_preserves[OF refl trans chk tryB fail slp])
    ultimately show ?thesis
      using c notAdmitted False ww1 send_refused_primary[of env w w1 chat message]
      by (auto simp: w2_def intro: trans)
  qed
qed

subsection \<open>The parser never throws\<close>

lemma parseGeminiResponse_returns: "\<exists>r. parseGeminiResponse jsonParse trimText responseText = Inr r"
  by (simp add: parseGeminiResponse_def split: sum.splits)

subsection \<open>What one attempt does to the world\<close>

lemma tryBlock_throws:
  "chat_sendMessage env (providerCalls w) chat message = Throws e \<Longrightarrow>
   tryBlock env chat message w =
     (Inl e, w\<lparr>providerCalls := providerCalls w + 1,
               effects := effects w @ [MessageSent chat message]\<rparr>)"
  by (simp add: tryBlock_def)

lemma tryBlock_empty:
  "chat_sendMessage env (providerCalls w) chat message = Response t \<Longrightarrow>
   t = None \<or> t = Some [] \<Longrightarrow>
   tryBlock env chat message w =
     (Inr None, w\<lparr>providerCalls := providerCalls w + 1,
                  effects := effects w @ [MessageSent chat message]\<rparr>)"
  by (auto simp: tryBlock_def)

lemma tryBlock_text:
  "chat_sendMessage env (providerCalls w) chat message = Response (Some t) \<Longrightarrow> t \<noteq> [] \<Longrightarrow>
   tryBlock env chat message w =
     (parseGeminiResponse (JSON_parse env) (String_trim env) t,
      recordSuccess (w\<lparr>providerCalls := providerCalls w + 1,
                       effects := effects w @ [MessageSent chat message]\<rparr>))"
  by (simp add: tryBlock_def)

lemma tryBlock_shape:
  "tryBlock env chat message w = (x, w1) \<Longrightarrow>
   w1 = w\<lparr>providerCalls := providerCalls w + 1,
           effects := effects w @ [MessageSent chat message]\<rparr> \<or>
   (\<exists>r. x = Inr r) \<and>
   w1 = recordSuccess (w\<lparr>providerCalls := providerCalls w + 1,
                          effects := effects w @ [MessageSent chat message]\<rparr>)"
  using parseGeminiResponse_returns[of "JSON_parse env" "String_trim env"]
  by (auto simp: tryBlock_def Let_def split: send_outcome.splits option.splits if_splits)

lemma tryBlock_Inl:
  "tryBlock env chat message w = (Inl e, w1) \<Longrightarrow>
   w1 = w\<lparr>providerCalls := providerCalls w + 1,
           effects := effects w @ [MessageSent chat message]\<rparr>"
  using tryBlock_shape[of env chat message w "Inl e" w1] by auto

subsection \<open>Failures counted along the effects\<close>

lemma prefix_filter_length:
  "prefix xs ys \<Longrightarrow> length (filter P xs) \<le> length (filter P ys)"
  by (auto simp: prefix_def)

lemma keepsCount_refl: "keepsCount w w"
  by (simp add: keepsCount_def)

lemma keepsCount_trans:
  assumes "keepsCount a b" and "keepsCount b c"
  shows "keepsCount a c"
proof -
  have p: "prefix (effects a) (effects b)" "prefix (effects b) (effects c)"
    using assms by (simp_all add: keepsCount_def)
  have r: "breakerResets a \<le> breakerResets b" "breakerResets b \<le> breakerResets c"
    and f: "failuresRecorded a \<le> failuresRecorded b" "failuresRecorded b \<le> failuresRecorded c"
    using p by (simp_all add: breakerResets_def failuresRecorded_def prefix_filter_length)
  have "prefix (effects a) (effects c)" using p by (rule prefix_order.trans)
  moreover have "breakerConsistent a \<longrightarrow> breakerConsistent c"
    using assms by (simp add: keepsCount_def)
  moreover have "breakerResets c = breakerResets a \<longrightarrow>
     failures (circuitBreakerState c) =
       failures (circuitBreakerState a) + (failuresRecorded c - failuresRecorded a)"
  proof
    assume e: "breakerResets c = breakerResets a"
    then have "breakerResets b = breakerResets a" "breakerResets c = breakerResets b"
      using r by simp_all
    then show "failures (circuitBreakerState c) =
       failures (circuitBreakerState a) + (failuresRecorded c - failuresRecorded a)"
      using assms f by (simp add: keepsCount_def)
  qed
  ultimately show ?thesis by (simp add: keepsCount_def)
qed

lemma keepsCount_check: "keepsCount w (snd (checkCircuitBreaker env w))"
  by (simp add: keepsCount_def checkCircuitBreaker_def Let_def breakerConsistent_def
      breakerResets_def failuresRecorded_def failureThreshold_def)

lemma keepsCount_session: "keepsCount w (snd (createChatSession n w))"
  by (simp add: keepsCount_def createChatSession_def breakerConsistent_def
      breakerResets_def failuresRecorded_def)

lemma keepsCount_try: "keepsCount w (snd (tryBlock env c m w))"
proof -
  obtain x w1 where t: "tryBlock env c m w = (x, w1)" by fastforce
  from tryBlock_shape[OF t] show ?thesis
    by (auto simp: t keepsCount_def recordSuccess_def breakerConsistent_def
        breakerResets_def failuresRecorded_def failureThreshold_def)
qed

lemma keepsCount_fail: "keepsCount w (recordFailure env w)"
  by (simp add: keepsCount_def recordFailure_def Let_def breakerConsistent_def
      breakerResets_def failuresRecorded_def)

lemma keepsCount_delay: "keepsCount w (delay env a w)"
  by (simp add: keepsCount_def delay_def breakerConsistent_def
      breakerResets_def failuresRecorded_def)

lemma keepsCount_turn: "keepsCount w (turn env chat message w)"
  unfolding turn_def
  by (rule call_preserves[of keepsCount, OF keepsCount_refl keepsCount_trans keepsCount_check
        keepsCount_session keepsCount_try keepsCount_fail keepsCount_delay])

lemma exhaustedTurn_counts:
  assumes "exhaustedTurn env chat message w"
  shows "failures (circuitBreakerState w) + 1 \<le>
         failures (circuitBreakerState (turn env chat message w))"
proof -
  define w' where "w' = turn env chat message w"
  define new where "new = drop (length (effects w)) (effects w')"
  have k: "keepsCount w w'" unfolding w'_def by (rule keepsCount_turn)
  then have "prefix (effects w) (effects w')" by (simp add: keepsCount_def)
  then have eff: "effects w' = effects w @ new" by (auto simp: prefix_def new_def)
  have n: "new \<noteq> []" "last new = FailureRecorded" "breakerResets w' = breakerResets w"
    using assms by (simp_all add: exhaustedTurn_def Let_def w'_def new_def)
  then have "FailureRecorded \<in> set new" using last_in_set[of new] by auto
  then have "filter (\<lambda>e. e = FailureRecorded) new \<noteq> []"
    by (simp add: filter_empty_conv)
  then have "1 \<le> length (filter (\<lambda>e. e = FailureRecorded) new)"
    by (cases "filter (\<lambda>e. e = FailureRecorded) new") simp_all
  then have "failuresRecorded w + 1 \<le> failuresRecorded w'"
    by (simp add: failuresRecorded_def eff)
  then show ?thesis using k n(3) by (simp add: keepsCount_def w'_def)
qed

lemma allExhausted_counts:
  "allExhausted env chat ms w \<Longrightarrow>
   failures (circuitBreakerState w) + length ms \<le>
   failures (circuitBreakerState (turns env chat ms w))"
proof (induction ms arbitrary: w)
  case Nil
  then show ?case by simp
next
  case (Cons m ms)
  then have "failures (circuitBreakerState (turn env chat m w)) + length ms \<le>
     failures (circuitBreakerState (turns env chat ms (turn env chat m w)))"
    by simp
  moreover have "failures (circuitBreakerState w) + 1 \<le>
     failures (circuitBreakerState (turn env chat m w))"
    using Cons.prems exhaustedTurn_counts by simp
  ultimately show ?case by simp
qed

lemma turns_consistent:
  "breakerConsistent w \<Longrightarrow> breakerConsistent (turns env chat ms w)"
proof (induction ms arbitrary: w)
  case Nil
  then show ?case by simp
next
  case (Cons m ms)
  have "breakerConsistent (turn env chat m w)"
    using keepsCount_turn[of w env chat m] Cons.prems by (simp add: keepsCount_def)
  then show ?case using Cons.IH by simp
qed

lemma calls_mono_loop:
  "fb \<or> 0 < attempt \<Longrightarrow>
   providerCalls w \<le> providerCalls (snd (retryLoop env chat message fb attempt le w))"
proof -
  assume a: "fb \<or> 0 < attempt"
  have t: "\<And>env c m w. providerCalls w \<le> providerCalls (snd (tryBlock env c m w))"
  proof -
    fix env c m w
    obtain x w1 where t: "tryBlock env c m w = (x, w1)" by fastforce
    from tryBlock_shape[OF t] show "providerCalls w \<le> providerCalls (snd (tryBlock env c m w))"
      by (auto simp: t recordSuccess_def)
  qed
  show ?thesis
    by (rule noesc_loop_preserves[of "\<lambda>w w'. providerCalls w \<le> providerCalls w'", OF _ _ t _ _ a])
       (simp_all add: recordFailure_def delay_def Let_def)
qed

lemma noesc_loop_counts:
  "fb \<or> 0 < attempt \<Longrightarrow>
   breakerRecords (snd (retryLoop env chat message fb attempt le w)) \<le> breakerRecords w + 1 \<and>
   providerCalls (snd (retryLoop env chat message fb attempt le w))
     \<le> providerCalls w + (Suc maxRetries - attempt)"
proof (induction "Suc maxRetries - attempt" arbitrary: attempt le w)
  case 0
  then show ?case by (simp add: retryLoop_done)
next
  case (Suc n)
  then have le: "attempt \<le> maxRetries" by simp
  obtain x w1 where t: "tryBlock env chat message w = (x, w1)" by fastforce
  note shape = tryBlock_shape[OF t]
  show ?case
  proof (cases x)
    case (Inr r)
    then show ?thesis
      using retryLoop_return[OF le, of env chat message w r w1] t shape Suc.hyps(2)
      by (auto simp: breakerRecords_def recordSuccess_def)
  next
    case (Inl e)
    then have w1: "w1 = w\<lparr>providerCalls := providerCalls w + 1,
                           effects := effects w @ [MessageSent chat message]\<rparr>"
      using shape by auto
    show ?thesis
    proof (cases "nonRetryable env e")
      case (Some e')
      then show ?thesis
        using retryLoop_rethrow[OF le, of env chat message w e w1 e'] t Inl w1 Suc.hyps(2)
        by (simp add: breakerRecords_def)
    next
      case None
      show ?thesis
      proof (cases "attempt = maxRetries")
        case True
        then show ?thesis
          using retryLoop_exhaust[OF True, of env chat message w e w1] t Inl None w1
          by (simp add: exhaust_def Let_def breakerRecords_def recordFailure_def)
      next
        case False
        then have lt: "attempt < maxRetries" using le by simp
        have n: "n = Suc maxRetries - (attempt + 1)" using Suc.hyps(2) by simp
        have t': "tryBlock env chat message w = (Inl e, w1)" using t Inl by simp
        have c: "fb \<or> 0 < attempt \<or> \<not> overloadedError e" using Suc.prems by blast
        have "fb \<or> 0 < attempt + 1" by simp
        from Suc.hyps(1)[OF n this, of "Some (asError e)" "delay env attempt w1"]
        have ih: "breakerRecords (snd (retryLoop env chat message fb attempt le w))
                    \<le> breakerRecords (delay env attempt w1) + 1"
          "providerCalls (snd (retryLoop env chat message fb attempt le w))
                    \<le> providerCalls (delay env attempt w1) + (Suc maxRetries - (attempt + 1))"
          by (simp_all add: retryLoop_retry[OF lt t' None c])
        have "breakerRecords (delay env attempt w1) = breakerRecords w"
          by (simp add: w1 breakerRecords_def delay_def)
        moreover have "providerCalls (delay env attempt w1) = providerCalls w + 1"
          by (simp add: w1 delay_def)
        ultimately show ?thesis using ih lt by simp
      qed
    qed
  qed
qed

lemma loop_sends_once:
  assumes "attempt \<le> maxRetries" and "fb \<or> 0 < attempt"
  shows "providerCalls w + 1 \<le> providerCalls (snd (retryLoop env chat message fb attempt le w))"
proof -
  obtain x w1 where t: "tryBlock env chat message w = (x, w1)" by fastforce
  note shape = tryBlock_shape[OF t]
  have c1: "providerCalls w1 = providerCalls w + 1" using shape by (auto simp: recordSuccess_def)
  show ?thesis
  proof (cases x)
    case (Inr r)
    then show ?thesis using retryLoop_return[OF assms(1), of env chat message w r w1] t c1 by simp
  next
    case (Inl e)
    show ?thesis
    proof (cases "nonRetryable env e")
      case (Some e')
      then show ?thesis
        using retryLoop_rethrow[OF assms(1), of env chat message w e w1 e'] t Inl c1 by simp
    next
      case None
      show ?thesis
      proof (cases "attempt = maxRetries")
        case True
        then show ?thesis
          using retryLoop_exhaust[OF True, of env chat message w e w1] t Inl None c1
          by (simp add: exhaust_def Let_def recordFailure_def)
      next
        case False
        then have lt: "attempt < maxRetries" using assms(1) by simp
        have "providerCalls (delay env attempt w1) \<le>
              providerCalls (snd (retryLoop env chat message fb (attempt + 1) (Some (asError e))
                                    (delay env attempt w1)))"
          by (rule calls_mono_loop) simp
        moreover have t': "tryBlock env chat message w = (Inl e, w1)" using t Inl by simp
        moreover have c: "fb \<or> 0 < attempt \<or> \<not> overloadedError e" using assms(2) by blast
        ultimately show ?thesis
          using c1 by (simp add: retryLoop_retry[OF lt t' None c] delay_def)
      qed
    qed
  qed
qed

lemma parseBody_char:
  "parseBody jsonParse trimText responseText =
     (case jsonParse (stripFence trimText responseText) of
        Inl e \<Rightarrow> Inl e
      | Inr JNull \<Rightarrow> Inl (nullPropertyError ''sceneDescription'')
      | Inr parsed \<Rightarrow>
          if truthy (ownProperty parsed ''sceneDescription'') \<and>
             truthy (ownProperty parsed ''imagePrompt'')
          then Inr (Some parsed) else Inr None)"
  by (simp add: parseBody_def split: sum.splits json.splits)

lemma truthy_nonempty: "truthy v \<Longrightarrow> \<exists>x. v = Some x \<and> x \<noteq> JString [] \<and> x \<noteq> JNull"
  by (cases v rule: truthy.cases) auto

declare digits.simps [simp del]

lemma digits_examples:
  "digits 429 = ''429''" "digits 401 = ''401''" "digits 500 = ''500''"
  by code_simp+

lemma checkCircuitBreaker_admitted:
  "checkCircuitBreaker env w = (True, w1) \<Longrightarrow>
   \<not> isOpen (circuitBreakerState w1) \<and> providerCalls w1 = providerCalls w \<and>
   sessionsCreated w1 = sessionsCreated w \<and> breakerRecords w1 = breakerRecords w"
  by (auto simp: checkCircuitBreaker_def Let_def sessionsCreated_def breakerRecords_def
      split: if_splits)

lemma checkCircuitBreaker_closed:
  "\<not> isOpen (circuitBreakerState w) \<Longrightarrow>
   checkCircuitBreaker env w = (True, w\<lparr>clockReads := clockReads w + 1\<rparr>)"
  by (simp add: checkCircuitBreaker_def Let_def)

lemma sessions_try: "sessionsCreated (snd (tryBlock env c m w)) = sessionsCreated w"
proof -
  obtain x w1 where t: "tryBlock env c m w = (x, w1)" by fastforce
  from tryBlock_shape[OF t] show ?thesis
    by (auto simp: t sessionsCreated_def recordSuccess_def)
qed

lemma sessions_noesc_loop:
  "fb \<or> 0 < attempt \<Longrightarrow>
   sessionsCreated (snd (retryLoop env chat message fb attempt le w)) = sessionsCreated w"
  by (rule noesc_loop_preserves[of "\<lambda>a b. sessionsCreated b = sessionsCreated a",
            OF _ _ sessions_try])
     (simp_all add: sessionsCreated_def recordFailure_def delay_def Let_def)

lemma sessions_fallback_call:
  "sessionsCreated (snd (sendMessageToGemini env chat message True w)) = sessionsCreated w"
  by (rule fallback_call_preserves[of "\<lambda>a b. sessionsCreated b = sessionsCreated a",
            OF _ _ _ sessions_try])
     (simp_all add: sessionsCreated_def recordFailure_def delay_def Let_def
        checkCircuitBreaker_def)

lemma fallback_call_sends:
  assumes "\<not> isOpen (circuitBreakerState w)"
  shows "providerCalls w + 1 \<le> providerCalls (snd (sendMessageToGemini env chat message True w))"
    and "providerCalls (snd (sendMessageToGemini env chat message True w)) \<le> providerCalls w + 4"
proof -
  note c = checkCircuitBreaker_closed[OF assms, of env]
  have "providerCalls (w\<lparr>clockReads := clockReads w + 1\<rparr>) + 1 \<le>
        providerCalls (snd (retryLoop env chat message True 0 None (w\<lparr>clockReads := clockReads w + 1\<rparr>)))"
    by (rule loop_sends_once) simp_all
  then show "providerCalls w + 1 \<le> providerCalls (snd (sendMessageToGemini env chat message True w))"
    by (simp add: send_admitted[OF c])
  have "providerCalls (snd (retryLoop env chat message True 0 None (w\<lparr>clockReads := clockReads w + 1\<rparr>)))
        \<le> providerCalls (w\<lparr>clockReads := clockReads w + 1\<rparr>) + (Suc maxRetries - 0)"
    using noesc_loop_counts[of True 0] by blast
  then show "providerCalls (snd (sendMessageToGemini env chat message True w)) \<le> providerCalls w + 4"
    by (simp add: send_admitted[OF c] maxRetries_def)
qed

lemma refused_when_open:
  assumes "isOpen (circuitBreakerState w)"
    and "Date_now env (clockReads w) \<le> openUntil (circuitBreakerState w)"
    and "Date_now env (clockReads w + 1) \<le> openUntil (circuitBreakerState w)"
  shows "sendMessageToGemini env chat message False w =
           (Inl (ErrorObj unavailableMessage),
            w\<lparr>clockReads := clockReads w + 2,
              effects := effects w @ [SessionCreated FALLBACK_MODEL_NAME]\<rparr>)"
  using assms
  by (simp add: sendMessageToGemini.simps checkCircuitBreaker_def createChatSession_def Let_def)

lemma recordFailure_breaker:
  "circuitBreakerState (recordFailure env w) =
     (if failureThreshold \<le> failures (circuitBreakerState w) + 1 then
        (circuitBreakerState w)\<lparr>failures := failures (circuitBreakerState w) + 1,
           lastFailureTime := Date_now env (clockReads w), isOpen := True,
           openUntil := Date_now env (clockReads w + 1) + resetTimeout\<rparr>
      else
        (circuitBreakerState w)\<lparr>failures := failures (circuitBreakerState w) + 1,
           lastFailureTime := Date_now env (clockReads w)\<rparr>)"
  by (simp add: recordFailure_def Let_def)

lemma all_fail_loop:
  assumes all: "\<And>k c m. chat_sendMessage env k c m = Throws e"
    and nr: "nonRetryable env e = None"
    and no: "fb \<or> \<not> overloadedError e"
  shows "attempt \<le> maxRetries \<Longrightarrow>
         \<exists>w2. snd (retryLoop env chat message fb attempt le w) = recordFailure env w2 \<and>
              circuitBreakerState w2 = circuitBreakerState w \<and>
              breakerResets w2 = breakerResets w \<and>
              prefix (effects w) (effects w2)"
proof (induction "maxRetries - attempt" arbitrary: attempt le w)
  case 0
  then have a: "attempt = maxRetries" by simp
  define w1 where "w1 = w\<lparr>providerCalls := providerCalls w + 1,
                          effects := effects w @ [MessageSent chat message]\<rparr>"
  have t: "tryBlock env chat message w = (Inl e, w1)"
    unfolding w1_def by (rule tryBlock_throws[OF all])
  have "snd (retryLoop env chat message fb attempt le w) = recordFailure env w1"
    by (simp add: retryLoop_exhaust[OF a t nr] exhaust_def Let_def)
  moreover have "circuitBreakerState w1 = circuitBreakerState w"
    "breakerResets w1 = breakerResets w" "prefix (effects w) (effects w1)"
    by (simp_all add: w1_def breakerResets_def)
  ultimately show ?case by blast
next
  case (Suc n)
  then have lt: "attempt < maxRetries" by simp
  define w1 where "w1 = w\<lparr>providerCalls := providerCalls w + 1,
                          effects := effects w @ [MessageSent chat message]\<rparr>"
  have t: "tryBlock env chat message w = (Inl e, w1)"
    unfolding w1_def by (rule tryBlock_throws[OF all])
  have c: "fb \<or> 0 < attempt \<or> \<not> overloadedError e" using no by blast
  have n: "n = maxRetries - (attempt + 1)" using Suc.hyps(2) by simp
  have "attempt + 1 \<le> maxRetries" using lt by simp
  from Suc.hyps(1)[OF n this, of "Some (asError e)" "delay env attempt w1"]
  obtain w2 where w2:
    "snd (retryLoop env chat message fb (attempt + 1) (Some (asError e)) (delay env attempt w1))
       = recordFailure env w2"
    "circuitBreakerState w2 = circuitBreakerState (delay env attempt w1)"
    "breakerResets w2 = breakerResets (delay env attempt w1)"
    "prefix (effects (delay env attempt w1)) (effects w2)"
    by blast
  have "prefix (effects w) (effects (delay env attempt w1))"
    by (simp add: w1_def delay_def)
  then have "prefix (effects w) (effects w2)" using w2(4) by (rule prefix_order.trans)
  moreover have "circuitBreakerState w2 = circuitBreakerState w"
    "breakerResets w2 = breakerResets w"
    using w2(2,3) by (simp_all add: w1_def delay_def breakerResets_def)
  moreover have "snd (retryLoop env chat message fb attempt le w) = recordFailure env w2"
    using w2(1) by (simp add: retryLoop_retry[OF lt t nr c])
  ultimately show ?case by blast
qed

lemma all_fail_turn:
  assumes all: "\<And>k c m. chat_sendMessage env k c m = Throws e"
    and nr: "nonRetryable env e = None"
    and no: "\<not> overloadedError e"
    and closed: "\<not> isOpen (circuitBreakerState w)"
  shows "exhaustedTurn env chat message w"
    and "\<exists>w2. turn env chat message w = recordFailure env w2 \<and>
              circuitBreakerState w2 = circuitBreakerState w"
proof -
  define w1 where "w1 = w\<lparr>clockReads := clockReads w + 1\<rparr>"
  have c: "checkCircuitBreaker env w = (True, w1)"
    unfolding w1_def by (rule checkCircuitBreaker_closed[OF closed])
  have "(0::nat) \<le> maxRetries" by simp
  from all_fail_loop[where fb = False and chat = chat and message = message and le = None
         and w = w1, OF all nr _ this] no
  obtain w2 where w2:
    "snd (retryLoop env chat message False 0 None w1) = recordFailure env w2"
    "circuitBreakerState w2 = circuitBreakerState w1"
    "breakerResets w2 = breakerResets w1"
    "prefix (effects w1) (effects w2)"
    by blast
  have tn: "turn env chat message w = recordFailure env w2"
    using w2(1) by (simp add: turn_def send_admitted[OF c])
  then show "\<exists>w2. turn env chat message w = recordFailure env w2 \<and>
              circuitBreakerState w2 = circuitBreakerState w"
    using w2(2) by (auto simp: w1_def)
  obtain zs where zs: "effects w2 = effects w @ zs"
    using w2(4) by (auto simp: prefix_def w1_def)
  have "effects (turn env chat message w) = effects w @ zs @ [FailureRecorded]"
    by (simp add: tn recordFailure_def Let_def zs)
  moreover have "breakerResets (turn env chat message w) = breakerResets w"
    using w2(3) by (simp add: tn recordFailure_def Let_def breakerResets_def w1_def)
  ultimately show "exhaustedTurn env chat message w"
    by (simp add: exhaustedTurn_def Let_def)
qed

lemma server_error_facts:
  "chat_sendMessage alwaysServerError k c m = Throws (ErrorObj ''500'')"
  "nonRetryable alwaysServerError (ErrorObj ''500'') = None"
  "\<not> overloadedError (ErrorObj ''500'')"
  by (simp_all add: alwaysServerError_def scriptedEnv_def isRetryableError_def isOverloaded_def)

lemma server_error_turn:
  assumes "\<not> isOpen (circuitBreakerState w)"
  shows "exhaustedTurn alwaysServerError chat message w"
    and "circuitBreakerState (turn alwaysServerError chat message w) =
     (if 4 \<le> failures (circuitBreakerState w) then
        (circuitBreakerState w)\<lparr>failures := failures (circuitBreakerState w) + 1,
           lastFailureTime := 0, isOpen := True, openUntil := 30000\<rparr>
      else
        (circuitBreakerState w)\<lparr>failures := failures (circuitBreakerState w) + 1,
           lastFailureTime := 0\<rparr>)"
proof -
  show "exhaustedTurn alwaysServerError chat message w"
    by (rule all_fail_turn(1)[OF server_error_facts assms])
  obtain w2 where "turn alwaysServerError chat message w = recordFailure alwaysServerError w2"
    "circuitBreakerState w2 = circuitBreakerState w"
    using all_fail_turn(2)[OF server_error_facts assms, of chat message] by blast
  then show "circuitBreakerState (turn alwaysServerError chat message w) =
     (if 4 \<le> failures (circuitBreakerState w) then
        (circuitBreakerState w)\<lparr>failures := failures (circuitBreakerState w) + 1,
           lastFailureTime := 0, isOpen := True, openUntil := 30000\<rparr>
      else
        (circuitBreakerState w)\<lparr>failures := failures (circuitBreakerState w) + 1,
           lastFailureTime := 0\<rparr>)"
    by (simp add: recordFailure_breaker failureThreshold_def resetTimeout_def
        alwaysServerError_def scriptedEnv_def frozenClock_def)
qed

subsection \<open>Breaker records come last\<close>

lemma recordsOnlyLast_append:
  assumes "filter isBreakerRecord pre = []" and "recordsOnlyLast xs"
  shows "recordsOnlyLast (pre @ xs)"
proof (cases "xs = []")
  case True
  have "pre \<noteq> [] \<Longrightarrow> \<not> isBreakerRecord (last pre)"
    using assms(1) last_in_set[of pre] by (auto simp: filter_empty_conv)
  then show ?thesis using True assms(1) by (auto simp: recordsOnlyLast_def)
next
  case False
  then show ?thesis using assms by (simp add: recordsOnlyLast_def)
qed

lemma noesc_loop_records_last:
  "fb \<or> 0 < attempt \<Longrightarrow>
   \<exists>new. effects (snd (retryLoop env chat message fb attempt le w)) = effects w @ new \<and>
         recordsOnlyLast new"
proof (induction "Suc maxRetries - attempt" arbitrary: attempt le w)
  case 0
  then have "effects (snd (retryLoop env chat message fb attempt le w)) = effects w @ []"
    by (simp add: retryLoop_done)
  moreover have "recordsOnlyLast []" by (simp add: recordsOnlyLast_def)
  ultimately show ?case by blast
next
  case (Suc n)
  then have le: "attempt \<le> maxRetries" by simp
  obtain x w1 where t: "tryBlock env chat message w = (x, w1)" by fastforce
  note shape = tryBlock_shape[OF t]
  have one: "recordsOnlyLast [MessageSent chat message]"
    "recordsOnlyLast [MessageSent chat message, SuccessRecorded]"
    "recordsOnlyLast [MessageSent chat message, FailureRecorded]"
    by (simp_all add: recordsOnlyLast_def)
  show ?case
  proof (cases x)
    case (Inr r)
    have "effects w1 = effects w @ [MessageSent chat message] \<or>
          effects w1 = effects w @ [MessageSent chat message, SuccessRecorded]"
      using shape by (auto simp: recordSuccess_def)
    moreover have "snd (retryLoop env chat message fb attempt le w) = w1"
      using retryLoop_return[OF le, of env chat message w r w1 fb le] t Inr by simp
    ultimately show ?thesis using one(1,2) by metis
  next
    case (Inl e)
    then have t': "tryBlock env chat message w = (Inl e, w1)" using t by simp
    have w1: "w1 = w\<lparr>providerCalls := providerCalls w + 1,
                       effects := effects w @ [MessageSent chat message]\<rparr>"
      by (rule tryBlock_Inl[OF t'])
    show ?thesis
    proof (cases "nonRetryable env e")
      case (Some e')
      have "effects (snd (retryLoop env chat message fb attempt le w)) =
            effects w @ [MessageSent chat message]"
        by (simp add: retryLoop_rethrow[OF le t' Some] w1)
      then show ?thesis using one(1) by blast
    next
      case None
      show ?thesis
      proof (cases "attempt = maxRetries")
        case True
        have "effects (snd (retryLoop env chat message fb attempt le w)) =
              effects w @ [MessageSent chat message, FailureRecorded]"
          by (simp add: retryLoop_exhaust[OF True t' None] exhaust_def recordFailure_def
              Let_def w1)
        then show ?thesis using one(3) by blast
      next
        case False
        then have lt: "attempt < maxRetries" using le by simp
        have c: "fb \<or> 0 < attempt \<or> \<not> overloadedError e" using Suc.prems by blast
        have n: "n = Suc maxRetries - (attempt + 1)" using Suc.hyps(2) by simp
        have "fb \<or> 0 < attempt + 1" by simp
        from Suc.hyps(1)[OF n this, of "Some (asError e)" "delay env attempt w1"]
        obtain new where new:
          "effects (snd (retryLoop env chat message fb (attempt + 1) (Some (asError e))
                    (delay env attempt w1))) = effects (delay env attempt w1) @ new"
          "recordsOnlyLast new"
          by blast
        define pre where "pre = [MessageSent chat message,
            Slept (delayMs attempt (Math_random env (randomDraws w1)))]"
        have "effects (snd (retryLoop env chat message fb attempt le w)) =
              effects w @ (pre @ new)"
          using new(1) by (simp add: retryLoop_retry[OF lt t' None c] w1 delay_def pre_def)
        moreover have "recordsOnlyLast (pre @ new)"
          by (rule recordsOnlyLast_append[OF _ new(2)]) (simp add: pre_def)
        ultimately show ?thesis by blast
      qed
    qed
  qed
qed

lemma checkCircuitBreaker_effects:
  "\<exists>pre. effects (snd (checkCircuitBreaker env w)) = effects w @ pre \<and>
         filter isBreakerRecord pre = []"
proof (cases "isOpen (circuitBreakerState w) \<and>
              openUntil (circuitBreakerState w) < Date_now env (clockReads w)")
  case True
  then have "effects (snd (checkCircuitBreaker env w)) = effects w @ [BreakerReclosed]"
    by (simp add: checkCircuitBreaker_def Let_def)
  then show ?thesis by fastforce
next
  case False
  then have "effects (snd (checkCircuitBreaker env w)) = effects w @ []"
    by (auto simp: checkCircuitBreaker_def Let_def)
  then show ?thesis by fastforce
qed

lemma fallback_call_records_last:
  "\<exists>new. effects (snd (sendMessageToGemini env chat message True w)) = effects w @ new \<and>
         recordsOnlyLast new"
proof -
  obtain a w1 where c: "checkCircuitBreaker env w = (a, w1)" by fastforce
  obtain pre where pre: "effects w1 = effects w @ pre" "filter isBreakerRecord pre = []"
    using checkCircuitBreaker_effects[of env w] c by auto
  show ?thesis
  proof (cases a)
    case True
    obtain new where new:
      "effects (snd (retryLoop env chat message True 0 None w1)) = effects w1 @ new"
      "recordsOnlyLast new"
      using noesc_loop_records_last[of True 0 env chat message None w1] by auto
    have "effects (snd (sendMessageToGemini env chat message True w)) = effects w @ (pre @ new)"
      using c True new(1) pre(1) by (simp add: send_admitted)
    moreover have "recordsOnlyLast (pre @ new)"
      by (rule recordsOnlyLast_append[OF pre(2) new(2)])
    ultimately show ?thesis by blast
  next
    case False
    have "effects (snd (sendMessageToGemini env chat message True w)) = effects w @ (pre @ [])"
      using c False pre(1) by (simp add: send_refused_fallback)
    moreover have "recordsOnlyLast (pre @ [])"
      by (rule recordsOnlyLast_append[OF pre(2)]) (simp add: recordsOnlyLast_def)
    ultimately show ?thesis by blast
  qed
qed

lemma records_from_last:
  assumes "effects w' = effects w @ new" and "recordsOnlyLast new"
  shows "breakerRecords w' = breakerRecords w + (if endsRecording w w' then 1 else 0)"
  using assms by (simp add: breakerRecords_def endsRecording_def recordsOnlyLast_def)

lemma records_split:
  assumes "effects w' = effects w @ pre @ post" and "recordsOnlyLast post"
    and "post = [] \<longrightarrow> pre = []"
  shows "breakerRecords w' =
           breakerRecords w + length (filter isBreakerRecord pre)
             + (if endsRecording w w' then 1 else 0)"
proof (cases "post = []")
  case True
  then show ?thesis
    using assms by (simp add: breakerRecords_def endsRecording_def recordsOnlyLast_def)
next
  case False
  then show ?thesis
    using assms by (simp add: breakerRecords_def endsRecording_def recordsOnlyLast_def)
qed

lemma recordsOnlyLast_le: "recordsOnlyLast xs \<Longrightarrow> length (filter isBreakerRecord xs) \<le> 1"
  by (simp add: recordsOnlyLast_def split: if_splits)

lemma first_loop_records_split:
  "\<exists>pre post. effects (snd (retryLoop env chat message False 0 le w)) = effects w @ pre @ post \<and>
     length (filter isBreakerRecord pre) \<le> 1 \<and> recordsOnlyLast post \<and> post \<noteq> []"
proof -
  have le: "(0::nat) \<le> maxRetries" by simp
  have lt: "(0::nat) < maxRetries" by (simp add: maxRetries_def)
  obtain x w1 where t: "tryBlock env chat message w = (x, w1)" by fastforce
  note shape = tryBlock_shape[OF t]
  have one: "recordsOnlyLast [MessageSent chat message]"
    "recordsOnlyLast [MessageSent chat message, SuccessRecorded]"
    by (simp_all add: recordsOnlyLast_def)
  have direct: ?thesis
    if "effects (snd (retryLoop env chat message False 0 le w)) = effects w @ post"
      and "recordsOnlyLast post" and "post \<noteq> []" for post
  proof -
    have "effects (snd (retryLoop env chat message False 0 le w)) = effects w @ [] @ post"
      using that(1) by simp
    moreover have "length (filter isBreakerRecord ([]::effect list)) \<le> 1" by simp
    ultimately show ?thesis using that(2,3) by blast
  qed
  show ?thesis
  proof (cases x)
    case (Inr r)
    have "effects w1 = effects w @ [MessageSent chat message] \<or>
          effects w1 = effects w @ [MessageSent chat message, SuccessRecorded]"
      using shape by (auto simp: recordSuccess_def)
    moreover have "snd (retryLoop env chat message False 0 le w) = w1"
      using retryLoop_return[OF le, of env chat message w r w1 False le] t Inr by simp
    ultimately show ?thesis using direct one by fastforce
  next
    case (Inl e)
    then have t': "tryBlock env chat message w = (Inl e, w1)" using t by simp
    have w1: "w1 = w\<lparr>providerCalls := providerCalls w + 1,
                       effects := effects w @ [MessageSent chat message]\<rparr>"
      by (rule tryBlock_Inl[OF t'])
    show ?thesis
    proof (cases "nonRetryable env e")
      case (Some e')
      have "effects (snd (retryLoop env chat message False 0 le w)) =
            effects w @ [MessageSent chat message]"
        by (simp add: retryLoop_rethrow[OF le t' Some] w1)
      then show ?thesis using direct one(1) by fastforce
    next
      case None
      show ?thesis
      proof (cases "overloadedError e")
        case False
        then have c: "False \<or> (0::nat) < 0 \<or> \<not> overloadedError e" by simp
        obtain new where new:
          "effects (snd (retryLoop env chat message False 1 (Some (asError e))
                    (delay env 0 w1))) = effects (delay env 0 w1) @ new"
          "recordsOnlyLast new"
          using noesc_loop_records_last[of False 1 env chat message "Some (asError e)"
                  "delay env 0 w1"] by auto
        define post where "post = [MessageSent chat message,
            Slept (delayMs 0 (Math_random env (randomDraws w1)))] @ new"
        have "effects (snd (retryLoop env chat message False 0 le w)) = effects w @ post"
          using new(1) by (simp add: retryLoop_retry[OF lt t' None c] w1 delay_def post_def)
        moreover have "recordsOnlyLast post"
          unfolding post_def by (rule recordsOnlyLast_append[OF _ new(2)]) simp
        moreover have "post \<noteq> []" by (simp add: post_def)
        ultimately show ?thesis by (rule direct)
      next
        case True
        define w2 where "w2 = snd (createChatSession FALLBACK_MODEL_NAME w1)"
        obtain y w3 where f:
          "sendMessageToGemini env (Chat FALLBACK_MODEL_NAME) message True w2 = (y, w3)"
          by fastforce
        obtain fbnew where fbnew: "effects w3 = effects w2 @ fbnew" "recordsOnlyLast fbnew"
          using fallback_call_records_last[of env "Chat FALLBACK_MODEL_NAME" message w2] f
          by auto
        define head where "head = [MessageSent chat message, SessionCreated FALLBACK_MODEL_NAME]"
        have e3: "effects w3 = effects w @ head @ fbnew"
          using fbnew(1) by (simp add: w2_def w1 createChatSession_def head_def)
        have eq: "retryLoop env chat message False 0 le w =
            (case y of Inr r \<Rightarrow> (Inr r, w3)
             | Inl fe \<Rightarrow> retryLoop env chat message False 1 (Some (asError e))
                            (delay env 0 w3))"
          using retryLoop_escalate[OF t' None True, of le] f
          by (simp add: w2_def split: sum.splits)
        show ?thesis
        proof (cases y)
          case (Inr r)
          have "effects (snd (retryLoop env chat message False 0 le w)) = effects w @ (head @ fbnew)"
            using eq Inr e3 by simp
          moreover have "recordsOnlyLast (head @ fbnew)"
            by (rule recordsOnlyLast_append[OF _ fbnew(2)]) (simp add: head_def)
          moreover have "head @ fbnew \<noteq> []" by (simp add: head_def)
          ultimately show ?thesis by (rule direct)
        next
          case (Inl fe)
          obtain new where new:
            "effects (snd (retryLoop env chat message False 1 (Some (asError e))
                      (delay env 0 w3))) = effects (delay env 0 w3) @ new"
            "recordsOnlyLast new"
            using noesc_loop_records_last[of False 1 env chat message "Some (asError e)"
                    "delay env 0 w3"] by auto
          define post where
            "post = [Slept (delayMs 0 (Math_random env (randomDraws w3)))] @ new"
          have "effects (snd (retryLoop env chat message False 0 le w)) =
                effects w @ (head @ fbnew) @ post"
            using eq Inl new(1) e3 by (simp add: delay_def post_def)
          moreover have "length (filter isBreakerRecord (head @ fbnew)) \<le> 1"
            using recordsOnlyLast_le[OF fbnew(2)] by (simp add: head_def)
          moreover have "recordsOnlyLast post"
            unfolding post_def by (rule recordsOnlyLast_append[OF _ new(2)]) simp
          moreover have "post \<noteq> []" by (simp add: post_def)
          ultimately show ?thesis by blast
        qed
      qed
    qed
  qed
qed

lemma call_records_split:
  "\<exists>pre post. effects (snd (sendMessageToGemini env chat message False w)) = effects w @ pre @ post \<and>
     length (filter isBreakerRecord pre) \<le> 1 \<and> recordsOnlyLast post \<and> post \<noteq> []"
proof -
  obtain a w1 where c: "checkCircuitBreaker env w = (a, w1)" by fastforce
  obtain pre0 where pre0: "effects w1 = effects w @ pre0" "filter isBreakerRecord pre0 = []"
    using checkCircuitBreaker_effects[of env w] c by auto
  show ?thesis
  proof (cases a)
    case True
    obtain pre post where pp:
      "effects (snd (retryLoop env chat message False 0 None w1)) = effects w1 @ pre @ post"
      "length (filter isBreakerRecord pre) \<le> 1" "recordsOnlyLast post" "post \<noteq> []"
      using first_loop_records_split[of env chat message None w1] by auto
    have "effects (snd (sendMessageToGemini env chat message False w)) =
          effects w @ (pre0 @ pre) @ post"
      using c True pp(1) pre0(1) by (simp add: send_admitted)
    moreover have "length (filter isBreakerRecord (pre0 @ pre)) \<le> 1"
      using pp(2) pre0(2) by simp
    ultimately show ?thesis using pp(3,4) by blast
  next
    case False
    define w2 where "w2 = snd (createChatSession FALLBACK_MODEL_NAME w1)"
    obtain fbnew where fbnew:
      "effects (snd (sendMessageToGemini env (Chat FALLBACK_MODEL_NAME) message True w2))
         = effects w2 @ fbnew" "recordsOnlyLast fbnew"
      using fallback_call_records_last[of env "Chat FALLBACK_MODEL_NAME" message w2] by auto
    define post where "post = pre0 @ [SessionCreated FALLBACK_MODEL_NAME] @ fbnew"
    have "effects (snd (sendMessageToGemini env chat message False w)) = effects w @ [] @ post"
      using c False fbnew(1) pre0(1)
      by (simp add: send_refused_primary w2_def createChatSession_def post_def)
    moreover have "recordsOnlyLast post"
      unfolding post_def
      using recordsOnlyLast_append[of "pre0 @ [SessionCreated FALLBACK_MODEL_NAME]" fbnew]
        pre0(2) fbnew(2) by simp
    moreover have "post \<noteq> []" by (simp add: post_def)
    moreover have "length (filter isBreakerRecord ([]::effect list)) \<le> 1" by simp
    ultimately show ?thesis by blast
  qed
qed

lemma records_of_fallback_call:
  "breakerRecords (snd (sendMessageToGemini env chat message True w)) =
     breakerRecords w
       + (if endsRecording w (snd (sendMessageToGemini env chat message True w)) then 1 else 0)"
proof -
  obtain new where
    "effects (snd (sendMessageToGemini env chat message True w)) = effects w @ new"
    "recordsOnlyLast new"
    using fallback_call_records_last by blast
  then show ?thesis by (rule records_from_last)
qed

lemma records_of_call:
  "breakerRecords w
     + (if endsRecording w (snd (sendMessageToGemini env chat message False w)) then 1 else 0)
     \<le> breakerRecords (snd (sendMessageToGemini env chat message False w)) \<and>
   breakerRecords (snd (sendMessageToGemini env chat message False w)) \<le>
     breakerRecords w
       + (if endsRecording w (snd (sendMessageToGemini env chat message False w)) then 1 else 0)
       + 1"
proof -
  obtain pre post where pp:
    "effects (snd (sendMessageToGemini env chat message False w)) = effects w @ pre @ post"
    "length (filter isBreakerRecord pre) \<le> 1" "recordsOnlyLast post" "post \<noteq> []"
    using call_records_split by blast
  have "breakerRecords (snd (sendMessageToGemini env chat message False w)) =
           breakerRecords w + length (filter isBreakerRecord pre)
             + (if endsRecording w (snd (sendMessageToGemini env chat message False w))
                then 1 else 0)"
    using pp(4) by (intro records_split[OF pp(1) pp(3)]) simp
  then show ?thesis using pp(2) by simp
qed

subsection \<open>The escalation to the fallback model\<close>

lemma quota_marker_example:
  "\<not> includes_str ''429 RESOURCE_EXHAUSTED'' ''API key not valid''"
  "includes_str ''429 RESOURCE_EXHAUSTED'' ''429''"
  "includes_str (asciiUpperCase ''429 RESOURCE_EXHAUSTED'') ''RESOURCE_EXHAUSTED''"
  by code_simp+

lemma overload_marker_example:
  "nonRetryable env (ErrorObj ''503'') = None" "overloadedError (ErrorObj ''503'')"
  by (simp_all add: isRetryableError_def isOverloaded_def)

lemma escalation_unfold:
  assumes adm: "fst (checkCircuitBreaker env w)"
    and thr: "chat_sendMessage env (providerCalls w) chat message = Throws e"
    and nr: "nonRetryable env e = None"
    and ov: "overloadedError e"
  shows "sendMessageToGemini env chat message False w =
           (case fallbackCall env chat message w of
              (Inr result, w3) \<Rightarrow> (Inr result, w3)
            | (Inl fallbackError, w3) \<Rightarrow>
                retryLoop env chat message False 1 (Some (asError e)) (delay env 0 w3))"
proof -
  obtain w0 where c: "checkCircuitBreaker env w = (True, w0)"
    using adm by (cases "checkCircuitBreaker env w") auto
  note a = checkCircuitBreaker_admitted[OF c]
  have w1: "firstAttemptFailed env chat message w =
              w0\<lparr>providerCalls := providerCalls w0 + 1,
                 effects := effects w0 @ [MessageSent chat message]\<rparr>"
    using a by (simp add: firstAttemptFailed_def c)
  have t: "tryBlock env chat message w0 = (Inl e, firstAttemptFailed env chat message w)"
    unfolding w1 using thr a by (intro tryBlock_throws) simp
  show ?thesis
    unfolding send_admitted[OF c] retryLoop_escalate[OF t nr ov] fallbackCall_def ..
qed

lemma fallback_world:
  assumes adm: "fst (checkCircuitBreaker env w)"
  shows "\<not> isOpen (circuitBreakerState
               (snd (createChatSession FALLBACK_MODEL_NAME (firstAttemptFailed env chat message w))))"
    and "providerCalls
           (snd (createChatSession FALLBACK_MODEL_NAME (firstAttemptFailed env chat message w)))
         = providerCalls w + 1"
proof -
  obtain w0 where c: "checkCircuitBreaker env w = (True, w0)"
    using adm by (cases "checkCircuitBreaker env w") auto
  note a = checkCircuitBreaker_admitted[OF c]
  show "\<not> isOpen (circuitBreakerState
               (snd (createChatSession FALLBACK_MODEL_NAME (firstAttemptFailed env chat message w))))"
    using a by (simp add: firstAttemptFailed_def c createChatSession_def)
  show "providerCalls
           (snd (createChatSession FALLBACK_MODEL_NAME (firstAttemptFailed env chat message w)))
         = providerCalls w + 1"
    by (simp add: firstAttemptFailed_def createChatSession_def)
qed

lemma effects_grow_loop:
  "prefix (effects w) (effects (snd (retryLoop env chat message fb attempt le w)))"
proof (cases "fb \<or> 0 < attempt")
  case True
  show ?thesis
    by (rule noesc_loop_preserves[where R = "\<lambda>a b. prefix (effects a) (effects b)", OF _ _ _ _ _ True])
       (auto simp: tryBlock_def recordSuccess_def recordFailure_def delay_def Let_def
          split: send_outcome.splits option.splits)
next
  case False
  then have f: "fb = False" "attempt = 0" by auto
  show ?thesis
    unfolding f
    by (rule first_loop_preserves[where R = "\<lambda>a b. prefix (effects a) (effects b)"])
       (auto simp: tryBlock_def recordSuccess_def recordFailure_def delay_def Let_def
          checkCircuitBreaker_def createChatSession_def
          split: send_outcome.splits option.splits)
qed

section \<open>The claims\<close>

text \<open>
  Claim C1, as stated, fails twice. When the first attempt and the fallback's first
  attempt both fail with a 503, the fallback sleeps and tries again: the fallback call
  is no single attempt. And when the first attempt fails with a 500, which is retryable
  too, no fallback session is created at all.
\<close>

theorem fallback_single_attempt_counterexample:
  "effects (snd (sendMessageToGemini overloadThenText (Chat GEMINI_MODEL_NAME) ''look'' False
                  initialWorld)) =
     [MessageSent (Chat GEMINI_MODEL_NAME) ''look'', SessionCreated FALLBACK_MODEL_NAME,
      MessageSent (Chat FALLBACK_MODEL_NAME) ''look'', Slept 1150,
      MessageSent (Chat FALLBACK_MODEL_NAME) ''look'', SuccessRecorded] \<and>
   effects (snd (sendMessageToGemini serverErrorThenText (Chat GEMINI_MODEL_NAME) ''look'' False
                  initialWorld)) =
     [MessageSent (Chat GEMINI_MODEL_NAME) ''look'', Slept 1150,
      MessageSent (Chat GEMINI_MODEL_NAME) ''look'', SuccessRecorded]"
  by (simp add: sendMessageToGemini.simps retryLoop.simps overloadThenText_def
      serverErrorThenText_def scriptedEnv_def tickingClock_def initialWorld_def
      checkCircuitBreaker_def tryBlock_def createChatSession_def delay_def recordSuccess_def
      parseGeminiResponse_def parseBody_def maxRetries_def isOverloaded_def isRetryableError_def
      delayMs_def attemptBaseDelay_def baseDelay_def maxDelay_def backoffFactor_def Let_def)

text \<open>
  Claim C1, amended. Let the first attempt of an admitted call with
  \<open>useFallback = False\<close> throw an error that is not rethrown at once;
  \<open>firstAttemptFailed\<close> is the world at that moment and \<open>fallbackCall\<close> the call on the
  fallback session. If the error carries an overload marker (503, UNAVAILABLE,
  overloaded), exactly one fallback session is created, and the function is called once
  on it with \<open>useFallback = True\<close>; this call is a whole call of its own, which sends
  between one and four messages. What it returns is returned, with nothing done after
  it; what it throws is dropped, and the primary loop goes on with the delay of attempt
  0 and with attempt 1. If the error carries no overload marker, no session is created
  and the loop goes on in the same way.
\<close>

theorem fallback_escalation_on_first_overload:
  assumes adm: "fst (checkCircuitBreaker env w)"
    and thr: "chat_sendMessage env (providerCalls w) chat message = Throws e"
    and nr: "nonRetryable env e = None"
  shows "(overloadedError e \<longrightarrow>
            sendMessageToGemini env chat message False w =
              (case fallbackCall env chat message w of
                 (Inr result, w3) \<Rightarrow> (Inr result, w3)
               | (Inl fallbackError, w3) \<Rightarrow>
                   retryLoop env chat message False 1 (Some (asError e)) (delay env 0 w3)) \<and>
            sessionsCreated (snd (sendMessageToGemini env chat message False w))
              = sessionsCreated w + 1 \<and>
            providerCalls (firstAttemptFailed env chat message w) + 1
              \<le> providerCalls (snd (fallbackCall env chat message w)) \<and>
            providerCalls (snd (fallbackCall env chat message w))
              \<le> providerCalls (firstAttemptFailed env chat message w) + 4) \<and>
         (\<not> overloadedError e \<longrightarrow>
            sendMessageToGemini env chat message False w =
              retryLoop env chat message False 1 (Some (asError e))
                (delay env 0 (firstAttemptFailed env chat message w)) \<and>
            sessionsCreated (snd (sendMessageToGemini env chat message False w))
              = sessionsCreated w)"
proof -
  define w1 where "w1 = firstAttemptFailed env chat message w"
  define w2 where "w2 = snd (createChatSession FALLBACK_MODEL_NAME w1)"
  define fallback where "fallback = fallbackCall env chat message w"
  have fb: "fallback = sendMessageToGemini env (Chat FALLBACK_MODEL_NAME) message True w2"
    by (simp add: fallback_def fallbackCall_def w2_def w1_def)
  obtain w0 where c: "checkCircuitBreaker env w = (True, w0)"
    using adm by (cases "checkCircuitBreaker env w") auto
  note a = checkCircuitBreaker_admitted[OF c]
  have w1: "w1 = w0\<lparr>providerCalls := providerCalls w0 + 1,
                     effects := effects w0 @ [MessageSent chat message]\<rparr>"
    using a by (simp add: w1_def firstAttemptFailed_def c)
  have t: "tryBlock env chat message w0 = (Inl e, w1)"
    unfolding w1 using thr a by (intro tryBlock_throws) simp
  have s1: "sessionsCreated w1 = sessionsCreated w"
    using a by (simp add: w1 sessionsCreated_def)
  have later: "sessionsCreated (snd (retryLoop env chat message False 1 (Some (asError e))
                                  (delay env 0 v))) = sessionsCreated v" for v
    using sessions_noesc_loop[of False 1 env chat message "Some (asError e)" "delay env 0 v"]
    by (simp add: delay_def sessionsCreated_def)
  have esc: "sendMessageToGemini env chat message False w =
              (case fallback of
                 (Inr result, w3) \<Rightarrow> (Inr result, w3)
               | (Inl fallbackError, w3) \<Rightarrow>
                   retryLoop env chat message False 1 (Some (asError e)) (delay env 0 w3)) \<and>
            sessionsCreated (snd (sendMessageToGemini env chat message False w))
              = sessionsCreated w + 1 \<and>
            providerCalls w1 + 1 \<le> providerCalls (snd fallback) \<and>
            providerCalls (snd fallback) \<le> providerCalls w1 + 4"
    if ov: "overloadedError e"
  proof -
    have eq: "sendMessageToGemini env chat message False w =
           (case fallback of
              (Inr result, w3) \<Rightarrow> (Inr result, w3)
            | (Inl fallbackError, w3) \<Rightarrow>
                retryLoop env chat message False 1 (Some (asError e)) (delay env 0 w3))"
      unfolding send_admitted[OF c] retryLoop_escalate[OF t nr ov] fb w2_def ..
    have s2: "sessionsCreated w2 = sessionsCreated w + 1"
      using s1 by (simp add: w2_def createChatSession_def sessionsCreated_def)
    obtain y w3 where f: "fallback = (y, w3)" by fastforce
    have s3: "sessionsCreated w3 = sessionsCreated w + 1"
      using sessions_fallback_call[of env "Chat FALLBACK_MODEL_NAME" message w2] f s2
      by (simp add: fb)
    have ses: "sessionsCreated (snd (sendMessageToGemini env chat message False w))
               = sessionsCreated w + 1"
    proof (cases y)
      case (Inr r)
      then show ?thesis using eq f s3 by simp
    next
      case (Inl fe)
      then show ?thesis using eq f s3 later[of w3] by simp
    qed
    have "\<not> isOpen (circuitBreakerState w2)"
      using a by (simp add: w2_def w1 createChatSession_def)
    moreover have "providerCalls w2 = providerCalls w1"
      by (simp add: w2_def createChatSession_def)
    ultimately show ?thesis
      using fallback_call_sends[of w2 env "Chat FALLBACK_MODEL_NAME" message] eq ses
      by (simp add: fb)
  qed
  have plain: "sendMessageToGemini env chat message False w =
              retryLoop env chat message False 1 (Some (asError e)) (delay env 0 w1) \<and>
            sessionsCreated (snd (sendMessageToGemini env chat message False w))
              = sessionsCreated w"
    if no: "\<not> overloadedError e"
  proof -
    have lt: "(0::nat) < maxRetries" by (simp add: maxRetries_def)
    have cnd: "False \<or> (0::nat) < 0 \<or> \<not> overloadedError e" using no by simp
    have eq: "sendMessageToGemini env chat message False w =
              retryLoop env chat message False 1 (Some (asError e)) (delay env 0 w1)"
      by (simp add: send_admitted[OF c] retryLoop_retry[OF lt t nr cnd])
    then show ?thesis using later[of w1] s1 by simp
  qed
  show ?thesis using esc plain unfolding w1_def fallback_def by blast
qed

theorem fallback_escalation_on_first_overload_witness:
  "fst (checkCircuitBreaker overloadThenText initialWorld) \<and>
   chat_sendMessage overloadThenText (providerCalls initialWorld) (Chat GEMINI_MODEL_NAME) ''look''
     = Throws (ErrorObj ''503'') \<and>
   nonRetryable overloadThenText (ErrorObj ''503'') = None \<and> overloadedError (ErrorObj ''503'') \<and>
   sessionsCreated (snd (sendMessageToGemini overloadThenText (Chat GEMINI_MODEL_NAME) ''look''
                           False initialWorld)) = 1 \<and>
   fst (checkCircuitBreaker serverErrorThenText initialWorld) \<and>
   chat_sendMessage serverErrorThenText (providerCalls initialWorld) (Chat GEMINI_MODEL_NAME)
     ''look'' = Throws (ErrorObj ''500'') \<and>
   nonRetryable serverErrorThenText (ErrorObj ''500'') = None \<and> \<not> overloadedError (ErrorObj ''500'') \<and>
   sessionsCreated (snd (sendMessageToGemini serverErrorThenText (Chat GEMINI_MODEL_NAME) ''look''
                           False initialWorld)) = 0"
proof -
  have h: "fst (checkCircuitBreaker overloadThenText initialWorld)"
    "chat_sendMessage overloadThenText (providerCalls initialWorld) (Chat GEMINI_MODEL_NAME) ''look''
     = Throws (ErrorObj ''503'')"
    "nonRetryable overloadThenText (ErrorObj ''503'') = None" "overloadedError (ErrorObj ''503'')"
    "fst (checkCircuitBreaker serverErrorThenText initialWorld)"
    "chat_sendMessage serverErrorThenText (providerCalls initialWorld) (Chat GEMINI_MODEL_NAME)
     ''look'' = Throws (ErrorObj ''500'')"
    "nonRetryable serverErrorThenText (ErrorObj ''500'') = None" "\<not> overloadedError (ErrorObj ''500'')"
    "sessionsCreated initialWorld = 0"
    by (simp_all add: overloadThenText_def serverErrorThenText_def scriptedEnv_def
        initialWorld_def checkCircuitBreaker_def Let_def isRetryableError_def isOverloaded_def
        sessionsCreated_def)
  have s1: "sessionsCreated (snd (sendMessageToGemini overloadThenText (Chat GEMINI_MODEL_NAME)
                 ''look'' False initialWorld)) = sessionsCreated initialWorld + 1"
    using fallback_escalation_on_first_overload[OF h(1,2,3)] h(4) by blast
  have s2: "sessionsCreated (snd (sendMessageToGemini serverErrorThenText (Chat GEMINI_MODEL_NAME)
                 ''look'' False initialWorld)) = sessionsCreated initialWorld"
    using fallback_escalation_on_first_overload[OF h(5,6,7)] h(8) by blast
  show ?thesis
    using h(1-8) s1 s2 by (simp only: h(9)) simp
qed

text \<open>
  Claim C2, as stated, fails: with the breaker open and the clock past \<open>openUntil\<close>,
  the admission check returns true and the breaker is closed already, before any outcome
  is recorded, and a second check right after it returns true as well.
\<close>

theorem admission_probe_counterexample:
  "fst (checkCircuitBreaker (scriptedEnv lateClock [] (Response None)) openWorld) \<and>
   \<not> isOpen (circuitBreakerState
        (snd (checkCircuitBreaker (scriptedEnv lateClock [] (Response None)) openWorld))) \<and>
   breakerRecords (snd (checkCircuitBreaker (scriptedEnv lateClock [] (Response None)) openWorld))
     = 0 \<and>
   fst (checkCircuitBreaker (scriptedEnv lateClock [] (Response None))
         (snd (checkCircuitBreaker (scriptedEnv lateClock [] (Response None)) openWorld)))"
  by (simp add: checkCircuitBreaker_def scriptedEnv_def lateClock_def openWorld_def
      initialWorld_def breakerRecords_def Let_def)

text \<open>
  Claim C2, amended. When the breaker is open and the clock has passed \<open>openUntil\<close>,
  \<open>checkCircuitBreaker\<close> returns true and closes the breaker in the same step, with the
  failure count back at 0; the breaker being closed, the next check returns true too,
  whatever the clock says.
\<close>

theorem admission_recloses_at_once:
  assumes "isOpen (circuitBreakerState w)"
    and "openUntil (circuitBreakerState w) < Date_now env (clockReads w)"
  shows "checkCircuitBreaker env w =
           (True, w\<lparr>clockReads := clockReads w + 1,
                   circuitBreakerState := (circuitBreakerState w)\<lparr>isOpen := False, failures := 0\<rparr>,
                   effects := effects w @ [BreakerReclosed]\<rparr>)
         \<and> fst (checkCircuitBreaker env' (snd (checkCircuitBreaker env w)))"
  using assms by (simp add: checkCircuitBreaker_def Let_def)

theorem admission_recloses_at_once_witness:
  "isOpen (circuitBreakerState openWorld) \<and>
   openUntil (circuitBreakerState openWorld)
     < Date_now (scriptedEnv lateClock [] (Response None)) (clockReads openWorld) \<and>
   checkCircuitBreaker (scriptedEnv lateClock [] (Response None)) openWorld =
     (True, openWorld\<lparr>clockReads := 1,
        circuitBreakerState := \<lparr>failures = 0, lastFailureTime = 70, isOpen = False, openUntil = 100\<rparr>,
        effects := [BreakerReclosed]\<rparr>)"
  using admission_recloses_at_once[of openWorld "scriptedEnv lateClock [] (Response None)"]
  by (simp add: openWorld_def initialWorld_def scriptedEnv_def lateClock_def)

text \<open>
  Claim C3, as stated, fails: when the provider answers the first attempt with an empty
  text, the call returns \<open>null\<close> and neither \<open>recordSuccess\<close> nor \<open>recordFailure\<close> has
  run; and when every attempt on both models fails with a 503, \<open>recordFailure\<close> runs
  twice in one call, once for the fallback's loop and once for the primary's.
\<close>

theorem breaker_not_recorded_on_empty_text_counterexample:
  "sendMessageToGemini emptyAnswer (Chat GEMINI_MODEL_NAME) ''look'' False initialWorld =
     (Inr None, initialWorld\<lparr>clockReads := 1, providerCalls := 1,
                  effects := [MessageSent (Chat GEMINI_MODEL_NAME) ''look'']\<rparr>) \<and>
   breakerRecords (snd (sendMessageToGemini emptyAnswer (Chat GEMINI_MODEL_NAME) ''look'' False
                          initialWorld)) = 0 \<and>
   breakerRecords (snd (sendMessageToGemini allOverloaded (Chat GEMINI_MODEL_NAME) ''look'' False
                          initialWorld)) = 2"
proof -
  have "breakerRecords (snd (sendMessageToGemini allOverloaded (Chat GEMINI_MODEL_NAME) ''look''
                               False initialWorld)) = 2"
    by (simp add: sendMessageToGemini.simps retryLoop.simps allOverloaded_def scriptedEnv_def
        tickingClock_def initialWorld_def checkCircuitBreaker_def tryBlock_def
        createChatSession_def delay_def exhaust_def recordFailure_def maxRetries_def
        isOverloaded_def isRetryableError_def failureThreshold_def breakerRecords_def Let_def)
  then show ?thesis
    by (simp add: sendMessageToGemini.simps retryLoop.simps emptyAnswer_def scriptedEnv_def
        initialWorld_def checkCircuitBreaker_def tryBlock_def breakerRecords_def Let_def)
qed

text \<open>
  Claim C3, amended. A record is a run of \<open>recordSuccess\<close> or \<open>recordFailure\<close>; the admission
  check, which re-closes an open breaker once the clock has passed \<open>openUntil\<close>, changes
  the breaker too and is not counted. A call with \<open>useFallback = True\<close> records once when
  the last thing it does is a record, and never otherwise. A call with
  \<open>useFallback = False\<close> records once or never by the same rule on its own ending, and at
  most once more before that (the record of the fallback call it made). An admitted call
  whose first attempt is answered with an empty or missing text returns \<open>null\<close>, and one
  whose first attempt fails with an error that is rethrown at once throws it, after the
  admission check and that one message only: it records nothing. In the loop, at any
  attempt: an empty or missing text, or an error rethrown at once, ends the loop with the
  world changed by the one message only; a non-empty text runs exactly \<open>recordSuccess\<close>;
  a failure of the last attempt with an error that is not rethrown runs exactly
  \<open>recordFailure\<close>.
\<close>

theorem breaker_recorded_only_as_last_action:
  "breakerRecords (snd (sendMessageToGemini env chat message True w)) =
     breakerRecords w
       + (if endsRecording w (snd (sendMessageToGemini env chat message True w)) then 1 else 0) \<and>
   breakerRecords w
     + (if endsRecording w (snd (sendMessageToGemini env chat message False w)) then 1 else 0)
     \<le> breakerRecords (snd (sendMessageToGemini env chat message False w)) \<and>
   breakerRecords (snd (sendMessageToGemini env chat message False w)) \<le>
     breakerRecords w
       + (if endsRecording w (snd (sendMessageToGemini env chat message False w)) then 1 else 0)
       + 1 \<and>
   (fst (checkCircuitBreaker env w) \<and>
    (\<exists>t. chat_sendMessage env (providerCalls w) chat message = Response t \<and>
         (t = None \<or> t = Some [])) \<longrightarrow>
      sendMessageToGemini env chat message useFallback w =
        (Inr None, (snd (checkCircuitBreaker env w))
                     \<lparr>providerCalls := providerCalls w + 1,
                      effects := effects (snd (checkCircuitBreaker env w))
                                   @ [MessageSent chat message]\<rparr>) \<and>
      breakerRecords (snd (sendMessageToGemini env chat message useFallback w))
        = breakerRecords w) \<and>
   (fst (checkCircuitBreaker env w) \<and>
    (\<exists>e. chat_sendMessage env (providerCalls w) chat message = Throws e \<and>
         nonRetryable env e = Some e') \<longrightarrow>
      sendMessageToGemini env chat message useFallback w =
        (Inl e', (snd (checkCircuitBreaker env w))
                   \<lparr>providerCalls := providerCalls w + 1,
                    effects := effects (snd (checkCircuitBreaker env w))
                                 @ [MessageSent chat message]\<rparr>) \<and>
      breakerRecords (snd (sendMessageToGemini env chat message useFallback w))
        = breakerRecords w) \<and>
   (attempt \<le> maxRetries \<and>
    (\<exists>t. chat_sendMessage env (providerCalls w) chat message = Response t \<and>
         (t = None \<or> t = Some [])) \<longrightarrow>
      retryLoop env chat message useFallback attempt lastError w =
        (Inr None, w\<lparr>providerCalls := providerCalls w + 1,
                     effects := effects w @ [MessageSent chat message]\<rparr>)) \<and>
   (attempt \<le> maxRetries \<and>
    (\<exists>e. chat_sendMessage env (providerCalls w) chat message = Throws e \<and> nonRetryable env e = Some e')
     \<longrightarrow>
      retryLoop env chat message useFallback attempt lastError w =
        (Inl e', w\<lparr>providerCalls := providerCalls w + 1,
                   effects := effects w @ [MessageSent chat message]\<rparr>)) \<and>
   (attempt \<le> maxRetries \<and>
    (\<exists>t. chat_sendMessage env (providerCalls w) chat message = Response (Some t) \<and> t \<noteq> [])
     \<longrightarrow>
      effects (snd (retryLoop env chat message useFallback attempt lastError w)) =
        effects w @ [MessageSent chat message, SuccessRecorded]) \<and>
   (attempt = maxRetries \<and>
    (\<exists>e. chat_sendMessage env (providerCalls w) chat message = Throws e \<and> nonRetryable env e = None)
     \<longrightarrow>
      effects (snd (retryLoop env chat message useFallback attempt lastError w)) =
        effects w @ [MessageSent chat message, FailureRecorded])"
proof -
  have empty: "retryLoop env chat message fb a le v =
        (Inr None, v\<lparr>providerCalls := providerCalls v + 1,
                     effects := effects v @ [MessageSent chat message]\<rparr>)"
    if le: "a \<le> maxRetries"
      and ex: "\<exists>t. chat_sendMessage env (providerCalls v) chat message = Response t \<and>
               (t = None \<or> t = Some [])" for fb a le v
  proof -
    obtain t where "chat_sendMessage env (providerCalls v) chat message = Response t"
      "t = None \<or> t = Some []" using ex by blast
    from retryLoop_return[OF le tryBlock_empty[OF this]] show ?thesis .
  qed
  have rethrown: "retryLoop env chat message fb a le v =
        (Inl e', v\<lparr>providerCalls := providerCalls v + 1,
                   effects := effects v @ [MessageSent chat message]\<rparr>)"
    if le: "a \<le> maxRetries"
      and ex: "\<exists>e. chat_sendMessage env (providerCalls v) chat message = Throws e \<and>
               nonRetryable env e = Some e'" for fb a le v
  proof -
    obtain e where "chat_sendMessage env (providerCalls v) chat message = Throws e"
      "nonRetryable env e = Some e'" using ex by blast
    from retryLoop_rethrow[OF le tryBlock_throws[OF this(1)] this(2)] show ?thesis .
  qed
  have first: "sendMessageToGemini env chat message useFallback w =
        (x, (snd (checkCircuitBreaker env w))
               \<lparr>providerCalls := providerCalls w + 1,
                effects := effects (snd (checkCircuitBreaker env w))
                             @ [MessageSent chat message]\<rparr>) \<and>
      breakerRecords (snd (sendMessageToGemini env chat message useFallback w))
        = breakerRecords w"
    if adm: "fst (checkCircuitBreaker env w)"
      and loop: "\<And>v. providerCalls v = providerCalls w \<Longrightarrow>
         retryLoop env chat message useFallback 0 None v =
           (x, v\<lparr>providerCalls := providerCalls v + 1,
                  effects := effects v @ [MessageSent chat message]\<rparr>)" for x
  proof -
    obtain w1 where c: "checkCircuitBreaker env w = (True, w1)"
      using adm by (cases "checkCircuitBreaker env w") auto
    note a = checkCircuitBreaker_admitted[OF c]
    have eq: "sendMessageToGemini env chat message useFallback w =
        (x, w1\<lparr>providerCalls := providerCalls w + 1,
               effects := effects w1 @ [MessageSent chat message]\<rparr>)"
      using loop[of w1] a by (simp add: send_admitted[OF c])
    have "breakerRecords (w1\<lparr>providerCalls := providerCalls w + 1,
               effects := effects w1 @ [MessageSent chat message]\<rparr>) = breakerRecords w1"
      by (simp add: breakerRecords_def)
    then show ?thesis using eq a by (simp add: c)
  qed
  have p4: "fst (checkCircuitBreaker env w) \<and>
    (\<exists>t. chat_sendMessage env (providerCalls w) chat message = Response t \<and>
         (t = None \<or> t = Some [])) \<longrightarrow>
      sendMessageToGemini env chat message useFallback w =
        (Inr None, (snd (checkCircuitBreaker env w))
                     \<lparr>providerCalls := providerCalls w + 1,
                      effects := effects (snd (checkCircuitBreaker env w))
                                   @ [MessageSent chat message]\<rparr>) \<and>
      breakerRecords (snd (sendMessageToGemini env chat message useFallback w))
        = breakerRecords w"
  proof (intro impI, elim conjE)
    assume adm: "fst (checkCircuitBreaker env w)"
      and ex: "\<exists>t. chat_sendMessage env (providerCalls w) chat message = Response t \<and>
         (t = None \<or> t = Some [])"
    show "sendMessageToGemini env chat message useFallback w =
        (Inr None, (snd (checkCircuitBreaker env w))
                     \<lparr>providerCalls := providerCalls w + 1,
                      effects := effects (snd (checkCircuitBreaker env w))
                                   @ [MessageSent chat message]\<rparr>) \<and>
      breakerRecords (snd (sendMessageToGemini env chat message useFallback w))
        = breakerRecords w"
    proof (rule first[OF adm])
      fix v :: world assume "providerCalls v = providerCalls w"
      then have "\<exists>t. chat_sendMessage env (providerCalls v) chat message = Response t \<and>
         (t = None \<or> t = Some [])" using ex by simp
      then show "retryLoop env chat message useFallback 0 None v =
           (Inr None, v\<lparr>providerCalls := providerCalls v + 1,
                  effects := effects v @ [MessageSent chat message]\<rparr>)"
        by (intro empty) simp
    qed
  qed
  have p5: "fst (checkCircuitBreaker env w) \<and>
    (\<exists>e. chat_sendMessage env (providerCalls w) chat message = Throws e \<and>
         nonRetryable env e = Some e') \<longrightarrow>
      sendMessageToGemini env chat message useFallback w =
        (Inl e', (snd (checkCircuitBreaker env w))
                   \<lparr>providerCalls := providerCalls w + 1,
                    effects := effects (snd (checkCircuitBreaker env w))
                                 @ [MessageSent chat message]\<rparr>) \<and>
      breakerRecords (snd (sendMessageToGemini env chat message useFallback w))
        = breakerRecords w"
  proof (intro impI, elim conjE)
    assume adm: "fst (checkCircuitBreaker env w)"
      and ex: "\<exists>e. chat_sendMessage env (providerCalls w) chat message = Throws e \<and>
         nonRetryable env e = Some e'"
    show "sendMessageToGemini env chat message useFallback w =
        (Inl e', (snd (checkCircuitBreaker env w))
                   \<lparr>providerCalls := providerCalls w + 1,
                    effects := effects (snd (checkCircuitBreaker env w))
                                 @ [MessageSent chat message]\<rparr>) \<and>
      breakerRecords (snd (sendMessageToGemini env chat message useFallback w))
        = breakerRecords w"
    proof (rule first[OF adm])
      fix v :: world assume "providerCalls v = providerCalls w"
      then have "\<exists>e. chat_sendMessage env (providerCalls v) chat message = Throws e \<and>
         nonRetryable env e = Some e'" using ex by simp
      then show "retryLoop env chat message useFallback 0 None v =
           (Inl e', v\<lparr>providerCalls := providerCalls v + 1,
                  effects := effects v @ [MessageSent chat message]\<rparr>)"
        by (intro rethrown) simp
    qed
  qed
  have p8: "attempt \<le> maxRetries \<and>
    (\<exists>t. chat_sendMessage env (providerCalls w) chat message = Response (Some t) \<and> t \<noteq> [])
     \<longrightarrow>
      effects (snd (retryLoop env chat message useFallback attempt lastError w)) =
        effects w @ [MessageSent chat message, SuccessRecorded]"
  proof (intro impI, elim conjE exE)
    fix t
    assume a: "attempt \<le> maxRetries"
      and t: "chat_sendMessage env (providerCalls w) chat message = Response (Some t)" "t \<noteq> []"
    obtain r where "parseGeminiResponse (JSON_parse env) (String_trim env) t = Inr r"
      using parseGeminiResponse_returns by blast
    then have "tryBlock env chat message w =
       (Inr r, recordSuccess (w\<lparr>providerCalls := providerCalls w + 1,
                                effects := effects w @ [MessageSent chat message]\<rparr>))"
      using tryBlock_text[OF t] by simp
    from retryLoop_return[OF a this]
    show "effects (snd (retryLoop env chat message useFallback attempt lastError w)) =
          effects w @ [MessageSent chat message, SuccessRecorded]"
      by (simp add: recordSuccess_def)
  qed
  have p9: "attempt = maxRetries \<and>
    (\<exists>e. chat_sendMessage env (providerCalls w) chat message = Throws e \<and> nonRetryable env e = None)
     \<longrightarrow>
      effects (snd (retryLoop env chat message useFallback attempt lastError w)) =
        effects w @ [MessageSent chat message, FailureRecorded]"
  proof (intro impI, elim conjE exE)
    fix e
    assume a: "attempt = maxRetries"
      and e: "chat_sendMessage env (providerCalls w) chat message = Throws e"
        "nonRetryable env e = None"
    from retryLoop_exhaust[OF a tryBlock_throws[OF e(1)] e(2)]
    show "effects (snd (retryLoop env chat message useFallback attempt lastError w)) =
          effects w @ [MessageSent chat message, FailureRecorded]"
      by (simp add: exhaust_def recordFailure_def Let_def)
  qed
  show ?thesis
    apply (intro conjI)
            apply (rule records_of_fallback_call)
           apply (rule records_of_call[THEN conjunct1])
          apply (rule records_of_call[THEN conjunct2])
         apply (rule p4)
        apply (rule p5)
       apply (intro impI, elim conjE, rule empty, assumption+)
      apply (intro impI, elim conjE, rule rethrown, assumption+)
     apply (rule p8)
    apply (rule p9)
    done
qed

theorem breaker_recorded_only_as_last_action_witness:
  "\<not> endsRecording initialWorld
       (snd (sendMessageToGemini emptyAnswer (Chat FALLBACK_MODEL_NAME) ''look'' True initialWorld)) \<and>
   breakerRecords
     (snd (sendMessageToGemini emptyAnswer (Chat FALLBACK_MODEL_NAME) ''look'' True initialWorld)) = 0 \<and>
   endsRecording initialWorld
     (snd (sendMessageToGemini alwaysServerError (Chat GEMINI_MODEL_NAME) ''look'' False
             initialWorld)) \<and>
   1 \<le> breakerRecords
          (snd (sendMessageToGemini alwaysServerError (Chat GEMINI_MODEL_NAME) ''look'' False
                  initialWorld)) \<and>
   breakerRecords
     (snd (sendMessageToGemini alwaysServerError (Chat GEMINI_MODEL_NAME) ''look'' False
             initialWorld)) \<le> 2 \<and>
   sendMessageToGemini emptyAnswer (Chat GEMINI_MODEL_NAME) ''look'' False initialWorld =
     (Inr None, initialWorld\<lparr>clockReads := 1, providerCalls := 1,
                  effects := [MessageSent (Chat GEMINI_MODEL_NAME) ''look'']\<rparr>) \<and>
   breakerRecords
     (snd (sendMessageToGemini emptyAnswer (Chat GEMINI_MODEL_NAME) ''look'' False initialWorld)) = 0 \<and>
   sendMessageToGemini (scriptedEnv tickingClock [] (Throws (ErrorObj ''404'')))
     (Chat GEMINI_MODEL_NAME) ''look'' False initialWorld =
     (Inl (ErrorObj ''404''), initialWorld\<lparr>clockReads := 1, providerCalls := 1,
                  effects := [MessageSent (Chat GEMINI_MODEL_NAME) ''look'']\<rparr>) \<and>
   retryLoop emptyAnswer (Chat GEMINI_MODEL_NAME) ''look'' False 0 None initialWorld =
     (Inr None, initialWorld\<lparr>providerCalls := 1,
                  effects := [MessageSent (Chat GEMINI_MODEL_NAME) ''look'']\<rparr>) \<and>
   retryLoop (scriptedEnv tickingClock [] (Throws (ErrorObj ''404''))) (Chat GEMINI_MODEL_NAME)
     ''look'' False 0 None initialWorld =
     (Inl (ErrorObj ''404''), initialWorld\<lparr>providerCalls := 1,
                  effects := [MessageSent (Chat GEMINI_MODEL_NAME) ''look'']\<rparr>) \<and>
   effects (snd (retryLoop overloadThenText (Chat GEMINI_MODEL_NAME) ''look'' True 1 None
                  (initialWorld\<lparr>providerCalls := 2\<rparr>))) =
     [MessageSent (Chat GEMINI_MODEL_NAME) ''look'', SuccessRecorded] \<and>
   effects (snd (retryLoop allOverloaded (Chat GEMINI_MODEL_NAME) ''look'' False maxRetries None
                  initialWorld)) =
     [MessageSent (Chat GEMINI_MODEL_NAME) ''look'', FailureRecorded]"
proof -
  have i: "providerCalls initialWorld = 0" "effects initialWorld = []"
    "breakerRecords initialWorld = 0"
    by (simp_all add: initialWorld_def breakerRecords_def)
  have a: "fst (checkCircuitBreaker env initialWorld)"
    "snd (checkCircuitBreaker env initialWorld) = initialWorld\<lparr>clockReads := 1\<rparr>" for env
    by (simp_all add: checkCircuitBreaker_def initialWorld_def Let_def)
  have m: "(0::nat) \<le> maxRetries" "(1::nat) \<le> maxRetries" "maxRetries = maxRetries"
    by (simp_all add: maxRetries_def)
  have s: "chat_sendMessage (scriptedEnv c [] x) n ch msg = x" for c x n ch msg
    by (simp add: scriptedEnv_def)
  note E = emptyAnswer_def
  have n404: "nonRetryable (scriptedEnv tickingClock [] (Throws (ErrorObj ''404''))) (ErrorObj ''404'')
     = Some (ErrorObj ''404'')"
    by (simp add: isRetryableError_def)
  have n503: "nonRetryable allOverloaded (ErrorObj ''503'') = None"
    by (rule overload_marker_example)

  note t1 = breaker_recorded_only_as_last_action[where env = emptyAnswer
      and chat = "Chat FALLBACK_MODEL_NAME" and message = "''look''" and w = initialWorld]
  have run1: "sendMessageToGemini emptyAnswer (Chat FALLBACK_MODEL_NAME) ''look'' True initialWorld =
     (Inr None, initialWorld\<lparr>clockReads := 1, providerCalls := 1,
                  effects := [MessageSent (Chat FALLBACK_MODEL_NAME) ''look'']\<rparr>)"
    by (simp add: sendMessageToGemini.simps retryLoop.simps emptyAnswer_def scriptedEnv_def
        initialWorld_def checkCircuitBreaker_def tryBlock_def Let_def)
  have c1a: "\<not> endsRecording initialWorld
       (snd (sendMessageToGemini emptyAnswer (Chat FALLBACK_MODEL_NAME) ''look'' True initialWorld))"
    by (simp add: run1 endsRecording_def i)
  have c1b: "breakerRecords
     (snd (sendMessageToGemini emptyAnswer (Chat FALLBACK_MODEL_NAME) ''look'' True initialWorld)) = 0"
    using t1[THEN conjunct1] c1a by (simp add: i)

  note t2 = breaker_recorded_only_as_last_action[where env = alwaysServerError
      and chat = "Chat GEMINI_MODEL_NAME" and message = "''look''" and w = initialWorld]
  have "exhaustedTurn alwaysServerError (Chat GEMINI_MODEL_NAME) ''look'' initialWorld"
    by (rule server_error_turn(1)) (simp add: initialWorld_def)
  then have c2a: "endsRecording initialWorld
     (snd (sendMessageToGemini alwaysServerError (Chat GEMINI_MODEL_NAME) ''look'' False
             initialWorld))"
    by (simp add: exhaustedTurn_def endsRecording_def turn_def Let_def)
  have c2b: "1 \<le> breakerRecords
          (snd (sendMessageToGemini alwaysServerError (Chat GEMINI_MODEL_NAME) ''look'' False
                  initialWorld))"
    using t2[THEN conjunct2, THEN conjunct1] c2a by (simp add: i)
  have c2c: "breakerRecords
     (snd (sendMessageToGemini alwaysServerError (Chat GEMINI_MODEL_NAME) ''look'' False
             initialWorld)) \<le> 2"
    using t2[THEN conjunct2, THEN conjunct2, THEN conjunct1] c2a by (simp add: i)

  note t3 = breaker_recorded_only_as_last_action[where env = emptyAnswer
      and chat = "Chat GEMINI_MODEL_NAME" and message = "''look''" and w = initialWorld
      and useFallback = False and attempt = 0 and lastError = None]
  have h3: "fst (checkCircuitBreaker emptyAnswer initialWorld) \<and>
    (\<exists>t. chat_sendMessage emptyAnswer (providerCalls initialWorld) (Chat GEMINI_MODEL_NAME) ''look''
           = Response t \<and> (t = None \<or> t = Some []))"
    using a(1) by (simp add: E s)
  note c3 = mp[OF t3[THEN conjunct2, THEN conjunct2, THEN conjunct2, THEN conjunct1] h3]
  have c3a: "sendMessageToGemini emptyAnswer (Chat GEMINI_MODEL_NAME) ''look'' False initialWorld =
     (Inr None, initialWorld\<lparr>clockReads := 1, providerCalls := 1,
                  effects := [MessageSent (Chat GEMINI_MODEL_NAME) ''look'']\<rparr>)"
    using c3[THEN conjunct1] by (simp add: a i)
  have c3b: "breakerRecords
     (snd (sendMessageToGemini emptyAnswer (Chat GEMINI_MODEL_NAME) ''look'' False initialWorld)) = 0"
    using c3[THEN conjunct2] by (simp add: i)
  have h5: "0 \<le> maxRetries \<and>
    (\<exists>t. chat_sendMessage emptyAnswer (providerCalls initialWorld) (Chat GEMINI_MODEL_NAME) ''look''
           = Response t \<and> (t = None \<or> t = Some []))"
    by (simp add: E s)
  have c5: "retryLoop emptyAnswer (Chat GEMINI_MODEL_NAME) ''look'' False 0 None initialWorld =
     (Inr None, initialWorld\<lparr>providerCalls := 1,
                  effects := [MessageSent (Chat GEMINI_MODEL_NAME) ''look'']\<rparr>)"
    using mp[OF t3[THEN conjunct2, THEN conjunct2, THEN conjunct2, THEN conjunct2,
                   THEN conjunct2, THEN conjunct1] h5]
    by (simp add: i)

  note t4 = breaker_recorded_only_as_last_action[where
      env = "scriptedEnv tickingClock [] (Throws (ErrorObj ''404''))"
      and chat = "Chat GEMINI_MODEL_NAME" and message = "''look''" and w = initialWorld
      and useFallback = False and attempt = 0 and lastError = None and e' = "ErrorObj ''404''"]
  have h4: "fst (checkCircuitBreaker (scriptedEnv tickingClock [] (Throws (ErrorObj ''404'')))
                   initialWorld) \<and>
    (\<exists>e. chat_sendMessage (scriptedEnv tickingClock [] (Throws (ErrorObj ''404'')))
            (providerCalls initialWorld) (Chat GEMINI_MODEL_NAME) ''look'' = Throws e \<and>
         nonRetryable (scriptedEnv tickingClock [] (Throws (ErrorObj ''404''))) e
           = Some (ErrorObj ''404''))"
    using a(1) n404 by (simp add: s del: nonRetryable.simps)
  have c4: "sendMessageToGemini (scriptedEnv tickingClock [] (Throws (ErrorObj ''404'')))
     (Chat GEMINI_MODEL_NAME) ''look'' False initialWorld =
     (Inl (ErrorObj ''404''), initialWorld\<lparr>clockReads := 1, providerCalls := 1,
                  effects := [MessageSent (Chat GEMINI_MODEL_NAME) ''look'']\<rparr>)"
    using mp[OF t4[THEN conjunct2, THEN conjunct2, THEN conjunct2, THEN conjunct2,
                   THEN conjunct1] h4, THEN conjunct1]
    by (simp add: a i)
  have h6: "0 \<le> maxRetries \<and>
    (\<exists>e. chat_sendMessage (scriptedEnv tickingClock [] (Throws (ErrorObj ''404'')))
            (providerCalls initialWorld) (Chat GEMINI_MODEL_NAME) ''look'' = Throws e \<and>
         nonRetryable (scriptedEnv tickingClock [] (Throws (ErrorObj ''404''))) e
           = Some (ErrorObj ''404''))"
    using n404 by (simp add: s del: nonRetryable.simps)
  have c6: "retryLoop (scriptedEnv tickingClock [] (Throws (ErrorObj ''404''))) (Chat GEMINI_MODEL_NAME)
     ''look'' False 0 None initialWorld =
     (Inl (ErrorObj ''404''), initialWorld\<lparr>providerCalls := 1,
                  effects := [MessageSent (Chat GEMINI_MODEL_NAME) ''look'']\<rparr>)"
    using mp[OF t4[THEN conjunct2, THEN conjunct2, THEN conjunct2, THEN conjunct2,
                   THEN conjunct2, THEN conjunct2, THEN conjunct1] h6]
    by (simp add: i)

  note t5 = breaker_recorded_only_as_last_action[where env = overloadThenText
      and chat = "Chat GEMINI_MODEL_NAME" and message = "''look''"
      and w = "initialWorld\<lparr>providerCalls := 2\<rparr>"
      and attempt = 1 and useFallback = True and lastError = None]
  have h7: "1 \<le> maxRetries \<and>
    (\<exists>t. chat_sendMessage overloadThenText (providerCalls (initialWorld\<lparr>providerCalls := 2\<rparr>))
            (Chat GEMINI_MODEL_NAME) ''look'' = Response (Some t) \<and> t \<noteq> [])"
    using m(2) by (simp add: overloadThenText_def scriptedEnv_def)
  have c7: "effects (snd (retryLoop overloadThenText (Chat GEMINI_MODEL_NAME) ''look'' True 1 None
                  (initialWorld\<lparr>providerCalls := 2\<rparr>))) =
     [MessageSent (Chat GEMINI_MODEL_NAME) ''look'', SuccessRecorded]"
    using mp[OF t5[THEN conjunct2, THEN conjunct2, THEN conjunct2, THEN conjunct2,
                   THEN conjunct2, THEN conjunct2, THEN conjunct2, THEN conjunct1] h7]
    by (simp add: i)

  note t6 = breaker_recorded_only_as_last_action[where env = allOverloaded
      and chat = "Chat GEMINI_MODEL_NAME" and message = "''look''" and w = initialWorld
      and attempt = maxRetries and useFallback = False and lastError = None]
  have h8: "maxRetries = maxRetries \<and>
    (\<exists>e. chat_sendMessage allOverloaded (providerCalls initialWorld) (Chat GEMINI_MODEL_NAME)
            ''look'' = Throws e \<and> nonRetryable allOverloaded e = None)"
    using n503 by (simp add: allOverloaded_def s del: nonRetryable.simps)
  have c8: "effects (snd (retryLoop allOverloaded (Chat GEMINI_MODEL_NAME) ''look'' False maxRetries
                  None initialWorld)) =
     [MessageSent (Chat GEMINI_MODEL_NAME) ''look'', FailureRecorded]"
    using mp[OF t6[THEN conjunct2, THEN conjunct2, THEN conjunct2, THEN conjunct2,
                   THEN conjunct2, THEN conjunct2, THEN conjunct2, THEN conjunct2] h8]
    by (simp add: i)
  show ?thesis
    apply (intro conjI)
               apply (rule c1a)
              apply (rule c1b)
             apply (rule c2a)
            apply (rule c2b)
           apply (rule c2c)
          apply (rule c3a)
         apply (rule c3b)
        apply (rule c4)
       apply (rule c5)
      apply (rule c6)
     apply (rule c7)
    apply (rule c8)
    done
qed

text \<open>
  Claim C4, as stated, fails for the top-level call. The first attempt on the primary
  model fails with a 503, and the fallback model answers its first message with an error
  that classifies as an exhausted quota. The fallback call ends at once, but the
  top-level call drops that error: it sleeps three times, sends three more messages to
  the primary model, records a failure and throws the overload error.
\<close>

theorem quota_error_swallowed_counterexample:
  "chat_sendMessage quotaInsideFallback 1 (Chat FALLBACK_MODEL_NAME) ''look''
     = Throws (ErrorObj ''429 RESOURCE_EXHAUSTED'') \<and>
   nonRetryable quotaInsideFallback (ErrorObj ''429 RESOURCE_EXHAUSTED'')
     = Some (ErrorObj rateLimitMessage) \<and>
   fst (sendMessageToGemini quotaInsideFallback (Chat GEMINI_MODEL_NAME) ''look'' False
          initialWorld) = Inl (ErrorObj overloadedMessage) \<and>
   effects (snd (sendMessageToGemini quotaInsideFallback (Chat GEMINI_MODEL_NAME) ''look'' False
                   initialWorld)) =
     [MessageSent (Chat GEMINI_MODEL_NAME) ''look'', SessionCreated FALLBACK_MODEL_NAME,
      MessageSent (Chat FALLBACK_MODEL_NAME) ''look'', Slept 1150,
      MessageSent (Chat GEMINI_MODEL_NAME) ''look'', Slept 2300,
      MessageSent (Chat GEMINI_MODEL_NAME) ''look'', Slept 4600,
      MessageSent (Chat GEMINI_MODEL_NAME) ''look'', FailureRecorded] \<and>
   failures (circuitBreakerState
     (snd (sendMessageToGemini quotaInsideFallback (Chat GEMINI_MODEL_NAME) ''look'' False
             initialWorld))) = 1"
proof -
  have q: "nonRetryable quotaInsideFallback (ErrorObj ''429 RESOURCE_EXHAUSTED'')
     = Some (ErrorObj rateLimitMessage)"
    using quota_marker_example by (simp add: quotaInsideFallback_def scriptedEnv_def)
  have o: "nonRetryable quotaInsideFallback (ErrorObj ''503'') = None"
    "overloadedError (ErrorObj ''503'')" "isOverloaded ''503''"
    by (simp_all add: isRetryableError_def isOverloaded_def)
  have c: "chat_sendMessage quotaInsideFallback k c m =
     (if k = 1 then Throws (ErrorObj ''429 RESOURCE_EXHAUSTED'') else Throws (ErrorObj ''503''))"
    for k c m
    by (cases k) (auto simp: quotaInsideFallback_def scriptedEnv_def nth_Cons split: nat.splits)
  have r: "Math_random quotaInsideFallback k = 1 / 2" "Date_now quotaInsideFallback k = int k"
    for k by (simp_all add: quotaInsideFallback_def scriptedEnv_def tickingClock_def)
  have run: "sendMessageToGemini quotaInsideFallback (Chat GEMINI_MODEL_NAME) ''look'' False
          initialWorld =
     (Inl (ErrorObj overloadedMessage),
      \<lparr>circuitBreakerState = \<lparr>failures = 1, lastFailureTime = 2, isOpen = False, openUntil = 0\<rparr>,
       clockReads = 3, randomDraws = 3, providerCalls = 5,
       effects =
         [MessageSent (Chat GEMINI_MODEL_NAME) ''look'', SessionCreated FALLBACK_MODEL_NAME,
          MessageSent (Chat FALLBACK_MODEL_NAME) ''look'', Slept 1150,
          MessageSent (Chat GEMINI_MODEL_NAME) ''look'', Slept 2300,
          MessageSent (Chat GEMINI_MODEL_NAME) ''look'', Slept 4600,
          MessageSent (Chat GEMINI_MODEL_NAME) ''look'', FailureRecorded]\<rparr>)"
    by (simp add: sendMessageToGemini.simps retryLoop.simps initialWorld_def
        checkCircuitBreaker_def tryBlock_def createChatSession_def delay_def exhaust_def
        recordFailure_def maxRetries_def failureThreshold_def c r q o
        delayMs_def attemptBaseDelay_def baseDelay_def maxDelay_def backoffFactor_def Let_def
        del: nonRetryable.simps)
  show ?thesis using q by (simp add: run c)
qed

text \<open>
  Claim C4, amended. When the provider throws, to the loop of a call, an error whose
  message carries the invalid-key marker or the two quota markers, the attempt at which
  this happens ends that loop: the translated error is thrown, and the world differs from
  the one before the attempt by that one message only, so there is no further attempt, no
  delay (no random number is drawn) and the breaker is untouched. An admitted call whose
  first attempt fails so does nothing but the admission check and that one message; this
  holds with \<open>useFallback\<close> set or not. When the first attempt of an admitted top-level call
  fails with a retryable overload error and such an error is thrown to the first attempt
  of the fallback call, the fallback call throws the translated error after that one
  message and without a delay, and the top-level call goes on with the delay and its
  attempt 1.
\<close>

theorem credential_and_quota_errors_end_their_own_loop:
  assumes markers: "includes_str m ''API key not valid'' \<or>
         includes_str m ''429'' \<and> includes_str (String_toUpperCase env m) ''RESOURCE_EXHAUSTED''"
  shows "(attempt \<le> maxRetries \<and>
          chat_sendMessage env (providerCalls w) chat message = Throws (ErrorObj m) \<longrightarrow>
            retryLoop env chat message useFallback attempt lastError w =
              (Inl (ErrorObj (if includes_str m ''API key not valid'' then invalidKeyMessage
                              else rateLimitMessage)),
               w\<lparr>providerCalls := providerCalls w + 1,
                 effects := effects w @ [MessageSent chat message]\<rparr>) \<and>
            circuitBreakerState
                (snd (retryLoop env chat message useFallback attempt lastError w))
              = circuitBreakerState w \<and>
            randomDraws (snd (retryLoop env chat message useFallback attempt lastError w))
              = randomDraws w) \<and>
         (fst (checkCircuitBreaker env w) \<and>
          chat_sendMessage env (providerCalls w) chat message = Throws (ErrorObj m) \<longrightarrow>
            sendMessageToGemini env chat message useFallback w =
              (Inl (ErrorObj (if includes_str m ''API key not valid'' then invalidKeyMessage
                              else rateLimitMessage)),
               (snd (checkCircuitBreaker env w))
                 \<lparr>providerCalls := providerCalls w + 1,
                  effects := effects (snd (checkCircuitBreaker env w))
                               @ [MessageSent chat message]\<rparr>)) \<and>
         (fst (checkCircuitBreaker env w) \<and>
          chat_sendMessage env (providerCalls w) chat message = Throws e \<and>
          nonRetryable env e = None \<and> overloadedError e \<and>
          chat_sendMessage env (providerCalls w + 1) (Chat FALLBACK_MODEL_NAME) message
            = Throws (ErrorObj m) \<longrightarrow>
            fst (fallbackCall env chat message w) =
              Inl (ErrorObj (if includes_str m ''API key not valid'' then invalidKeyMessage
                             else rateLimitMessage)) \<and>
            providerCalls (snd (fallbackCall env chat message w)) = providerCalls w + 2 \<and>
            randomDraws (snd (fallbackCall env chat message w)) = randomDraws w \<and>
            sendMessageToGemini env chat message False w =
              retryLoop env chat message False 1 (Some (asError e))
                (delay env 0 (snd (fallbackCall env chat message w))))"
proof -
  define T where "T = ErrorObj (if includes_str m ''API key not valid'' then invalidKeyMessage
                      else rateLimitMessage)"
  have n: "nonRetryable env (ErrorObj m) = Some T"
    using markers by (auto simp: T_def)
  have loop': "retryLoop env c message fb a le v =
           (Inl T, v\<lparr>providerCalls := providerCalls v + 1,
                     effects := effects v @ [MessageSent c message]\<rparr>)"
    if "chat_sendMessage env (providerCalls v) c message = Throws (ErrorObj m)"
      and "a \<le> maxRetries" for a le v fb c
    using retryLoop_rethrow[OF that(2) tryBlock_throws[OF that(1)] n] by simp
  have top: "sendMessageToGemini env chat message useFallback w =
                (Inl T, (snd (checkCircuitBreaker env w))
                   \<lparr>providerCalls := providerCalls w + 1,
                    effects := effects (snd (checkCircuitBreaker env w))
                                 @ [MessageSent chat message]\<rparr>)"
    if adm: "fst (checkCircuitBreaker env w)"
      and thr: "chat_sendMessage env (providerCalls w) chat message = Throws (ErrorObj m)"
  proof -
    obtain w1 where c: "checkCircuitBreaker env w = (True, w1)"
      using adm by (cases "checkCircuitBreaker env w") auto
    have p: "providerCalls w1 = providerCalls w"
      using checkCircuitBreaker_admitted[OF c] by simp
    then have "chat_sendMessage env (providerCalls w1) chat message = Throws (ErrorObj m)"
      using thr by simp
    from loop'[OF this, of 0 useFallback None] p show ?thesis
      by (simp add: send_admitted[OF c] c)
  qed
  have swallowed: "fst (fallbackCall env chat message w) = Inl T \<and>
            providerCalls (snd (fallbackCall env chat message w)) = providerCalls w + 2 \<and>
            randomDraws (snd (fallbackCall env chat message w)) = randomDraws w \<and>
            sendMessageToGemini env chat message False w =
              retryLoop env chat message False 1 (Some (asError e))
                (delay env 0 (snd (fallbackCall env chat message w)))"
    if adm: "fst (checkCircuitBreaker env w)"
      and thr: "chat_sendMessage env (providerCalls w) chat message = Throws e"
      and nr: "nonRetryable env e = None" and ov: "overloadedError e"
      and inner: "chat_sendMessage env (providerCalls w + 1) (Chat FALLBACK_MODEL_NAME) message
            = Throws (ErrorObj m)"
  proof -
    define w2 where
      "w2 = snd (createChatSession FALLBACK_MODEL_NAME (firstAttemptFailed env chat message w))"
    note fw = fallback_world[OF adm, of chat message, folded w2_def]
    define w3 where "w3 = w2\<lparr>clockReads := clockReads w2 + 1\<rparr>"
    have c2: "checkCircuitBreaker env w2 = (True, w3)"
      unfolding w3_def by (rule checkCircuitBreaker_closed[OF fw(1)])
    have "chat_sendMessage env (providerCalls w3) (Chat FALLBACK_MODEL_NAME) message
            = Throws (ErrorObj m)"
      using inner fw(2) by (simp add: w3_def)
    from loop'[OF this, of 0 True None]
    have fb: "fallbackCall env chat message w =
        (Inl T, w3\<lparr>providerCalls := providerCalls w3 + 1,
                   effects := effects w3 @ [MessageSent (Chat FALLBACK_MODEL_NAME) message]\<rparr>)"
      by (simp add: fallbackCall_def w2_def[symmetric] send_admitted[OF c2])
    obtain w0 where c: "checkCircuitBreaker env w = (True, w0)"
      using adm by (cases "checkCircuitBreaker env w") auto
    have "randomDraws w0 = randomDraws w"
      using c by (auto simp: checkCircuitBreaker_def Let_def split: if_splits)
    then have rd: "randomDraws w3 = randomDraws w"
      by (simp add: w3_def w2_def firstAttemptFailed_def createChatSession_def c)
    show ?thesis
      using escalation_unfold[OF adm thr nr ov] fw(2) rd
      by (simp add: fb w3_def)
  qed
  show ?thesis
    using loop'[of w chat attempt useFallback lastError] top swallowed
    unfolding T_def by simp
qed

theorem credential_and_quota_errors_end_their_own_loop_witness:
  "sendMessageToGemini (scriptedEnv tickingClock [] (Throws (ErrorObj ''API key not valid'')))
      (Chat GEMINI_MODEL_NAME) ''look'' False initialWorld =
     (Inl (ErrorObj invalidKeyMessage),
      initialWorld\<lparr>clockReads := 1, providerCalls := 1,
                    effects := [MessageSent (Chat GEMINI_MODEL_NAME) ''look'']\<rparr>) \<and>
   retryLoop (scriptedEnv tickingClock [] (Throws (ErrorObj ''429 Resource_Exhausted'')))
      (Chat GEMINI_MODEL_NAME) ''look'' True 2 None initialWorld =
     (Inl (ErrorObj rateLimitMessage),
      initialWorld\<lparr>providerCalls := 1,
                    effects := [MessageSent (Chat GEMINI_MODEL_NAME) ''look'']\<rparr>) \<and>
   fst (fallbackCall quotaInsideFallback (Chat GEMINI_MODEL_NAME) ''look'' initialWorld) =
     Inl (ErrorObj rateLimitMessage) \<and>
   providerCalls (snd (fallbackCall quotaInsideFallback (Chat GEMINI_MODEL_NAME) ''look''
                         initialWorld)) = 2 \<and>
   sendMessageToGemini quotaInsideFallback (Chat GEMINI_MODEL_NAME) ''look'' False initialWorld =
     retryLoop quotaInsideFallback (Chat GEMINI_MODEL_NAME) ''look'' False 1
       (Some (ErrorObj ''503''))
       (delay quotaInsideFallback 0
          (snd (fallbackCall quotaInsideFallback (Chat GEMINI_MODEL_NAME) ''look''
                  initialWorld)))"
proof -
  have i: "providerCalls initialWorld = 0" "effects initialWorld = []"
    by (simp_all add: initialWorld_def)
  have k: "includes_str ''API key not valid'' ''API key not valid''"
    by simp
  have q: "\<not> includes_str ''429 Resource_Exhausted'' ''API key not valid''"
    "includes_str ''429 Resource_Exhausted'' ''429''"
    "includes_str (asciiUpperCase ''429 Resource_Exhausted'') ''RESOURCE_EXHAUSTED''"
    by code_simp+
  have up: "String_toUpperCase (scriptedEnv c os r) = asciiUpperCase" for c os r
    by (simp add: scriptedEnv_def)
  have up': "String_toUpperCase quotaInsideFallback = asciiUpperCase"
    by (simp add: quotaInsideFallback_def up)
  have a: "fst (checkCircuitBreaker env initialWorld)"
    "snd (checkCircuitBreaker env initialWorld) = initialWorld\<lparr>clockReads := 1\<rparr>" for env
    by (simp_all add: checkCircuitBreaker_def initialWorld_def Let_def)
  have m: "(2::nat) \<le> maxRetries" by (simp add: maxRetries_def)
  have s: "chat_sendMessage (scriptedEnv c [] (Throws x)) n ch msg = Throws x" for c x n ch msg
    by (simp add: scriptedEnv_def)
  have mk1: "includes_str ''API key not valid'' ''API key not valid'' \<or>
      includes_str ''API key not valid'' ''429'' \<and>
      includes_str (String_toUpperCase
                      (scriptedEnv tickingClock [] (Throws (ErrorObj ''API key not valid'')))
                      ''API key not valid'') ''RESOURCE_EXHAUSTED''"
    using k by blast
  have mk2: "includes_str ''429 Resource_Exhausted'' ''API key not valid'' \<or>
      includes_str ''429 Resource_Exhausted'' ''429'' \<and>
      includes_str (String_toUpperCase
                      (scriptedEnv tickingClock [] (Throws (ErrorObj ''429 Resource_Exhausted'')))
                      ''429 Resource_Exhausted'') ''RESOURCE_EXHAUSTED''"
    using q by (simp add: up)
  have mk3: "includes_str ''429 RESOURCE_EXHAUSTED'' ''API key not valid'' \<or>
      includes_str ''429 RESOURCE_EXHAUSTED'' ''429'' \<and>
      includes_str (String_toUpperCase quotaInsideFallback ''429 RESOURCE_EXHAUSTED'')
        ''RESOURCE_EXHAUSTED''"
    using quota_marker_example by (simp add: up')
  note t1 = credential_and_quota_errors_end_their_own_loop[where
      env = "scriptedEnv tickingClock [] (Throws (ErrorObj ''API key not valid''))"
      and m = "''API key not valid''" and w = initialWorld and chat = "Chat GEMINI_MODEL_NAME"
      and message = "''look''" and useFallback = False, OF mk1]
  note t2 = credential_and_quota_errors_end_their_own_loop[where
      env = "scriptedEnv tickingClock [] (Throws (ErrorObj ''429 Resource_Exhausted''))"
      and m = "''429 Resource_Exhausted''" and w = initialWorld
      and chat = "Chat GEMINI_MODEL_NAME" and message = "''look''" and useFallback = True
      and attempt = 2 and lastError = None, OF mk2]
  note t3 = credential_and_quota_errors_end_their_own_loop[where
      env = quotaInsideFallback and m = "''429 RESOURCE_EXHAUSTED''" and w = initialWorld
      and chat = "Chat GEMINI_MODEL_NAME" and message = "''look''" and e = "ErrorObj ''503''",
      OF mk3]
  have h1: "fst (checkCircuitBreaker
                   (scriptedEnv tickingClock [] (Throws (ErrorObj ''API key not valid'')))
                   initialWorld) \<and>
      chat_sendMessage (scriptedEnv tickingClock [] (Throws (ErrorObj ''API key not valid'')))
        (providerCalls initialWorld) (Chat GEMINI_MODEL_NAME) ''look''
        = Throws (ErrorObj ''API key not valid'')"
    using a(1) s by simp
  have c1: "sendMessageToGemini (scriptedEnv tickingClock [] (Throws (ErrorObj ''API key not valid'')))
      (Chat GEMINI_MODEL_NAME) ''look'' False initialWorld =
     (Inl (ErrorObj invalidKeyMessage),
      initialWorld\<lparr>clockReads := 1, providerCalls := 1,
                    effects := [MessageSent (Chat GEMINI_MODEL_NAME) ''look'']\<rparr>)"
    using mp[OF t1[THEN conjunct2, THEN conjunct1] h1] by (simp add: a i)
  have h2: "2 \<le> maxRetries \<and>
      chat_sendMessage (scriptedEnv tickingClock [] (Throws (ErrorObj ''429 Resource_Exhausted'')))
        (providerCalls initialWorld) (Chat GEMINI_MODEL_NAME) ''look''
        = Throws (ErrorObj ''429 Resource_Exhausted'')"
    using m s by simp
  have c2: "retryLoop (scriptedEnv tickingClock [] (Throws (ErrorObj ''429 Resource_Exhausted'')))
      (Chat GEMINI_MODEL_NAME) ''look'' True 2 None initialWorld =
     (Inl (ErrorObj rateLimitMessage),
      initialWorld\<lparr>providerCalls := 1,
                    effects := [MessageSent (Chat GEMINI_MODEL_NAME) ''look'']\<rparr>)"
    using mp[OF t2[THEN conjunct1] h2, THEN conjunct1] q(1) by (simp add: i)
  have h3: "fst (checkCircuitBreaker quotaInsideFallback initialWorld) \<and>
      chat_sendMessage quotaInsideFallback (providerCalls initialWorld) (Chat GEMINI_MODEL_NAME)
        ''look'' = Throws (ErrorObj ''503'') \<and>
      nonRetryable quotaInsideFallback (ErrorObj ''503'') = None \<and>
      overloadedError (ErrorObj ''503'') \<and>
      chat_sendMessage quotaInsideFallback (providerCalls initialWorld + 1)
        (Chat FALLBACK_MODEL_NAME) ''look'' = Throws (ErrorObj ''429 RESOURCE_EXHAUSTED'')"
    using a(1) overload_marker_example
    by (simp add: i quotaInsideFallback_def scriptedEnv_def)
  note c3 = mp[OF t3[THEN conjunct2, THEN conjunct2] h3]
  have c3a: "fst (fallbackCall quotaInsideFallback (Chat GEMINI_MODEL_NAME) ''look'' initialWorld) =
     Inl (ErrorObj rateLimitMessage)"
    using c3[THEN conjunct1] quota_marker_example(1) by simp
  have c3b: "providerCalls (snd (fallbackCall quotaInsideFallback (Chat GEMINI_MODEL_NAME) ''look''
                         initialWorld)) = 2"
    using c3[THEN conjunct2, THEN conjunct1] by (simp add: i)
  have c3c: "sendMessageToGemini quotaInsideFallback (Chat GEMINI_MODEL_NAME) ''look'' False
               initialWorld =
     retryLoop quotaInsideFallback (Chat GEMINI_MODEL_NAME) ''look'' False 1
       (Some (ErrorObj ''503''))
       (delay quotaInsideFallback 0
          (snd (fallbackCall quotaInsideFallback (Chat GEMINI_MODEL_NAME) ''look''
                  initialWorld)))"
    using c3[THEN conjunct2, THEN conjunct2, THEN conjunct2] by simp
  show ?thesis
    apply (intro conjI)
        apply (rule c1)
       apply (rule c2)
      apply (rule c3a)
     apply (rule c3b)
    apply (rule c3c)
    done
qed

text \<open>
  Claim C5. \<open>recordFailure\<close> adds 1 to the failure count; when the new count has reached
  5 it opens the breaker and sets \<open>openUntil\<close> to the clock's next reading plus 30000 ms,
  and below 5 it leaves both as they were. After five consecutive exhausted turns (each
  ends by recording a failure, and nothing in it resets the count), starting from a
  consistent breaker, the breaker is open; a sixth call whose two admission checks do not
  read a time past \<open>openUntil\<close> throws the terminal error and sends nothing to the provider.
\<close>

theorem breaker_opens_after_five_exhausted_turns:
  "failures (circuitBreakerState (recordFailure env w)) = failures (circuitBreakerState w) + 1 \<and>
   (failureThreshold \<le> failures (circuitBreakerState w) + 1 \<longrightarrow>
      isOpen (circuitBreakerState (recordFailure env w)) \<and>
      openUntil (circuitBreakerState (recordFailure env w)) =
        Date_now env (clockReads w + 1) + 30000) \<and>
   (failures (circuitBreakerState w) + 1 < failureThreshold \<longrightarrow>
      isOpen (circuitBreakerState (recordFailure env w)) = isOpen (circuitBreakerState w) \<and>
      openUntil (circuitBreakerState (recordFailure env w)) = openUntil (circuitBreakerState w)) \<and>
   (breakerConsistent w \<and> length ms = 5 \<and> allExhausted env chat ms w \<longrightarrow>
      isOpen (circuitBreakerState (turns env chat ms w)) \<and>
      (Date_now env (clockReads (turns env chat ms w))
         \<le> openUntil (circuitBreakerState (turns env chat ms w)) \<and>
       Date_now env (clockReads (turns env chat ms w) + 1)
         \<le> openUntil (circuitBreakerState (turns env chat ms w)) \<longrightarrow>
         fst (sendMessageToGemini env chat message False (turns env chat ms w)) =
           Inl (ErrorObj unavailableMessage) \<and>
         providerCalls (snd (sendMessageToGemini env chat message False (turns env chat ms w))) =
           providerCalls (turns env chat ms w)))"
proof (intro conjI impI)
  show "failures (circuitBreakerState (recordFailure env w)) = failures (circuitBreakerState w) + 1"
    by (simp add: recordFailure_breaker)
next
  assume "failureThreshold \<le> failures (circuitBreakerState w) + 1"
  then show "isOpen (circuitBreakerState (recordFailure env w))"
    "openUntil (circuitBreakerState (recordFailure env w)) = Date_now env (clockReads w + 1) + 30000"
    by (simp_all add: recordFailure_breaker resetTimeout_def)
next
  assume "failures (circuitBreakerState w) + 1 < failureThreshold"
  then show "isOpen (circuitBreakerState (recordFailure env w)) = isOpen (circuitBreakerState w)"
    "openUntil (circuitBreakerState (recordFailure env w)) = openUntil (circuitBreakerState w)"
    by (simp_all add: recordFailure_breaker)
next
  assume a: "breakerConsistent w \<and> length ms = 5 \<and> allExhausted env chat ms w"
  then have "5 \<le> failures (circuitBreakerState (turns env chat ms w))"
    using allExhausted_counts[of env chat ms w] by simp
  moreover have "breakerConsistent (turns env chat ms w)"
    using a turns_consistent by simp
  ultimately show o: "isOpen (circuitBreakerState (turns env chat ms w))"
    by (simp add: breakerConsistent_def failureThreshold_def)
  assume "Date_now env (clockReads (turns env chat ms w))
         \<le> openUntil (circuitBreakerState (turns env chat ms w)) \<and>
       Date_now env (clockReads (turns env chat ms w) + 1)
         \<le> openUntil (circuitBreakerState (turns env chat ms w))"
  then have r: "sendMessageToGemini env chat message False (turns env chat ms w) =
           (Inl (ErrorObj unavailableMessage),
            (turns env chat ms w)\<lparr>clockReads := clockReads (turns env chat ms w) + 2,
              effects := effects (turns env chat ms w) @ [SessionCreated FALLBACK_MODEL_NAME]\<rparr>)"
    using refused_when_open[OF o] by simp
  show "fst (sendMessageToGemini env chat message False (turns env chat ms w)) =
           Inl (ErrorObj unavailableMessage)"
    "providerCalls (snd (sendMessageToGemini env chat message False (turns env chat ms w))) =
           providerCalls (turns env chat ms w)"
    by (simp_all add: r)
qed

theorem breaker_opens_after_five_exhausted_turns_witness:
  "failureThreshold \<le> failures (circuitBreakerState openWorld) + 1 \<and>
   circuitBreakerState (recordFailure alwaysServerError openWorld) =
     \<lparr>failures = 6, lastFailureTime = 0, isOpen = True, openUntil = 30000\<rparr> \<and>
   failures (circuitBreakerState initialWorld) + 1 < failureThreshold \<and>
   circuitBreakerState (recordFailure alwaysServerError initialWorld) =
     \<lparr>failures = 1, lastFailureTime = 0, isOpen = False, openUntil = 0\<rparr> \<and>
   breakerConsistent initialWorld \<and>
   allExhausted alwaysServerError (Chat GEMINI_MODEL_NAME)
     [''north'', ''east'', ''south'', ''west'', ''rest''] initialWorld \<and>
   circuitBreakerState (turns alwaysServerError (Chat GEMINI_MODEL_NAME)
     [''north'', ''east'', ''south'', ''west'', ''rest''] initialWorld) =
     \<lparr>failures = 5, lastFailureTime = 0, isOpen = True, openUntil = 30000\<rparr> \<and>
   fst (sendMessageToGemini alwaysServerError (Chat GEMINI_MODEL_NAME) ''look'' False
     (turns alwaysServerError (Chat GEMINI_MODEL_NAME)
        [''north'', ''east'', ''south'', ''west'', ''rest''] initialWorld)) =
     Inl (ErrorObj unavailableMessage) \<and>
   providerCalls (snd (sendMessageToGemini alwaysServerError (Chat GEMINI_MODEL_NAME) ''look'' False
     (turns alwaysServerError (Chat GEMINI_MODEL_NAME)
        [''north'', ''east'', ''south'', ''west'', ''rest''] initialWorld))) =
   providerCalls (turns alwaysServerError (Chat GEMINI_MODEL_NAME)
        [''north'', ''east'', ''south'', ''west'', ''rest''] initialWorld)"
proof -
  have i: "breakerConsistent initialWorld"
    "circuitBreakerState initialWorld =
       \<lparr>failures = 0, lastFailureTime = 0, isOpen = False, openUntil = 0\<rparr>"
    by (simp_all add: breakerConsistent_def initialWorld_def failureThreshold_def)
  have b: "circuitBreakerState (turns alwaysServerError (Chat GEMINI_MODEL_NAME)
     [''north'', ''east'', ''south'', ''west'', ''rest''] initialWorld) =
     \<lparr>failures = 5, lastFailureTime = 0, isOpen = True, openUntil = 30000\<rparr>"
    by (simp add: server_error_turn(2) i(2))
  have e: "allExhausted alwaysServerError (Chat GEMINI_MODEL_NAME)
     [''north'', ''east'', ''south'', ''west'', ''rest''] initialWorld"
    by (simp add: server_error_turn i(2))
  have d: "Date_now alwaysServerError k = 0" for k
    by (simp add: alwaysServerError_def scriptedEnv_def frozenClock_def)
  have f: "failureThreshold \<le> failures (circuitBreakerState openWorld) + 1"
    "failures (circuitBreakerState initialWorld) + 1 < failureThreshold"
    by (simp_all add: openWorld_def initialWorld_def failureThreshold_def)
  have o: "circuitBreakerState (recordFailure alwaysServerError openWorld) =
     \<lparr>failures = 6, lastFailureTime = 0, isOpen = True, openUntil = 30000\<rparr>"
    using breaker_opens_after_five_exhausted_turns[of alwaysServerError openWorld] f(1)
    by (simp add: recordFailure_breaker d openWorld_def initialWorld_def resetTimeout_def)
  have c: "circuitBreakerState (recordFailure alwaysServerError initialWorld) =
     \<lparr>failures = 1, lastFailureTime = 0, isOpen = False, openUntil = 0\<rparr>"
    using breaker_opens_after_five_exhausted_turns[of alwaysServerError initialWorld] f(2)
    by (simp add: recordFailure_breaker d initialWorld_def failureThreshold_def)
  have t: "fst (sendMessageToGemini alwaysServerError (Chat GEMINI_MODEL_NAME) ''look'' False
     (turns alwaysServerError (Chat GEMINI_MODEL_NAME)
        [''north'', ''east'', ''south'', ''west'', ''rest''] initialWorld)) =
     Inl (ErrorObj unavailableMessage) \<and>
   providerCalls (snd (sendMessageToGemini alwaysServerError (Chat GEMINI_MODEL_NAME) ''look'' False
     (turns alwaysServerError (Chat GEMINI_MODEL_NAME)
        [''north'', ''east'', ''south'', ''west'', ''rest''] initialWorld))) =
   providerCalls (turns alwaysServerError (Chat GEMINI_MODEL_NAME)
        [''north'', ''east'', ''south'', ''west'', ''rest''] initialWorld)"
    using i(1) b e d
      breaker_opens_after_five_exhausted_turns[of alwaysServerError initialWorld
        "[''north'', ''east'', ''south'', ''west'', ''rest'']" "Chat GEMINI_MODEL_NAME" "''look''"]
    by simp
  show ?thesis
    using f o c i(1) e b t by blast
qed

text \<open>
  Claim C6, as stated, fails at \<open>n = 3\<close>: the loop computes a delay only after the attempts
  0, 1 and 2. After the attempt 3, the last one, it records the failure and throws, and no
  random number is drawn. A call whose four attempts all fail with a 500 sleeps three
  times, on the bases 1000, 2000 and 4000; a delay on the base 8000 is never computed.
\<close>

theorem no_delay_after_the_last_attempt_counterexample:
  "maxRetries = 3 \<and>
   effects (snd (sendMessageToGemini alwaysServerError (Chat GEMINI_MODEL_NAME) ''look'' False
                   initialWorld)) =
     [MessageSent (Chat GEMINI_MODEL_NAME) ''look'', Slept 1150,
      MessageSent (Chat GEMINI_MODEL_NAME) ''look'', Slept 2300,
      MessageSent (Chat GEMINI_MODEL_NAME) ''look'', Slept 4600,
      MessageSent (Chat GEMINI_MODEL_NAME) ''look'', FailureRecorded] \<and>
   randomDraws (snd (sendMessageToGemini alwaysServerError (Chat GEMINI_MODEL_NAME) ''look'' False
                       initialWorld)) = 3 \<and>
   retryLoop alwaysServerError (Chat GEMINI_MODEL_NAME) ''look'' False 3 None initialWorld =
     (Inl (ErrorObj ''500''),
      initialWorld\<lparr>circuitBreakerState :=
                      \<lparr>failures = 1, lastFailureTime = 0, isOpen = False, openUntil = 0\<rparr>,
                    clockReads := 1, providerCalls := 1,
                    effects := [MessageSent (Chat GEMINI_MODEL_NAME) ''look'', FailureRecorded]\<rparr>)"
proof -
  have n: "nonRetryable alwaysServerError (ErrorObj ''500'') = None"
    "\<not> overloadedError (ErrorObj ''500'')" "\<not> isOverloaded ''500''"
    using server_error_facts by simp_all
  have c: "\<And>k c m. chat_sendMessage alwaysServerError k c m = Throws (ErrorObj ''500'')"
    by (rule server_error_facts)
  have d: "Date_now alwaysServerError = frozenClock" "Math_random alwaysServerError = (\<lambda>k. 1 / 2)"
    by (simp_all add: alwaysServerError_def scriptedEnv_def)
  have "sendMessageToGemini alwaysServerError (Chat GEMINI_MODEL_NAME) ''look'' False initialWorld =
     (Inl (ErrorObj ''500''),
      \<lparr>circuitBreakerState =
          \<lparr>failures = 1, lastFailureTime = 0, isOpen = False, openUntil = 0\<rparr>,
       clockReads = 2, randomDraws = 3, providerCalls = 4,
       effects = [MessageSent (Chat GEMINI_MODEL_NAME) ''look'', Slept 1150,
          MessageSent (Chat GEMINI_MODEL_NAME) ''look'', Slept 2300,
          MessageSent (Chat GEMINI_MODEL_NAME) ''look'', Slept 4600,
          MessageSent (Chat GEMINI_MODEL_NAME) ''look'', FailureRecorded]\<rparr>)"
    by (simp add: sendMessageToGemini.simps retryLoop.simps n c d frozenClock_def
        initialWorld_def checkCircuitBreaker_def tryBlock_def delay_def delayMs_def
        attemptBaseDelay_def baseDelay_def backoffFactor_def maxDelay_def
        exhaust_def recordFailure_def maxRetries_def failureThreshold_def Let_def
        del: nonRetryable.simps overloadedError.simps)
  moreover have "retryLoop alwaysServerError (Chat GEMINI_MODEL_NAME) ''look'' False 3 None initialWorld =
     (Inl (ErrorObj ''500''),
      initialWorld\<lparr>circuitBreakerState :=
                      \<lparr>failures = 1, lastFailureTime = 0, isOpen = False, openUntil = 0\<rparr>,
                    clockReads := 1, providerCalls := 1,
                    effects := [MessageSent (Chat GEMINI_MODEL_NAME) ''look'', FailureRecorded]\<rparr>)"
    by (simp add: retryLoop.simps n c d frozenClock_def
        initialWorld_def tryBlock_def 
        exhaust_def recordFailure_def maxRetries_def failureThreshold_def Let_def
        del: nonRetryable.simps overloadedError.simps)
  ultimately show ?thesis by (simp add: maxRetries_def)
qed

text \<open>
  Claim C6, amended. The base delay of the attempt \<open>n\<close> is \<open>min (1000 * 2 ^ n) 8000\<close>, that is
  1000, 2000 and 4000 for \<open>n = 0, 1, 2\<close>; the delay is \<open>base + r * 0.3 * base\<close> for the random
  number \<open>r\<close> drawn, and with \<open>r\<close> in \<open>[0, 1)\<close> it lies between the base and 1.3 times the
  base (the arithmetic is that of the real numbers). After every failed attempt before the
  last whose error is retried, the loop draws the next random number, sleeps this delay
  and goes on with the next attempt; this holds where no fallback call is made, and after
  a fallback call that threw. After the failure of the last attempt the loop draws no
  random number and sleeps no delay.
\<close>

theorem backoff_delay_slept_by_the_loop:
  "attemptBaseDelay n = min (1000 * 2 ^ n) 8000 \<and>
   attemptBaseDelay 0 = 1000 \<and> attemptBaseDelay 1 = 2000 \<and> attemptBaseDelay 2 = 4000 \<and>
   delayMs n r = min (1000 * 2 ^ n) 8000 + r * 0.3 * min (1000 * 2 ^ n) 8000 \<and>
   (0 \<le> r \<and> r < 1 \<longrightarrow>
      attemptBaseDelay n \<le> delayMs n r \<and> delayMs n r \<le> 1.3 * attemptBaseDelay n) \<and>
   (attempt < maxRetries \<and>
    chat_sendMessage env (providerCalls w) chat message = Throws e \<and>
    nonRetryable env e = None \<and>
    (useFallback \<or> 0 < attempt \<or> \<not> overloadedError e) \<longrightarrow>
      retryLoop env chat message useFallback attempt lastError w =
        retryLoop env chat message useFallback (attempt + 1) (Some (asError e))
          (w\<lparr>providerCalls := providerCalls w + 1,
             randomDraws := randomDraws w + 1,
             effects := effects w @
               [MessageSent chat message,
                Slept (delayMs attempt (Math_random env (randomDraws w)))]\<rparr>) \<and>
      prefix (effects w @
               [MessageSent chat message,
                Slept (delayMs attempt (Math_random env (randomDraws w)))])
             (effects (snd (retryLoop env chat message useFallback attempt lastError w)))) \<and>
   (fst (checkCircuitBreaker env w) \<and>
    chat_sendMessage env (providerCalls w) chat message = Throws e \<and>
    nonRetryable env e = None \<and> overloadedError e \<and>
    fst (fallbackCall env chat message w) = Inl fallbackError \<longrightarrow>
      sendMessageToGemini env chat message False w =
        retryLoop env chat message False 1 (Some (asError e))
          ((snd (fallbackCall env chat message w))
             \<lparr>randomDraws := randomDraws (snd (fallbackCall env chat message w)) + 1,
              effects := effects (snd (fallbackCall env chat message w)) @
                [Slept (delayMs 0
                   (Math_random env (randomDraws (snd (fallbackCall env chat message w)))))]\<rparr>) \<and>
      prefix (effects (snd (fallbackCall env chat message w)) @
                [Slept (delayMs 0
                   (Math_random env (randomDraws (snd (fallbackCall env chat message w)))))])
             (effects (snd (sendMessageToGemini env chat message False w)))) \<and>
   (attempt = maxRetries \<and>
    chat_sendMessage env (providerCalls w) chat message = Throws e \<and>
    nonRetryable env e = None \<longrightarrow>
      randomDraws (snd (retryLoop env chat message useFallback attempt lastError w))
        = randomDraws w \<and>
      effects (snd (retryLoop env chat message useFallback attempt lastError w)) =
        effects w @ [MessageSent chat message, FailureRecorded])"
proof -
  have base: "attemptBaseDelay n = min (1000 * 2 ^ n) 8000" for n
    by (simp add: attemptBaseDelay_def baseDelay_def backoffFactor_def maxDelay_def)
  have pos: "0 \<le> attemptBaseDelay n"
    by (simp add: base)
  have form: "delayMs n r = attemptBaseDelay n + r * 0.3 * attemptBaseDelay n"
    by (simp add: delayMs_def Let_def)
  have bounds: "attemptBaseDelay n \<le> delayMs n r \<and> delayMs n r \<le> 1.3 * attemptBaseDelay n"
    if r: "0 \<le> r" "r < 1"
  proof -
    have "0 \<le> r * 0.3 * attemptBaseDelay n" using r pos by simp
    moreover have "r * 0.3 * attemptBaseDelay n \<le> 1 * 0.3 * attemptBaseDelay n"
      using r pos by (intro mult_right_mono) auto
    ultimately show ?thesis by (simp add: form)
  qed
  have retry: "retryLoop env chat message useFallback attempt lastError w =
        retryLoop env chat message useFallback (attempt + 1) (Some (asError e))
          (w\<lparr>providerCalls := providerCalls w + 1,
             randomDraws := randomDraws w + 1,
             effects := effects w @
               [MessageSent chat message,
                Slept (delayMs attempt (Math_random env (randomDraws w)))]\<rparr>) \<and>
      prefix (effects w @
               [MessageSent chat message,
                Slept (delayMs attempt (Math_random env (randomDraws w)))])
             (effects (snd (retryLoop env chat message useFallback attempt lastError w)))"
    if lt: "attempt < maxRetries"
      and thr: "chat_sendMessage env (providerCalls w) chat message = Throws e"
      and nr: "nonRetryable env e = None"
      and noesc: "useFallback \<or> 0 < attempt \<or> \<not> overloadedError e"
  proof -
    define w2 where "w2 = w\<lparr>providerCalls := providerCalls w + 1,
             randomDraws := randomDraws w + 1,
             effects := effects w @
               [MessageSent chat message,
                Slept (delayMs attempt (Math_random env (randomDraws w)))]\<rparr>"
    have d: "delay env attempt (w\<lparr>providerCalls := providerCalls w + 1,
               effects := effects w @ [MessageSent chat message]\<rparr>) = w2"
      by (simp add: delay_def w2_def)
    have eq: "retryLoop env chat message useFallback attempt lastError w =
        retryLoop env chat message useFallback (attempt + 1) (Some (asError e)) w2"
      using retryLoop_retry[OF lt tryBlock_throws[OF thr] nr noesc] d by simp
    have "prefix (effects w2)
            (effects (snd (retryLoop env chat message useFallback (attempt + 1)
                             (Some (asError e)) w2)))"
      by (rule effects_grow_loop)
    then show ?thesis
      using eq unfolding w2_def by simp
  qed
  have escalated: "sendMessageToGemini env chat message False w =
        retryLoop env chat message False 1 (Some (asError e))
          ((snd (fallbackCall env chat message w))
             \<lparr>randomDraws := randomDraws (snd (fallbackCall env chat message w)) + 1,
              effects := effects (snd (fallbackCall env chat message w)) @
                [Slept (delayMs 0
                   (Math_random env (randomDraws (snd (fallbackCall env chat message w)))))]\<rparr>) \<and>
      prefix (effects (snd (fallbackCall env chat message w)) @
                [Slept (delayMs 0
                   (Math_random env (randomDraws (snd (fallbackCall env chat message w)))))])
             (effects (snd (sendMessageToGemini env chat message False w)))"
    if adm: "fst (checkCircuitBreaker env w)"
      and thr: "chat_sendMessage env (providerCalls w) chat message = Throws e"
      and nr: "nonRetryable env e = None" and ov: "overloadedError e"
      and fb: "fst (fallbackCall env chat message w) = Inl fallbackError"
  proof -
    define w3 where "w3 = snd (fallbackCall env chat message w)"
    have f: "fallbackCall env chat message w = (Inl fallbackError, w3)"
      using fb by (simp add: w3_def prod_eq_iff)
    have eq: "sendMessageToGemini env chat message False w =
        retryLoop env chat message False 1 (Some (asError e)) (delay env 0 w3)"
      using escalation_unfold[OF adm thr nr ov] by (simp add: f)
    have "prefix (effects (delay env 0 w3))
            (effects (snd (retryLoop env chat message False 1 (Some (asError e))
                             (delay env 0 w3))))"
      by (rule effects_grow_loop)
    then show ?thesis
      using eq unfolding w3_def[symmetric] by (simp add: delay_def)
  qed
  have last: "randomDraws (snd (retryLoop env chat message useFallback attempt lastError w))
        = randomDraws w \<and>
      effects (snd (retryLoop env chat message useFallback attempt lastError w)) =
        effects w @ [MessageSent chat message, FailureRecorded]"
    if a: "attempt = maxRetries"
      and thr: "chat_sendMessage env (providerCalls w) chat message = Throws e"
      and nr: "nonRetryable env e = None"
    using retryLoop_exhaust[OF a tryBlock_throws[OF thr] nr]
    by (simp add: exhaust_def recordFailure_def Let_def)
  have vals: "attemptBaseDelay 0 = 1000" "attemptBaseDelay 1 = 2000" "attemptBaseDelay 2 = 4000"
    by (simp_all add: base)
  have form': "delayMs n r = min (1000 * 2 ^ n) 8000 + r * 0.3 * min (1000 * 2 ^ n) 8000"
    unfolding form base ..
  have p1: "0 \<le> r \<and> r < 1 \<longrightarrow>
      attemptBaseDelay n \<le> delayMs n r \<and> delayMs n r \<le> 1.3 * attemptBaseDelay n"
    using bounds by (intro impI) (elim conjE)
  show ?thesis
    apply (intro conjI)
            apply (rule base)
           apply (rule vals)
          apply (rule vals)
         apply (rule vals)
        apply (rule form')
       apply (rule p1)
      apply (intro impI, elim conjE, rule retry, assumption+)
     apply (intro impI, elim conjE, rule escalated, assumption+)
    apply (intro impI, elim conjE, rule last, assumption+)
    done
qed

theorem backoff_delay_slept_by_the_loop_witness:
  "delayMs 2 (1 / 2) = 4600 \<and> attemptBaseDelay 2 \<le> delayMs 2 (1 / 2) \<and>
   delayMs 2 (1 / 2) \<le> 1.3 * attemptBaseDelay 2 \<and>
   retryLoop alwaysServerError (Chat GEMINI_MODEL_NAME) ''look'' False 2 None initialWorld =
     retryLoop alwaysServerError (Chat GEMINI_MODEL_NAME) ''look'' False 3
       (Some (ErrorObj ''500''))
       (initialWorld\<lparr>providerCalls := 1, randomDraws := 1,
          effects := [MessageSent (Chat GEMINI_MODEL_NAME) ''look'', Slept 4600]\<rparr>) \<and>
   prefix [MessageSent (Chat GEMINI_MODEL_NAME) ''look'', Slept 4600]
     (effects (snd (retryLoop alwaysServerError (Chat GEMINI_MODEL_NAME) ''look'' False 2 None
                      initialWorld))) \<and>
   fst (fallbackCall quotaInsideFallback (Chat GEMINI_MODEL_NAME) ''look'' initialWorld) =
     Inl (ErrorObj rateLimitMessage) \<and>
   prefix [MessageSent (Chat GEMINI_MODEL_NAME) ''look'', SessionCreated FALLBACK_MODEL_NAME,
           MessageSent (Chat FALLBACK_MODEL_NAME) ''look'', Slept 1150]
     (effects (snd (sendMessageToGemini quotaInsideFallback (Chat GEMINI_MODEL_NAME) ''look''
                      False initialWorld))) \<and>
   randomDraws (snd (retryLoop alwaysServerError (Chat GEMINI_MODEL_NAME) ''look'' False 3 None
                       initialWorld)) = 0 \<and>
   effects (snd (retryLoop alwaysServerError (Chat GEMINI_MODEL_NAME) ''look'' False 3 None
                   initialWorld)) =
     [MessageSent (Chat GEMINI_MODEL_NAME) ''look'', FailureRecorded]"
proof -
  have i: "providerCalls initialWorld = 0" "randomDraws initialWorld = 0"
    "effects initialWorld = []"
    by (simp_all add: initialWorld_def)
  have half: "(0::real) \<le> 1 / 2 \<and> (1 / 2 :: real) < 1" by simp
  have d: "delayMs 2 (1 / 2) = 4600" "delayMs 0 (1 / 2) = 1150"
    by (simp_all add: delayMs_def attemptBaseDelay_def baseDelay_def backoffFactor_def
        maxDelay_def)
  have rnd: "Math_random alwaysServerError k = 1 / 2" "Math_random quotaInsideFallback k = 1 / 2"
    for k
    by (simp_all add: alwaysServerError_def quotaInsideFallback_def scriptedEnv_def)
  have m: "(2::nat) < maxRetries" "(3::nat) = maxRetries" by (simp_all add: maxRetries_def)
  note s = server_error_facts(1)[of "providerCalls initialWorld" "Chat GEMINI_MODEL_NAME" "''look''"]
    server_error_facts(2)
  note t1 = backoff_delay_slept_by_the_loop[where n = 2 and r = "1 / 2"
      and env = alwaysServerError and w = initialWorld and chat = "Chat GEMINI_MODEL_NAME"
      and message = "''look''" and e = "ErrorObj ''500''" and attempt = 2
      and useFallback = False and lastError = None]
  have b: "attemptBaseDelay 2 \<le> delayMs 2 (1 / 2) \<and>
           delayMs 2 (1 / 2) \<le> 1.3 * attemptBaseDelay 2"
    using t1[THEN conjunct2, THEN conjunct2, THEN conjunct2, THEN conjunct2, THEN conjunct2,
             THEN conjunct1] half
    by (rule mp)
  have r: "retryLoop alwaysServerError (Chat GEMINI_MODEL_NAME) ''look'' False 2 None initialWorld =
        retryLoop alwaysServerError (Chat GEMINI_MODEL_NAME) ''look'' False (2 + 1)
          (Some (asError (ErrorObj ''500'')))
          (initialWorld\<lparr>providerCalls := providerCalls initialWorld + 1,
             randomDraws := randomDraws initialWorld + 1,
             effects := effects initialWorld @
               [MessageSent (Chat GEMINI_MODEL_NAME) ''look'',
                Slept (delayMs 2 (Math_random alwaysServerError (randomDraws initialWorld)))]\<rparr>) \<and>
      prefix (effects initialWorld @
               [MessageSent (Chat GEMINI_MODEL_NAME) ''look'',
                Slept (delayMs 2 (Math_random alwaysServerError (randomDraws initialWorld)))])
             (effects (snd (retryLoop alwaysServerError (Chat GEMINI_MODEL_NAME) ''look'' False 2
                              None initialWorld)))"
  proof -
    have h: "2 < maxRetries \<and>
      chat_sendMessage alwaysServerError (providerCalls initialWorld) (Chat GEMINI_MODEL_NAME)
        ''look'' = Throws (ErrorObj ''500'') \<and>
      nonRetryable alwaysServerError (ErrorObj ''500'') = None \<and>
      (False \<or> (0::nat) < 2 \<or> \<not> overloadedError (ErrorObj ''500''))"
      using m(1) s by simp
    from t1[THEN conjunct2, THEN conjunct2, THEN conjunct2, THEN conjunct2, THEN conjunct2,
            THEN conjunct2, THEN conjunct1] h
    show ?thesis by (rule mp)
  qed
  note t2 = backoff_delay_slept_by_the_loop[where
      env = alwaysServerError and w = initialWorld and chat = "Chat GEMINI_MODEL_NAME"
      and message = "''look''" and e = "ErrorObj ''500''" and attempt = 3
      and useFallback = False and lastError = None]
  have l: "randomDraws (snd (retryLoop alwaysServerError (Chat GEMINI_MODEL_NAME) ''look'' False 3
                               None initialWorld)) = randomDraws initialWorld \<and>
      effects (snd (retryLoop alwaysServerError (Chat GEMINI_MODEL_NAME) ''look'' False 3 None
                      initialWorld)) =
        effects initialWorld @ [MessageSent (Chat GEMINI_MODEL_NAME) ''look'', FailureRecorded]"
  proof -
    have h: "3 = maxRetries \<and>
      chat_sendMessage alwaysServerError (providerCalls initialWorld) (Chat GEMINI_MODEL_NAME)
        ''look'' = Throws (ErrorObj ''500'') \<and>
      nonRetryable alwaysServerError (ErrorObj ''500'') = None"
      using m(2) s by simp
    from t2[THEN conjunct2, THEN conjunct2, THEN conjunct2, THEN conjunct2, THEN conjunct2,
            THEN conjunct2, THEN conjunct2, THEN conjunct2] h
    show ?thesis by (rule mp)
  qed
  have q: "chat_sendMessage quotaInsideFallback (providerCalls initialWorld)
             (Chat GEMINI_MODEL_NAME) ''look'' = Throws (ErrorObj ''503'')"
    "nonRetryable quotaInsideFallback (ErrorObj ''503'') = None"
    "overloadedError (ErrorObj ''503'')"
    "fst (checkCircuitBreaker quotaInsideFallback initialWorld)"
    using overload_marker_example
    by (simp_all add: quotaInsideFallback_def scriptedEnv_def initialWorld_def
        checkCircuitBreaker_def Let_def isRetryableError_def isOverloaded_def)
  have f: "fallbackCall quotaInsideFallback (Chat GEMINI_MODEL_NAME) ''look'' initialWorld =
      (Inl (ErrorObj rateLimitMessage),
       initialWorld\<lparr>clockReads := 2, providerCalls := 2,
         effects := [MessageSent (Chat GEMINI_MODEL_NAME) ''look'',
                     SessionCreated FALLBACK_MODEL_NAME,
                     MessageSent (Chat FALLBACK_MODEL_NAME) ''look'']\<rparr>)"
    using quota_marker_example
    by (simp add: fallbackCall_def firstAttemptFailed_def createChatSession_def
        sendMessageToGemini.simps retryLoop.simps checkCircuitBreaker_def tryBlock_def
        initialWorld_def Let_def quotaInsideFallback_def scriptedEnv_def maxRetries_def)
  note t3 = backoff_delay_slept_by_the_loop[where
      env = quotaInsideFallback and w = initialWorld and chat = "Chat GEMINI_MODEL_NAME"
      and message = "''look''" and e = "ErrorObj ''503''"
      and fallbackError = "ErrorObj rateLimitMessage"]
  have f1: "fst (fallbackCall quotaInsideFallback (Chat GEMINI_MODEL_NAME) ''look'' initialWorld)
              = Inl (ErrorObj rateLimitMessage)"
    by (simp add: f)
  have e: "prefix (effects (snd (fallbackCall quotaInsideFallback (Chat GEMINI_MODEL_NAME) ''look''
                                   initialWorld)) @
                [Slept (delayMs 0
                   (Math_random quotaInsideFallback
                      (randomDraws (snd (fallbackCall quotaInsideFallback (Chat GEMINI_MODEL_NAME)
                                           ''look'' initialWorld)))))])
             (effects (snd (sendMessageToGemini quotaInsideFallback (Chat GEMINI_MODEL_NAME)
                              ''look'' False initialWorld)))"
  proof -
    have h: "fst (checkCircuitBreaker quotaInsideFallback initialWorld) \<and>
      chat_sendMessage quotaInsideFallback (providerCalls initialWorld) (Chat GEMINI_MODEL_NAME)
        ''look'' = Throws (ErrorObj ''503'') \<and>
      nonRetryable quotaInsideFallback (ErrorObj ''503'') = None \<and>
      overloadedError (ErrorObj ''503'') \<and>
      fst (fallbackCall quotaInsideFallback (Chat GEMINI_MODEL_NAME) ''look'' initialWorld)
        = Inl (ErrorObj rateLimitMessage)"
      using q f1 by simp
    from t3[THEN conjunct2, THEN conjunct2, THEN conjunct2, THEN conjunct2, THEN conjunct2,
            THEN conjunct2, THEN conjunct2, THEN conjunct1] h
    show ?thesis by (rule mp[THEN conjunct2])
  qed
  have e': "prefix [MessageSent (Chat GEMINI_MODEL_NAME) ''look'', SessionCreated FALLBACK_MODEL_NAME,
           MessageSent (Chat FALLBACK_MODEL_NAME) ''look'', Slept 1150]
     (effects (snd (sendMessageToGemini quotaInsideFallback (Chat GEMINI_MODEL_NAME) ''look''
                      False initialWorld)))"
    using e by (simp add: f rnd d)
  have r1: "retryLoop alwaysServerError (Chat GEMINI_MODEL_NAME) ''look'' False 2 None initialWorld =
     retryLoop alwaysServerError (Chat GEMINI_MODEL_NAME) ''look'' False 3
       (Some (ErrorObj ''500''))
       (initialWorld\<lparr>providerCalls := 1, randomDraws := 1,
          effects := [MessageSent (Chat GEMINI_MODEL_NAME) ''look'', Slept 4600]\<rparr>)"
    using r[THEN conjunct1] by (simp add: i rnd d)
  have r2: "prefix [MessageSent (Chat GEMINI_MODEL_NAME) ''look'', Slept 4600]
     (effects (snd (retryLoop alwaysServerError (Chat GEMINI_MODEL_NAME) ''look'' False 2 None
                      initialWorld)))"
    using r[THEN conjunct2] by (simp add: i rnd d)
  have l1: "randomDraws (snd (retryLoop alwaysServerError (Chat GEMINI_MODEL_NAME) ''look'' False 3
                       None initialWorld)) = 0"
    using l[THEN conjunct1] by (simp add: i)
  have l2: "effects (snd (retryLoop alwaysServerError (Chat GEMINI_MODEL_NAME) ''look'' False 3 None
                   initialWorld)) =
     [MessageSent (Chat GEMINI_MODEL_NAME) ''look'', FailureRecorded]"
    using l[THEN conjunct2] by (simp add: i)
  show ?thesis
    apply (intro conjI)
            apply (rule d(1))
           apply (rule b[THEN conjunct1])
          apply (rule b[THEN conjunct2])
         apply (rule r1)
        apply (rule r2)
       apply (rule f1)
      apply (rule e')
     apply (rule l1)
    apply (rule l2)
    done
qed

text \<open>
  Claim C7, as stated, fails: the parser tests the two properties for truthiness only. A
  text that decodes to an object whose \<open>sceneDescription\<close> is an empty array and whose
  \<open>imagePrompt\<close> is an empty object is returned as a result, though both fields are empty.
\<close>

theorem parser_returns_empty_fields_counterexample:
  "decodeStub (stripFence asciiTrim emptyFieldsJson) =
     Inr (JObject [(''sceneDescription'', JArray []), (''imagePrompt'', JObject [])]) \<and>
   parseGeminiResponse decodeStub asciiTrim emptyFieldsJson =
     Inr (Some (JObject [(''sceneDescription'', JArray []), (''imagePrompt'', JObject [])]))"
proof -
  have "decodeStub (stripFence asciiTrim emptyFieldsJson) =
     Inr (JObject [(''sceneDescription'', JArray []), (''imagePrompt'', JObject [])])"
    by code_simp
  moreover have "parseGeminiResponse decodeStub asciiTrim emptyFieldsJson =
     Inr (Some (JObject [(''sceneDescription'', JArray []), (''imagePrompt'', JObject [])]))"
    by code_simp
  ultimately show ?thesis by (rule conjI)
qed

text \<open>
  Claim C7, amended. The parser never throws. It returns a result exactly when the text,
  trimmed and with its fence stripped, decodes to a value in which \<open>sceneDescription\<close> and
  \<open>imagePrompt\<close> are both present and truthy, and the result is then the decoded value as
  it is. A truthy property is not the empty string (nor \<open>null\<close>, \<open>false\<close> or 0), but every
  array and every object is truthy, the empty ones too. The parser returns \<open>null\<close> when the
  decoder throws, and when the decoded value lacks one of the two properties or holds a
  falsy one (a value that is no object has neither).
\<close>

theorem parser_returns_exactly_truthy_results:
  "(\<exists>r. parseGeminiResponse jsonParse trimText responseText = Inr r) \<and>
   (parseGeminiResponse jsonParse trimText responseText = Inr (Some v) \<longrightarrow>
      jsonParse (stripFence trimText responseText) = Inr v \<and>
      (\<exists>props scene prompt. v = JObject props \<and>
         map_of props ''sceneDescription'' = Some scene \<and> scene \<noteq> JString [] \<and>
         map_of props ''imagePrompt'' = Some prompt \<and> prompt \<noteq> JString [] \<and>
         truthy (Some scene) \<and> truthy (Some prompt))) \<and>
   (jsonParse (stripFence trimText responseText) = Inr parsed \<and>
    truthy (ownProperty parsed ''sceneDescription'') \<and>
    truthy (ownProperty parsed ''imagePrompt'') \<longrightarrow>
      parseGeminiResponse jsonParse trimText responseText = Inr (Some parsed)) \<and>
   truthy (Some (JArray elems)) \<and> truthy (Some (JObject members)) \<and>
   \<not> truthy (Some (JString [])) \<and> \<not> truthy (Some JNull) \<and> \<not> truthy None \<and>
   ((\<exists>e. jsonParse (stripFence trimText responseText) = Inl e) \<longrightarrow>
      parseGeminiResponse jsonParse trimText responseText = Inr None) \<and>
   ((\<exists>parsed. jsonParse (stripFence trimText responseText) = Inr parsed \<and>
        (\<not> truthy (ownProperty parsed ''sceneDescription'') \<or>
         \<not> truthy (ownProperty parsed ''imagePrompt''))) \<longrightarrow>
      parseGeminiResponse jsonParse trimText responseText = Inr None)"
proof -
  have p1: "\<exists>r. parseGeminiResponse jsonParse trimText responseText = Inr r"
    by (rule parseGeminiResponse_returns)
  have p2: "parseGeminiResponse jsonParse trimText responseText = Inr (Some v) \<longrightarrow>
      jsonParse (stripFence trimText responseText) = Inr v \<and>
      (\<exists>props scene prompt. v = JObject props \<and>
         map_of props ''sceneDescription'' = Some scene \<and> scene \<noteq> JString [] \<and>
         map_of props ''imagePrompt'' = Some prompt \<and> prompt \<noteq> JString [] \<and>
         truthy (Some scene) \<and> truthy (Some prompt))"
  proof (intro impI conjI)
    assume a: "parseGeminiResponse jsonParse trimText responseText = Inr (Some v)"
    then have b: "parseBody jsonParse trimText responseText = Inr (Some v)"
      by (auto simp: parseGeminiResponse_def split: sum.splits)
    then show "jsonParse (stripFence trimText responseText) = Inr v"
      by (auto simp: parseBody_char split: sum.splits json.splits if_splits)
    from b have t: "truthy (ownProperty v ''sceneDescription'')"
      "truthy (ownProperty v ''imagePrompt'')"
      by (auto simp: parseBody_char split: sum.splits json.splits if_splits)
    then obtain props where v: "v = JObject props" by (cases v) auto
    from t truthy_nonempty[of "map_of props ''sceneDescription''"]
      truthy_nonempty[of "map_of props ''imagePrompt''"]
    show "\<exists>props scene prompt. v = JObject props \<and>
           map_of props ''sceneDescription'' = Some scene \<and> scene \<noteq> JString [] \<and>
           map_of props ''imagePrompt'' = Some prompt \<and> prompt \<noteq> JString [] \<and>
           truthy (Some scene) \<and> truthy (Some prompt)"
      unfolding v by auto
  qed
  have p3: "jsonParse (stripFence trimText responseText) = Inr parsed \<and>
    truthy (ownProperty parsed ''sceneDescription'') \<and>
    truthy (ownProperty parsed ''imagePrompt'') \<longrightarrow>
      parseGeminiResponse jsonParse trimText responseText = Inr (Some parsed)"
  proof (intro impI, elim conjE)
    assume d: "jsonParse (stripFence trimText responseText) = Inr parsed"
      and t: "truthy (ownProperty parsed ''sceneDescription'')"
        "truthy (ownProperty parsed ''imagePrompt'')"
    have "parseBody jsonParse trimText responseText = Inr (Some parsed)"
      using t by (cases parsed) (simp_all add: parseBody_char d)
    then show "parseGeminiResponse jsonParse trimText responseText = Inr (Some parsed)"
      by (simp add: parseGeminiResponse_def)
  qed
  have p4: "(\<exists>e. jsonParse (stripFence trimText responseText) = Inl e) \<longrightarrow>
      parseGeminiResponse jsonParse trimText responseText = Inr None"
    by (auto simp: parseGeminiResponse_def parseBody_def)
  have p5: "(\<exists>parsed. jsonParse (stripFence trimText responseText) = Inr parsed \<and>
        (\<not> truthy (ownProperty parsed ''sceneDescription'') \<or>
         \<not> truthy (ownProperty parsed ''imagePrompt''))) \<longrightarrow>
      parseGeminiResponse jsonParse trimText responseText = Inr None"
    by (auto simp: parseGeminiResponse_def parseBody_char split: json.splits sum.splits)
  show ?thesis
    apply (intro conjI)
             apply (rule p1)
            apply (rule p2)
           apply (rule p3)
          apply simp
         apply simp
        apply simp
       apply simp
      apply simp
     apply (rule p4)
    apply (rule p5)
    done
qed

theorem parser_returns_exactly_truthy_results_witness:
  "parseGeminiResponse decodeStub asciiTrim fencedScene =
      Inr (Some (JObject [(''sceneDescription'', JString ''a''), (''imagePrompt'', JString ''b'')])) \<and>
   decodeStub (stripFence asciiTrim fencedScene) =
      Inr (JObject [(''sceneDescription'', JString ''a''), (''imagePrompt'', JString ''b'')]) \<and>
   decodeStub (stripFence asciiTrim emptyFieldsJson) =
      Inr (JObject [(''sceneDescription'', JArray []), (''imagePrompt'', JObject [])]) \<and>
   truthy (ownProperty (JObject [(''sceneDescription'', JArray []), (''imagePrompt'', JObject [])])
             ''sceneDescription'') \<and>
   truthy (ownProperty (JObject [(''sceneDescription'', JArray []), (''imagePrompt'', JObject [])])
             ''imagePrompt'') \<and>
   parseGeminiResponse decodeStub asciiTrim emptyFieldsJson =
      Inr (Some (JObject [(''sceneDescription'', JArray []), (''imagePrompt'', JObject [])])) \<and>
   decodeStub (stripFence asciiTrim ''not json at all'') = Inl (ErrorObj ''Unexpected token'') \<and>
   parseGeminiResponse decodeStub asciiTrim ''not json at all'' = Inr None \<and>
   decodeStub (stripFence asciiTrim ''{\"sceneDescription\":\"a\"}'') =
      Inr (JObject [(''sceneDescription'', JString ''a'')]) \<and>
   \<not> truthy (ownProperty (JObject [(''sceneDescription'', JString ''a'')]) ''imagePrompt'') \<and>
   parseGeminiResponse decodeStub asciiTrim ''{\"sceneDescription\":\"a\"}'' = Inr None \<and>
   decodeStub (stripFence asciiTrim ''null'') = Inr JNull \<and>
   parseGeminiResponse decodeStub asciiTrim ''null'' = Inr None"
proof -
  have e1: "parseGeminiResponse decodeStub asciiTrim fencedScene =
      Inr (Some (JObject [(''sceneDescription'', JString ''a''), (''imagePrompt'', JString ''b'')]))"
    by code_simp
  have e2: "decodeStub (stripFence asciiTrim ''not json at all'') = Inl (ErrorObj ''Unexpected token'')"
    by code_simp
  have e3: "decodeStub (stripFence asciiTrim ''{\"sceneDescription\":\"a\"}'') =
      Inr (JObject [(''sceneDescription'', JString ''a'')])"
    by code_simp
  have e4: "decodeStub (stripFence asciiTrim ''null'') = Inr JNull"
    by code_simp
  have e5: "\<not> truthy (ownProperty (JObject [(''sceneDescription'', JString ''a'')]) ''imagePrompt'')"
    by simp
  have e6: "\<not> truthy (ownProperty JNull ''sceneDescription'')"
    by simp
  have e7: "decodeStub (stripFence asciiTrim emptyFieldsJson) =
      Inr (JObject [(''sceneDescription'', JArray []), (''imagePrompt'', JObject [])])"
    by code_simp
  have e8: "truthy (ownProperty (JObject [(''sceneDescription'', JArray []), (''imagePrompt'', JObject [])])
             ''sceneDescription'')"
    "truthy (ownProperty (JObject [(''sceneDescription'', JArray []), (''imagePrompt'', JObject [])])
             ''imagePrompt'')"
    by simp_all
  note c1 = parser_returns_exactly_truthy_results[of decodeStub asciiTrim fencedScene
        "JObject [(''sceneDescription'', JString ''a''), (''imagePrompt'', JString ''b'')]"]
  note c2 = parser_returns_exactly_truthy_results[of decodeStub asciiTrim "''not json at all''"]
  note c3 = parser_returns_exactly_truthy_results[of decodeStub asciiTrim "''{\"sceneDescription\":\"a\"}''"]
  note c4 = parser_returns_exactly_truthy_results[of decodeStub asciiTrim "''null''"]
  note c5 = parser_returns_exactly_truthy_results[of decodeStub asciiTrim emptyFieldsJson _
        "JObject [(''sceneDescription'', JArray []), (''imagePrompt'', JObject [])]"]
  have a1: "decodeStub (stripFence asciiTrim fencedScene) =
      Inr (JObject [(''sceneDescription'', JString ''a''), (''imagePrompt'', JString ''b'')])"
    using c1 e1 by blast
  have a2: "parseGeminiResponse decodeStub asciiTrim ''not json at all'' = Inr None"
    using c2 e2 by blast
  have a3: "parseGeminiResponse decodeStub asciiTrim ''{\"sceneDescription\":\"a\"}'' = Inr None"
    using c3 e3 e5 by blast
  have a4: "parseGeminiResponse decodeStub asciiTrim ''null'' = Inr None"
    using c4 e4 e6 by blast
  have a5: "parseGeminiResponse decodeStub asciiTrim emptyFieldsJson =
      Inr (Some (JObject [(''sceneDescription'', JArray []), (''imagePrompt'', JObject [])]))"
    using c5 e7 e8 by blast
  show ?thesis
    using e1 a1 e7 e8 a5 e2 a2 e3 e5 a3 e4 a4 by blast
qed

text \<open>
  Claim C8, as stated, fails: on a status outside 200..299 the body of the reply is
  decoded before the status is looked at, and on a status inside it the body is decoded
  too, so a reply whose body is no JSON makes the call throw the decoder's error. To a
  request body over the size limit the relay's server answers with status 413 and a page
  that is no JSON: the call throws the SyntaxError of \<open>response.json()\<close>, which carries
  neither the status nor any text of the relay.
\<close>

theorem undecodable_reply_counterexample:
  "status payloadTooLarge = 413 \<and> \<not> response_ok payloadTooLarge \<and>
   generateImageWithCloudflare plainText True (replyWith payloadTooLarge) ''cave'' =
     Inl (ErrorObj ''Unexpected token < in JSON at position 0'')"
  by (simp add: generateImageWithCloudflare_def replyWith_def payloadTooLarge_def response_ok_def)

text \<open>
  Claim C8, amended. With the key configured and the request answered, what the call does
  depends on the body first. When the body does not decode as JSON, the call throws the
  decoder's error, whatever the status. When it decodes: status 429 throws the quota
  error and status 401 the invalid-key error; any other status outside 200..299 throws an
  error whose message carries the status, the status text and the \<open>error\<close> property of the
  body (a string as it is, nothing when it is missing or falsy; no other property of the
  body, such as \<open>details\<close>, is used); a status in 200..299 returns the \<open>imageUrl\<close> property of
  the body as it is, \<open>undefined\<close> when there is none. A body that decodes to \<open>null\<close> passes
  the tests for 429 and 401 and makes the reading of the property throw a TypeError
  otherwise.
\<close>

theorem decoded_relay_replies_are_classified:
  assumes "hasKey"
    and "fetchRelay prompt = FetchResolves response"
  shows "(json_body response = Inr body \<longrightarrow>
            (status response = 429 \<longrightarrow>
               generateImageWithCloudflare toText hasKey fetchRelay prompt =
                 Inl (ErrorObj cloudflareRateLimitMessage)) \<and>
            (status response = 401 \<longrightarrow>
               generateImageWithCloudflare toText hasKey fetchRelay prompt =
                 Inl (ErrorObj cloudflareInvalidKeyMessage)) \<and>
            (body \<noteq> JNull \<and> \<not> response_ok response \<and>
             status response \<noteq> 429 \<and> status response \<noteq> 401 \<longrightarrow>
               generateImageWithCloudflare toText hasKey fetchRelay prompt =
                 Inl (ErrorObj (''Cloudflare API error: '' @ digits (status response) @ '' ''
                        @ statusText response @ ''. ''
                        @ errorDetail toText (ownProperty body ''error'')))) \<and>
            (body \<noteq> JNull \<and> response_ok response \<longrightarrow>
               generateImageWithCloudflare toText hasKey fetchRelay prompt =
                 Inr (ownProperty body ''imageUrl'')) \<and>
            (body = JNull \<and> \<not> response_ok response \<and>
             status response \<noteq> 429 \<and> status response \<noteq> 401 \<longrightarrow>
               generateImageWithCloudflare toText hasKey fetchRelay prompt =
                 Inl (nullPropertyError ''error'')) \<and>
            (body = JNull \<and> response_ok response \<longrightarrow>
               generateImageWithCloudflare toText hasKey fetchRelay prompt =
                 Inl (nullPropertyError ''imageUrl''))) \<and>
         (json_body response = Inl e \<longrightarrow>
            generateImageWithCloudflare toText hasKey fetchRelay prompt = Inl e)"
proof -
  have gp: "getProperty body key = Inr (ownProperty body key)" if "body \<noteq> JNull" for key
    using that by (cases body) simp_all
  have undecoded: "json_body response = Inl e \<longrightarrow>
      generateImageWithCloudflare toText hasKey fetchRelay prompt = Inl e"
    using assms by (simp add: generateImageWithCloudflare_def)
  have decoded: "json_body response = Inr body \<longrightarrow>
            (status response = 429 \<longrightarrow>
               generateImageWithCloudflare toText hasKey fetchRelay prompt =
                 Inl (ErrorObj cloudflareRateLimitMessage)) \<and>
            (status response = 401 \<longrightarrow>
               generateImageWithCloudflare toText hasKey fetchRelay prompt =
                 Inl (ErrorObj cloudflareInvalidKeyMessage)) \<and>
            (body \<noteq> JNull \<and> \<not> response_ok response \<and>
             status response \<noteq> 429 \<and> status response \<noteq> 401 \<longrightarrow>
               generateImageWithCloudflare toText hasKey fetchRelay prompt =
                 Inl (ErrorObj (''Cloudflare API error: '' @ digits (status response) @ '' ''
                        @ statusText response @ ''. ''
                        @ errorDetail toText (ownProperty body ''error'')))) \<and>
            (body \<noteq> JNull \<and> response_ok response \<longrightarrow>
               generateImageWithCloudflare toText hasKey fetchRelay prompt =
                 Inr (ownProperty body ''imageUrl'')) \<and>
            (body = JNull \<and> \<not> response_ok response \<and>
             status response \<noteq> 429 \<and> status response \<noteq> 401 \<longrightarrow>
               generateImageWithCloudflare toText hasKey fetchRelay prompt =
                 Inl (nullPropertyError ''error'')) \<and>
            (body = JNull \<and> response_ok response \<longrightarrow>
               generateImageWithCloudflare toText hasKey fetchRelay prompt =
                 Inl (nullPropertyError ''imageUrl''))"
    using assms gp by (auto simp: generateImageWithCloudflare_def response_ok_def)
  from decoded undecoded show ?thesis by (rule conjI)
qed

theorem decoded_relay_replies_are_classified_witness:
  "generateImageWithCloudflare plainText True
      (replyWith (jsonReply 429 ''Too Many Requests''
         [(''error'', JString ''Cloudflare API error: 429 Too Many Requests''),
          (''details'', JString ''no'')])) ''cave'' =
     Inl (ErrorObj cloudflareRateLimitMessage) \<and>
   generateImageWithCloudflare plainText True
      (replyWith (jsonReply 401 ''Unauthorized''
         [(''error'', JString ''Cloudflare API error: 401 Unauthorized''),
          (''details'', JString ''no'')])) ''cave'' =
     Inl (ErrorObj cloudflareInvalidKeyMessage) \<and>
   generateImageWithCloudflare plainText True
      (replyWith (jsonReply 500 ''Internal Server Error''
         [(''error'', JString ''Internal server error''),
          (''details'', JString ''fetch failed'')])) ''cave'' =
     Inl (ErrorObj ''Cloudflare API error: 500 Internal Server Error. Internal server error'') \<and>
   generateImageWithCloudflare plainText True
      (replyWith (jsonReply 200 ''OK''
         [(''imageUrl'', JString ''data:image/png;base64,AAAA'')])) ''cave'' =
     Inr (Some (JString ''data:image/png;base64,AAAA'')) \<and>
   generateImageWithCloudflare plainText True (replyWith badGateway) ''cave'' =
     Inl (ErrorObj ''Unexpected end of JSON input'')"
proof -
  have rw: "replyWith r ''cave'' = FetchResolves r" for r
    by (simp add: replyWith_def)
  have jb: "json_body (jsonReply code reason obj) = Inr (JObject obj)"
    "status (jsonReply code reason obj) = code"
    "statusText (jsonReply code reason obj) = reason" for code reason obj
    by (simp_all add: jsonReply_def)
  have c429: "generateImageWithCloudflare plainText True
      (replyWith (jsonReply 429 ''Too Many Requests''
         [(''error'', JString ''Cloudflare API error: 429 Too Many Requests''),
          (''details'', JString ''no'')])) ''cave'' =
     Inl (ErrorObj cloudflareRateLimitMessage)"
    using decoded_relay_replies_are_classified[where hasKey = True and prompt = "''cave''"
        and toText = plainText
        and response = "jsonReply 429 ''Too Many Requests''
         [(''error'', JString ''Cloudflare API error: 429 Too Many Requests''),
          (''details'', JString ''no'')]"
        and fetchRelay = "replyWith (jsonReply 429 ''Too Many Requests''
         [(''error'', JString ''Cloudflare API error: 429 Too Many Requests''),
          (''details'', JString ''no'')])"
        and body = "JObject [(''error'', JString ''Cloudflare API error: 429 Too Many Requests''),
          (''details'', JString ''no'')]", OF TrueI rw]
    by (simp add: jb)
  have c401: "generateImageWithCloudflare plainText True
      (replyWith (jsonReply 401 ''Unauthorized''
         [(''error'', JString ''Cloudflare API error: 401 Unauthorized''),
          (''details'', JString ''no'')])) ''cave'' =
     Inl (ErrorObj cloudflareInvalidKeyMessage)"
    using decoded_relay_replies_are_classified[where hasKey = True and prompt = "''cave''"
        and toText = plainText
        and response = "jsonReply 401 ''Unauthorized''
         [(''error'', JString ''Cloudflare API error: 401 Unauthorized''),
          (''details'', JString ''no'')]"
        and fetchRelay = "replyWith (jsonReply 401 ''Unauthorized''
         [(''error'', JString ''Cloudflare API error: 401 Unauthorized''),
          (''details'', JString ''no'')])"
        and body = "JObject [(''error'', JString ''Cloudflare API error: 401 Unauthorized''),
          (''details'', JString ''no'')]", OF TrueI rw]
    by (simp add: jb)
  have c500: "generateImageWithCloudflare plainText True
      (replyWith (jsonReply 500 ''Internal Server Error''
         [(''error'', JString ''Internal server error''),
          (''details'', JString ''fetch failed'')])) ''cave'' =
     Inl (ErrorObj ''Cloudflare API error: 500 Internal Server Error. Internal server error'')"
    using decoded_relay_replies_are_classified[where hasKey = True and prompt = "''cave''"
        and toText = plainText
        and response = "jsonReply 500 ''Internal Server Error''
         [(''error'', JString ''Internal server error''),
          (''details'', JString ''fetch failed'')]"
        and fetchRelay = "replyWith (jsonReply 500 ''Internal Server Error''
         [(''error'', JString ''Internal server error''),
          (''details'', JString ''fetch failed'')])"
        and body = "JObject [(''error'', JString ''Internal server error''),
          (''details'', JString ''fetch failed'')]", OF TrueI rw]
    by (simp add: jb response_ok_def digits_examples)
  have c200: "generateImageWithCloudflare plainText True
      (replyWith (jsonReply 200 ''OK''
         [(''imageUrl'', JString ''data:image/png;base64,AAAA'')])) ''cave'' =
     Inr (Some (JString ''data:image/png;base64,AAAA''))"
    using decoded_relay_replies_are_classified[where hasKey = True and prompt = "''cave''"
        and toText = plainText
        and response = "jsonReply 200 ''OK''
         [(''imageUrl'', JString ''data:image/png;base64,AAAA'')]"
        and fetchRelay = "replyWith (jsonReply 200 ''OK''
         [(''imageUrl'', JString ''data:image/png;base64,AAAA'')])"
        and body = "JObject [(''imageUrl'', JString ''data:image/png;base64,AAAA'')]",
        OF TrueI rw]
    by (simp add: jb response_ok_def)
  have c502: "generateImageWithCloudflare plainText True (replyWith badGateway) ''cave'' =
     Inl (ErrorObj ''Unexpected end of JSON input'')"
    using decoded_relay_replies_are_classified[where hasKey = True and prompt = "''cave''"
        and toText = plainText and response = badGateway
        and fetchRelay = "replyWith badGateway"
        and e = "ErrorObj ''Unexpected end of JSON input''", OF TrueI rw]
    by (simp add: badGateway_def)
  show ?thesis
    apply (intro conjI)
        apply (rule c429)
       apply (rule c401)
      apply (rule c500)
     apply (rule c200)
    apply (rule c502)
    done
qed

text \<open>
  Claim C9. The breaker is one value shared by the primary and the fallback path: when
  it is open and the clock has not passed \<open>openUntil\<close> at either admission check, a call
  with \<open>useFallback = False\<close> is refused, creates the fallback session, is refused
  again and throws the terminal error, and no message is sent to the provider.
\<close>

theorem open_breaker_refuses_primary_and_fallback:
  assumes "isOpen (circuitBreakerState w)"
    and "Date_now env (clockReads w) \<le> openUntil (circuitBreakerState w)"
    and "Date_now env (clockReads w + 1) \<le> openUntil (circuitBreakerState w)"
  shows "sendMessageToGemini env chat message False w =
           (Inl (ErrorObj unavailableMessage),
            w\<lparr>clockReads := clockReads w + 2,
              effects := effects w @ [SessionCreated FALLBACK_MODEL_NAME]\<rparr>)
         \<and> providerCalls (snd (sendMessageToGemini env chat message False w)) = providerCalls w"
  using assms
  by (simp add: sendMessageToGemini.simps checkCircuitBreaker_def createChatSession_def Let_def)

theorem open_breaker_refuses_primary_and_fallback_witness:
  "isOpen (circuitBreakerState openWorld) \<and>
   Date_now (scriptedEnv tickingClock [] (Response (Some ''{}''))) (clockReads openWorld)
     \<le> openUntil (circuitBreakerState openWorld) \<and>
   Date_now (scriptedEnv tickingClock [] (Response (Some ''{}''))) (clockReads openWorld + 1)
     \<le> openUntil (circuitBreakerState openWorld) \<and>
   fst (sendMessageToGemini (scriptedEnv tickingClock [] (Response (Some ''{}'')))
          (Chat GEMINI_MODEL_NAME) ''look'' False openWorld) = Inl (ErrorObj unavailableMessage) \<and>
   providerCalls (snd (sendMessageToGemini (scriptedEnv tickingClock [] (Response (Some ''{}'')))
          (Chat GEMINI_MODEL_NAME) ''look'' False openWorld)) = 0"
  using open_breaker_refuses_primary_and_fallback[of openWorld
          "scriptedEnv tickingClock [] (Response (Some ''{}''))" "Chat GEMINI_MODEL_NAME" "''look''"]
  by (simp add: openWorld_def initialWorld_def scriptedEnv_def tickingClock_def)

text \<open>
  Claim C10. Whenever the provider answers with a non-empty text, at whatever attempt,
  the success is recorded (failure count 0, breaker closed) and the call returns what
  the parser makes of the text, also when that is \<open>null\<close>: the breaker is reset whether or
  not the payload is valid. The same holds for the whole call when its first attempt is
  answered so.
\<close>

theorem success_recorded_before_parsing:
  assumes "chat_sendMessage env (providerCalls w) chat message = Response (Some responseText)"
    and "responseText \<noteq> []"
    and "attempt \<le> maxRetries"
  shows "\<exists>r. parseGeminiResponse (JSON_parse env) (String_trim env) responseText = Inr r \<and>
           retryLoop env chat message useFallback attempt lastError w =
             (Inr r, recordSuccess (w\<lparr>providerCalls := providerCalls w + 1,
                                      effects := effects w @ [MessageSent chat message]\<rparr>)) \<and>
           failures (circuitBreakerState
             (snd (retryLoop env chat message useFallback attempt lastError w))) = 0 \<and>
           \<not> isOpen (circuitBreakerState
             (snd (retryLoop env chat message useFallback attempt lastError w))) \<and>
           (fst (checkCircuitBreaker env w) \<longrightarrow>
              fst (sendMessageToGemini env chat message useFallback w) = Inr r \<and>
              failures (circuitBreakerState
                (snd (sendMessageToGemini env chat message useFallback w))) = 0 \<and>
              \<not> isOpen (circuitBreakerState
                (snd (sendMessageToGemini env chat message useFallback w))))"
proof -
  obtain r where r: "parseGeminiResponse (JSON_parse env) (String_trim env) responseText = Inr r"
    using parseGeminiResponse_returns by blast
  have loop: "retryLoop env chat message useFallback a le v =
          (Inr r, recordSuccess (v\<lparr>providerCalls := providerCalls v + 1,
                                   effects := effects v @ [MessageSent chat message]\<rparr>))"
    if "providerCalls v = providerCalls w" and "a \<le> maxRetries" for a le v
  proof -
    have "chat_sendMessage env (providerCalls v) chat message = Response (Some responseText)"
      using assms(1) that(1) by simp
    from tryBlock_text[OF this assms(2)] r
    have "tryBlock env chat message v =
          (Inr r, recordSuccess (v\<lparr>providerCalls := providerCalls v + 1,
                                   effects := effects v @ [MessageSent chat message]\<rparr>))"
      by simp
    from retryLoop_return[OF that(2) this] show ?thesis .
  qed
  have top: "fst (sendMessageToGemini env chat message useFallback w) = Inr r \<and>
              failures (circuitBreakerState
                (snd (sendMessageToGemini env chat message useFallback w))) = 0 \<and>
              \<not> isOpen (circuitBreakerState
                (snd (sendMessageToGemini env chat message useFallback w)))"
    if adm: "fst (checkCircuitBreaker env w)"
  proof -
    obtain w1 where c: "checkCircuitBreaker env w = (True, w1)"
      using adm by (cases "checkCircuitBreaker env w") auto
    have "providerCalls w1 = providerCalls w"
      using c by (auto simp: checkCircuitBreaker_def Let_def split: if_splits)
    from loop[OF this, of 0 None] show ?thesis
      by (simp add: send_admitted[OF c] recordSuccess_def)
  qed
  show ?thesis
    using r loop[of w attempt lastError] assms(3) top by (simp add: recordSuccess_def)
qed

theorem success_recorded_before_parsing_witness:
  "chat_sendMessage (scriptedEnv tickingClock [] (Response (Some ''nope'')))
      (providerCalls openWorld) (Chat GEMINI_MODEL_NAME) ''look'' = Response (Some ''nope'') \<and>
   ''nope'' \<noteq> [] \<and> (0::nat) \<le> maxRetries \<and>
   parseGeminiResponse (JSON_parse (scriptedEnv tickingClock [] (Response (Some ''nope''))))
      (String_trim (scriptedEnv tickingClock [] (Response (Some ''nope''))))
      ''nope'' = Inr None \<and>
   fst (retryLoop (scriptedEnv tickingClock [] (Response (Some ''nope'')))
          (Chat GEMINI_MODEL_NAME) ''look'' False 0 None openWorld) = Inr None \<and>
   failures (circuitBreakerState openWorld) = 5 \<and>
   failures (circuitBreakerState
     (snd (retryLoop (scriptedEnv tickingClock [] (Response (Some ''nope'')))
          (Chat GEMINI_MODEL_NAME) ''look'' False 0 None openWorld))) = 0 \<and>
   \<not> isOpen (circuitBreakerState
     (snd (retryLoop (scriptedEnv tickingClock [] (Response (Some ''nope'')))
          (Chat GEMINI_MODEL_NAME) ''look'' False 0 None openWorld))) \<and>
   fst (checkCircuitBreaker (scriptedEnv tickingClock [] (Response (Some ''nope''))) initialWorld) \<and>
   fst (sendMessageToGemini (scriptedEnv tickingClock [] (Response (Some ''nope'')))
          (Chat GEMINI_MODEL_NAME) ''look'' False initialWorld) = Inr None"
proof -
  have p: "parseGeminiResponse (JSON_parse (scriptedEnv tickingClock [] (Response (Some ''nope''))))
      (String_trim (scriptedEnv tickingClock [] (Response (Some ''nope''))))
      ''nope'' = Inr None"
    by (simp add: scriptedEnv_def parseGeminiResponse_def parseBody_def)
  have a: "fst (checkCircuitBreaker (scriptedEnv tickingClock [] (Response (Some ''nope'')))
             initialWorld)"
    by (simp add: checkCircuitBreaker_def initialWorld_def Let_def)
  show ?thesis
    using p a
      success_recorded_before_parsing[of "scriptedEnv tickingClock [] (Response (Some ''nope''))"
          openWorld "Chat GEMINI_MODEL_NAME" "''look''" "''nope''" 0 False None]
      success_recorded_before_parsing[of "scriptedEnv tickingClock [] (Response (Some ''nope''))"
          initialWorld "Chat GEMINI_MODEL_NAME" "''look''" "''nope''" 0 False None]
    by (auto simp: scriptedEnv_def openWorld_def initialWorld_def)
qed

end
